(* ===== verification/Prelude.thy ===== *)
theory Prelude
  imports Main "HOL-Library.Word" "HOL-Library.Sublist"
begin

text \<open>
  Shared vocabulary of the cwhy development: the Python values the command line
  produces, Python's list slicing with an integer bound, splitting a text at a
  separator character, and the generic list lemmas that the component theories
  use through the \<open>cwhy_simps\<close> collection.
\<close>

named_theorems cwhy_simps "evaluation rules shared by the cwhy component theories"

section \<open>Python values\<close>

text \<open>
  The values \<^verbatim>\<open>argparse\<close> stores in its namespace for the options of
  \<^verbatim>\<open>src/cwhy/__main__.py\<close>: booleans (\<^verbatim>\<open>store_true\<close>), strings
  (\<^verbatim>\<open>type=str\<close>) and unbounded integers (\<^verbatim>\<open>type=int\<close>).
\<close>

datatype pyval = PBool bool | PStr string | PInt int

text \<open>\<^verbatim>\<open>vars(namespace)\<close> is a dictionary from attribute names to values.\<close>

type_synonym pydict = "string \<rightharpoonup> pyval"

section \<open>Python slicing \<open>xs[:k]\<close>\<close>

text \<open>
  \<^verbatim>\<open>xs[:k]\<close> with an integer \<open>k\<close>: the first \<open>k\<close> elements when \<open>k \<ge> 0\<close>,
  and all but the last \<open>-k\<close> elements when \<open>k < 0\<close>.
\<close>

definition py_take :: "int \<Rightarrow> 'a list \<Rightarrow> 'a list" where
  "py_take k xs = (if 0 \<le> k then take (nat k) xs else take (length xs - nat (- k)) xs)"

section \<open>Splitting a text at a separator\<close>

text \<open>
  \<^verbatim>\<open>s.split(sep)\<close> for a one-character separator: the pieces between the
  separators, so that \<open>n\<close> separators give \<open>n + 1\<close> pieces.
\<close>

fun split_at_char :: "char \<Rightarrow> string \<Rightarrow> string list" where
  "split_at_char c [] = [[]]"
| "split_at_char c (x # xs) =
     (if x = c then [] # split_at_char c xs
      else (case split_at_char c xs of p # ps \<Rightarrow> (x # p) # ps | [] \<Rightarrow> [[x]]))"

text \<open>Joining the pieces with the separator, \<^verbatim>\<open>sep.join(ps)\<close>.\<close>

fun join_with :: "char \<Rightarrow> string list \<Rightarrow> string" where
  "join_with c [] = []"
| "join_with c [p] = p"
| "join_with c (p # q # ps) = p @ c # join_with c (q # ps)"

section \<open>Lemmas\<close>

lemma py_take_nonneg [cwhy_simps]: "0 \<le> k \<Longrightarrow> py_take k xs = take (nat k) xs"
  by (simp add: py_take_def)

lemma py_take_prefix: "prefix (py_take k xs) xs"
  by (simp add: py_take_def take_is_prefix)

lemma length_py_take_le: "length (py_take k xs) \<le> length xs"
  by (simp add: py_take_def)

lemma map_py_take: "map f (py_take k xs) = py_take k (map f xs)"
  by (simp add: py_take_def take_map)

lemma split_at_char_nonempty [simp]: "split_at_char c s \<noteq> []"
  by (induction s) (auto split: list.split)

lemma split_at_char_no_sep [simp]: "c \<notin> set s \<Longrightarrow> split_at_char c s = [s]"
  by (induction s) auto

lemma split_at_char_append_sep [cwhy_simps]:
  "c \<notin> set s \<Longrightarrow> split_at_char c (s @ c # t) = s # split_at_char c t"
  by (induction s) auto

lemma split_at_char_pieces: "p \<in> set (split_at_char c s) \<Longrightarrow> c \<notin> set p"
proof (induction s arbitrary: p)
  case Nil
  then show ?case by simp
next
  case (Cons x xs)
  then show ?case
    by (auto split: if_splits list.splits)
qed

lemma join_with_Cons_Cons [simp]: "join_with c ((x # p) # ps) = x # join_with c (p # ps)"
  by (cases ps) auto

lemma join_with_Nil_Cons [simp]: "join_with c ([] # q # ps) = c # join_with c (q # ps)"
  by simp

lemma join_split_at_char: "join_with c (split_at_char c s) = s"
proof (induction s)
  case Nil
  then show ?case by simp
next
  case (Cons x xs)
  have ne: "split_at_char c xs \<noteq> []" by simp
  then obtain q qs where q: "split_at_char c xs = q # qs"
    by (cases "split_at_char c xs") auto
  show ?case
  proof (cases "x = c")
    case True
    with Cons.IH q show ?thesis by simp
  next
    case False
    with Cons.IH q show ?thesis by simp
  qed
qed

text \<open>Counting the elements a \<open>takeWhile\<close> keeps.\<close>

lemma takeWhile_all_length: "\<forall>x \<in> set xs. P x \<Longrightarrow> length (takeWhile P xs) = length xs"
  by (metis takeWhile_eq_all_conv)

lemma takeWhile_stop_length:
  assumes "\<forall>x \<in> set (take k xs). P x" and "k < length xs" and "\<not> P (xs ! k)"
  shows "length (takeWhile P xs) = k"
proof -
  have "xs = take k xs @ xs ! k # drop (Suc k) xs"
    using assms(2) by (simp add: id_take_nth_drop)
  then have "takeWhile P xs = take k xs"
    using assms(1,3) by (metis append_Nil2 takeWhile.simps(2) takeWhile_append2)
  then show ?thesis using assms(2) by simp
qed

lemma take_min_length: "take (min k (length xs)) xs = take k xs"
  by (simp add: min_def)

end
