(* ===== verification/PyInt.thy ===== *)
theory PyInt
  imports Prelude
begin

text \<open>
  Python's conversions between integers and decimal text, as the command line of
  \<^verbatim>\<open>src/cwhy/__main__.py\<close> uses them: \<^verbatim>\<open>int(s)\<close> is the \<^verbatim>\<open>type=int\<close>
  converter of \<^verbatim>\<open>--timeout\<close> and \<^verbatim>\<open>--max-context\<close> (a \<^verbatim>\<open>ValueError\<close>
  is \<open>None\<close>), and \<^verbatim>\<open>str(n)\<close> prints an integer.  \<^verbatim>\<open>int\<close> skips ASCII
  white space (space, tab, LF, VT, FF, CR) on both sides, takes one optional sign,
  and then decimal digits in which single underscores may separate two digits.
  Characters are bytes here: the Unicode digits and spaces Python also accepts are
  outside the model.
\<close>

definition py_isspace :: "char \<Rightarrow> bool" where
  "py_isspace c \<longleftrightarrow> c = CHR '' '' \<or> (9 \<le> (of_char c :: nat) \<and> (of_char c :: nat) \<le> 13)"

definition py_strip :: "string \<Rightarrow> string" where
  "py_strip s = rev (dropWhile py_isspace (rev (dropWhile py_isspace s)))"

definition is_digit :: "char \<Rightarrow> bool" where
  "is_digit c \<longleftrightarrow> 48 \<le> (of_char c :: nat) \<and> (of_char c :: nat) \<le> 57"

definition digit_val :: "char \<Rightarrow> nat" where
  "digit_val c = of_char c - 48"

definition digit_char :: "nat \<Rightarrow> char" where
  "digit_char d = char_of (48 + d)"

text \<open>
  The digits after the first: each further digit may be preceded by one
  underscore; anything else ends the number with a \<^verbatim>\<open>ValueError\<close>.
\<close>

fun digits_tail :: "nat \<Rightarrow> string \<Rightarrow> nat option" where
  "digits_tail acc [] = Some acc"
| "digits_tail acc (c # cs) =
     (if is_digit c then digits_tail (10 * acc + digit_val c) cs
      else if c = CHR ''_'' then
        (case cs of
           d # ds \<Rightarrow> if is_digit d then digits_tail (10 * acc + digit_val d) ds else None
         | [] \<Rightarrow> None)
      else None)"

definition py_decimal :: "string \<Rightarrow> nat option" where
  "py_decimal s =
     (case s of c # cs \<Rightarrow> if is_digit c then digits_tail (digit_val c) cs else None
              | [] \<Rightarrow> None)"

definition py_int :: "string \<Rightarrow> int option" where
  "py_int s =
     (case py_strip s of
        c # r \<Rightarrow>
          if c = CHR ''-'' then map_option (\<lambda>n. - int n) (py_decimal r)
          else if c = CHR ''+'' then map_option int (py_decimal r)
          else map_option int (py_decimal (c # r))
      | [] \<Rightarrow> None)"

text \<open>\<^verbatim>\<open>str(n)\<close>: the decimal digits, most significant first, after a minus sign.\<close>

fun py_str_nat :: "nat \<Rightarrow> string" where
  "py_str_nat n = (if n < 10 then [digit_char n] else py_str_nat (n div 10) @ [digit_char (n mod 10)])"

definition py_str_int :: "int \<Rightarrow> string" where
  "py_str_int i = (if i < 0 then CHR ''-'' # py_str_nat (nat (- i)) else py_str_nat (nat i))"

text \<open>The value of a plain digit string, read most significant digit first.\<close>

definition digits_value :: "nat \<Rightarrow> string \<Rightarrow> nat" where
  "digits_value acc ds = foldl (\<lambda>a c. 10 * a + digit_val c) acc ds"

declare py_str_nat.simps [simp del]

section \<open>Digits\<close>

lemma digit_char_is_digit [simp]: "d < 10 \<Longrightarrow> is_digit (digit_char d)"
  by (simp add: digit_char_def is_digit_def)

lemma digit_val_digit_char [simp]: "d < 10 \<Longrightarrow> digit_val (digit_char d) = d"
  by (simp add: digit_char_def digit_val_def)

lemma digit_val_less: "is_digit c \<Longrightarrow> digit_val c < 10"
  unfolding is_digit_def digit_val_def by linarith

lemma digit_not_space [simp]: "is_digit c \<Longrightarrow> \<not> py_isspace c"
  by (auto simp: is_digit_def py_isspace_def)

lemma digit_not_underscore [simp]: "is_digit c \<Longrightarrow> c \<noteq> CHR ''_''"
  by (auto simp: is_digit_def)

lemma digit_not_sign [simp]: "is_digit c \<Longrightarrow> c \<noteq> CHR ''-''" "is_digit c \<Longrightarrow> c \<noteq> CHR ''+''"
  by (auto simp: is_digit_def)

lemma digit_not_letter [simp]:
  "is_digit c \<Longrightarrow> c \<noteq> CHR ''h''" "is_digit c \<Longrightarrow> CHR ''h'' \<noteq> c"
  "is_digit c \<Longrightarrow> c \<noteq> CHR ''=''" "is_digit c \<Longrightarrow> CHR ''='' \<noteq> c"
  "is_digit c \<Longrightarrow> CHR ''-'' \<noteq> c"
  by (auto simp: is_digit_def)

lemma py_str_nat_digits: "c \<in> set (py_str_nat n) \<Longrightarrow> is_digit c"
proof (induction n rule: py_str_nat.induct)
  case (1 n)
  then show ?case
    by (subst (asm) py_str_nat.simps) (auto split: if_splits)
qed

lemma py_str_nat_nonempty [simp]: "py_str_nat n \<noteq> []"
  by (subst py_str_nat.simps) simp

lemma digits_tail_plain:
  "\<forall>c \<in> set ds. is_digit c \<Longrightarrow> digits_tail acc ds = Some (digits_value acc ds)"
  by (induction ds arbitrary: acc) (auto simp: digits_value_def)

lemma digits_value_py_str_nat: "digits_value 0 (py_str_nat n) = n"
proof (induction n rule: py_str_nat.induct)
  case (1 n)
  show ?case
  proof (cases "n < 10")
    case True
    then show ?thesis by (subst py_str_nat.simps) (simp add: digits_value_def)
  next
    case False
    with "1.IH" have "digits_value 0 (py_str_nat (n div 10)) = n div 10" by simp
    with False show ?thesis
      by (subst py_str_nat.simps) (simp add: digits_value_def)
  qed
qed

lemma py_decimal_py_str_nat [simp]: "py_decimal (py_str_nat n) = Some n"
proof -
  obtain c cs where cs: "py_str_nat n = c # cs"
    by (cases "py_str_nat n") auto
  have digits: "\<forall>x \<in> set (c # cs). is_digit x"
    using py_str_nat_digits cs by metis
  have "digits_tail (digit_val c) cs = Some (digits_value 0 (c # cs))"
    using digits digits_tail_plain by (simp add: digits_value_def)
  then show ?thesis
    using digits cs digits_value_py_str_nat [of n] by (simp add: py_decimal_def)
qed

lemma py_str_nat_hd: "\<exists>d ds. py_str_nat n = d # ds \<and> is_digit d \<and> list_all is_digit ds"
proof -
  obtain d ds where ds: "py_str_nat n = d # ds" by (cases "py_str_nat n") auto
  then have "list_all is_digit (d # ds)"
    using py_str_nat_digits by (metis list_all_iff)
  with ds show ?thesis by auto
qed

lemma py_str_int_not_dashdash [simp]: "py_str_int i \<noteq> ''--''"
proof (cases "i < 0")
  case True
  obtain d ds where "py_str_nat (nat (- i)) = d # ds" "is_digit d"
    using py_str_nat_hd by blast
  with True show ?thesis by (simp add: py_str_int_def)
next
  case False
  obtain d ds where "py_str_nat (nat i) = d # ds" "is_digit d"
    using py_str_nat_hd by blast
  with False show ?thesis by (simp add: py_str_int_def)
qed

lemma dropWhile_none: "\<forall>x \<in> set xs. \<not> P x \<Longrightarrow> dropWhile P xs = xs"
  by (induction xs) auto

lemma py_strip_no_space [simp]: "\<forall>c \<in> set s. \<not> py_isspace c \<Longrightarrow> py_strip s = s"
  by (simp add: py_strip_def dropWhile_none)

lemma py_int_py_str_int: "py_int (py_str_int i) = Some i"
proof -
  have nsp: "\<forall>c \<in> set (py_str_nat n). \<not> py_isspace c" for n
    using py_str_nat_digits digit_not_space by blast
  have minus: "\<not> py_isspace (CHR ''-'')" by (simp add: py_isspace_def)
  obtain c cs where cs: "py_str_nat (nat i) = c # cs"
    by (cases "py_str_nat (nat i)") auto
  have c: "is_digit c" using cs py_str_nat_digits by (metis list.set_intros(1))
  show ?thesis
  proof (cases "i < 0")
    case True
    with nsp [of "nat (- i)"] minus show ?thesis
      by (simp add: py_str_int_def py_int_def)
  next
    case False
    with nsp [of "nat i"] cs c show ?thesis
      using py_decimal_py_str_nat [of "nat i"]
      by (simp add: py_str_int_def py_int_def)
  qed
qed

lemma dropWhile_space_append:
  "list_all py_isspace a \<Longrightarrow> dropWhile py_isspace (a @ s) = dropWhile py_isspace s"
  by (induction a) simp_all

lemma py_strip_pad:
  assumes "list_all py_isspace a" and "list_all py_isspace b"
    and "s \<noteq> []" and "\<forall>c \<in> set s. \<not> py_isspace c"
  shows "py_strip (a @ s @ b) = s"
proof -
  obtain c s' where s: "s = c # s'" using assms(3) by (cases s) auto
  have "dropWhile py_isspace (a @ s @ b) = s @ b"
    using assms(1,4) s by (simp add: dropWhile_space_append)
  moreover obtain d r where r: "rev s = d # r" using assms(3) by (cases "rev s") auto
  moreover have "\<not> py_isspace d" using assms(4) r by (metis list.set_intros(1) set_rev)
  moreover have "list_all py_isspace (rev b)" using assms(2) by (simp add: list_all_iff)
  ultimately show ?thesis
    by (simp add: py_strip_def dropWhile_space_append)
qed

text \<open>
  \<^verbatim>\<open>int()\<close> reads back every integer \<^verbatim>\<open>str()\<close> prints, also when it is
  surrounded by ASCII white space (spaces, tabs, newlines).
\<close>

lemma py_int_padded:
  assumes "list_all py_isspace a" and "list_all py_isspace b"
  shows "py_int (a @ py_str_int i @ b) = Some i"
proof -
  have digits: "\<forall>c \<in> set (py_str_nat n). \<not> py_isspace c" for n
    using py_str_nat_digits digit_not_space by blast
  have "\<not> py_isspace (CHR ''-'')" by (simp add: py_isspace_def)
  with digits have nsp: "\<forall>c \<in> set (py_str_int i). \<not> py_isspace c"
    by (simp add: py_str_int_def)
  have ne: "py_str_int i \<noteq> []" by (simp add: py_str_int_def)
  have "py_strip (a @ py_str_int i @ b) = py_strip (py_str_int i)"
    using py_strip_pad [OF assms ne nsp] py_strip_no_space [OF nsp] by simp
  then have "py_int (a @ py_str_int i @ b) = py_int (py_str_int i)"
    by (simp add: py_int_def)
  then show ?thesis by (simp add: py_int_py_str_int)
qed

end
