(* ===== verification/ArgParse.thy ===== *)
theory ArgParse
  imports PyInt
begin

text \<open>
  The part of Python 3.11's \<^verbatim>\<open>argparse\<close> that the parser declared in
  \<^verbatim>\<open>src/cwhy/__main__.py\<close> (lines 19--77) exercises: long options with
  \<^verbatim>\<open>--opt value\<close>, \<^verbatim>\<open>--opt=value\<close> and unique-prefix abbreviation,
  the short help flag \<^verbatim>\<open>-h\<close> with its clustering rules,
  \<^verbatim>\<open>store_true\<close> flags, \<^verbatim>\<open>type=str\<close> and \<^verbatim>\<open>type=int\<close> values,
  and one subparsers positional whose subparsers declare no arguments of their own.
  Parsing is in two passes, as in \<^verbatim>\<open>ArgumentParser._parse_known_args\<close>: every
  argument is classified first (\<open>classify_all\<close>, where an ambiguous abbreviation
  stops the program at once), then the classified arguments are consumed from left
  to right (\<open>consume\<close>), each option's actions being taken as soon as the option is
  read (so \<^verbatim>\<open>-h\<close> exits before later arguments are converted).
  Usage and help texts are not modelled: an error is a value of \<open>arg_error\<close>
  together with the program name that reports it, and help is the program name
  whose help is printed.
\<close>

section \<open>Actions, parsers and results\<close>

datatype conv = ConvStr | ConvInt

datatype action = HelpAction | StoreTrue string | Store string conv

type_synonym opt_table = "(string \<times> action) list"

record parser_spec =
  prog :: string
  optionals :: opt_table
  defaults :: pydict
  sub_dest :: string
  sub_choices :: "string list"

datatype arg_error =
    Ambiguous string "string list"
  | ExpectedOneArgument string
  | IgnoredExplicit string string
  | InvalidInt string string
  | InvalidChoice string
  | Unrecognized "string list"

datatype parse_result = Parsed pydict | HelpExit string | ErrorExit string arg_error

text \<open>
  An argument is a positional (\<open>A\<close> in argparse's pattern string), the separator
  \<^verbatim>\<open>--\<close> (\<open>-\<close>), or an option (\<open>O\<close>) with the action found for it (none when
  the parser has no such option), the option string, and an explicit argument
  written in the same word together with whether it followed an \<^verbatim>\<open>=\<close>.
\<close>

datatype argkind = Positional | DashDash | Optional "action option" string "(bool \<times> string) option"

text \<open>The number of values an action takes (its \<^verbatim>\<open>nargs\<close>).\<close>

fun act_nargs :: "action \<Rightarrow> nat" where
  "act_nargs HelpAction = 0"
| "act_nargs (StoreTrue d) = 0"
| "act_nargs (Store d c) = 1"

section \<open>Classifying one argument: \<^verbatim>\<open>_parse_optional\<close>\<close>

definition long_opt :: "string \<Rightarrow> bool" where
  "long_opt s \<longleftrightarrow> take 2 s = ''--''"

text \<open>\<^verbatim>\<open>s.partition('=')\<close>: the text before the first \<^verbatim>\<open>=\<close>, and the text after it if there is one.\<close>

definition partition_eq :: "string \<Rightarrow> string \<times> string option" where
  "partition_eq s =
     (takeWhile (\<lambda>c. c \<noteq> CHR ''='') s,
      (case dropWhile (\<lambda>c. c \<noteq> CHR ''='') s of [] \<Rightarrow> None | _ # r \<Rightarrow> Some r))"

text \<open>
  \<^verbatim>\<open>_negative_number_matcher.match(s)\<close>, the pattern
  \<^verbatim>\<open>^-\d+$|^-\d*\.\d+$\<close> with ASCII digits.  Python's \<^verbatim>\<open>$\<close> matches at
  the end of the word and also just before a newline that ends it, so
  \<^verbatim>\<open>-5\n\<close> is a negative number too.
\<close>

definition negative_number :: "string \<Rightarrow> bool" where
  "negative_number s \<longleftrightarrow>
     (let t = (if s \<noteq> [] \<and> last s = CHR 0x0A then butlast s else s) in
      case t of
        c # r \<Rightarrow> c = CHR ''-'' \<and>
          ((r \<noteq> [] \<and> list_all is_digit r) \<or>
           (let ds = takeWhile is_digit r in
              case drop (length ds) r of
                d # fs \<Rightarrow> d = CHR ''.'' \<and> fs \<noteq> [] \<and> list_all is_digit fs
              | [] \<Rightarrow> False))
      | [] \<Rightarrow> False)"

text \<open>
  \<^verbatim>\<open>_get_option_tuples\<close>: the options an abbreviated word may stand for.  A word
  starting with \<^verbatim>\<open>--\<close> is split at its first \<^verbatim>\<open>=\<close> and matches every option
  it is a prefix of; a word with one dash matches the option formed by its first two
  characters (the rest being an explicit argument) and every option it is a prefix
  of.
\<close>

definition option_tuples :: "opt_table \<Rightarrow> string \<Rightarrow> (action \<times> string \<times> (bool \<times> string) option) list" where
  "option_tuples tbl s =
     (if long_opt s then
        (let (pre, ex) = partition_eq s in
           map (\<lambda>(os, a). (a, os, map_option (\<lambda>e. (True, e)) ex))
             (filter (\<lambda>(os, a). prefix pre os) tbl))
      else
        concat (map (\<lambda>(os, a).
            if os = take 2 s then [(a, os, Some (False, drop 2 s))]
            else if prefix s os then [(a, os, None)] else []) tbl))"

text \<open>A word \<^verbatim>\<open>opt=value\<close> whose part before the first \<^verbatim>\<open>=\<close> is an option.\<close>

definition exact_with_arg :: "opt_table \<Rightarrow> string \<Rightarrow> argkind option" where
  "exact_with_arg tbl s =
     (case partition_eq s of
        (os, Some e) \<Rightarrow> map_option (\<lambda>a. Optional (Some a) os (Some (True, e))) (map_of tbl os)
      | (os, None) \<Rightarrow> None)"

definition parse_optional :: "opt_table \<Rightarrow> string \<Rightarrow> arg_error + argkind" where
  "parse_optional tbl s =
     (if s = [] \<or> hd s \<noteq> CHR ''-'' then Inr Positional
      else case map_of tbl s of
        Some a \<Rightarrow> Inr (Optional (Some a) s None)
      | None \<Rightarrow>
          if length s = 1 then Inr Positional
          else case exact_with_arg tbl s of
            Some k \<Rightarrow> Inr k
          | None \<Rightarrow>
              (case option_tuples tbl s of
                 [] \<Rightarrow> if negative_number s then Inr Positional
                       else if CHR '' '' \<in> set s then Inr Positional
                       else Inr (Optional None s None)
               | [(a, os, ex)] \<Rightarrow> Inr (Optional (Some a) os ex)
               | tups \<Rightarrow> Inl (Ambiguous s (map (\<lambda>(a, os, ex). os) tups))))"

text \<open>
  All arguments are classified before any is consumed; every argument after the
  first \<^verbatim>\<open>--\<close> is a positional.
\<close>

fun classify_all :: "opt_table \<Rightarrow> string list \<Rightarrow> arg_error + (string \<times> argkind) list" where
  "classify_all tbl [] = Inr []"
| "classify_all tbl (s # ss) =
     (if s = ''--'' then Inr ((s, DashDash) # map (\<lambda>x. (x, Positional)) ss)
      else case parse_optional tbl s of
        Inl e \<Rightarrow> Inl e
      | Inr k \<Rightarrow> (case classify_all tbl ss of Inl e \<Rightarrow> Inl e | Inr ks \<Rightarrow> Inr ((s, k) # ks)))"

section \<open>Consuming an option: \<^verbatim>\<open>consume_optional\<close>\<close>

text \<open>
  After a single-dash flag clustered with more characters (\<^verbatim>\<open>-hh\<close>), the
  explicit argument left over.
\<close>

definition next_explicit :: "string \<Rightarrow> (bool \<times> string) option" where
  "next_explicit r =
     (case r of [] \<Rightarrow> None | c # r' \<Rightarrow> if c = CHR ''='' then Some (True, r') else Some (False, r))"

text \<open>
  The \<^verbatim>\<open>while True\<close> loop of \<^verbatim>\<open>consume_optional\<close>.  It collects the
  actions to take, each with its values and option string, and reports the words it
  adds to the extras and how many of the following arguments it used as values.
  Without an explicit argument an action with one value takes the next argument,
  which must be a positional.  With one, a long option or an option with one value
  takes it whole; a short flag takes none and reads the next character as another
  short option.
\<close>

type_synonym act_tuple = "action \<times> string list \<times> string"

function consume_opt ::
  "opt_table \<Rightarrow> action \<Rightarrow> string \<Rightarrow> (bool \<times> string) option \<Rightarrow> (string \<times> argkind) list
   \<Rightarrow> act_tuple list \<Rightarrow> arg_error + (act_tuple list \<times> string list \<times> nat)" where
  "consume_opt tbl a os None fol acc =
     (if act_nargs a = 0 then Inr (acc @ [(a, [], os)], [], 0)
      else case fol of
        (v, Positional) # _ \<Rightarrow> Inr (acc @ [(a, [v], os)], [], 1)
      | _ \<Rightarrow> Inl (ExpectedOneArgument os))"
| "consume_opt tbl a os (Some (sep, e)) fol acc =
     (if act_nargs a = 0 \<and> \<not> long_opt os \<and> e \<noteq> [] then
        (if sep \<or> hd e = CHR ''-'' then Inl (IgnoredExplicit os e)
         else case map_of tbl [hd os, hd e] of
           Some a' \<Rightarrow> consume_opt tbl a' [hd os, hd e] (next_explicit (tl e)) fol (acc @ [(a, [], os)])
         | None \<Rightarrow> Inr (acc @ [(a, [], os)], [hd os # e], 0))
      else if act_nargs a = 1 then Inr (acc @ [(a, [e], os)], [], 0)
      else Inl (IgnoredExplicit os e))"
  by pat_completeness auto
termination
proof (relation "measure (\<lambda>(tbl, a, os, ex, fol, acc). case ex of None \<Rightarrow> 0 | Some (_, e) \<Rightarrow> Suc (length e))")
  show "wf (measure (\<lambda>(tbl, a, os, ex, fol, acc). case ex of None \<Rightarrow> 0 | Some (_, e) \<Rightarrow> Suc (length e)))"
    by simp
next
  fix tbl :: opt_table and a a' :: action and os e :: string and sep :: bool
    and fol :: "(string \<times> argkind) list" and acc :: "act_tuple list"
  assume "act_nargs a = 0 \<and> \<not> long_opt os \<and> e \<noteq> []"
  then show "((tbl, a', [hd os, hd e], next_explicit (tl e), fol, acc @ [(a, [], os)]),
              tbl, a, os, Some (sep, e), fol, acc)
             \<in> measure (\<lambda>(tbl, a, os, ex, fol, acc). case ex of None \<Rightarrow> 0 | Some (_, e) \<Rightarrow> Suc (length e))"
    by (cases e) (auto simp: next_explicit_def split: list.splits)
qed

section \<open>Taking actions: \<^verbatim>\<open>take_action\<close>\<close>

text \<open>
  A step of parsing either goes on with the updated namespace or stops the program:
  \<^verbatim>\<open>_HelpAction\<close> prints the help and exits at once, a failed conversion raises.
\<close>

datatype step = Go pydict | Stop parse_result

fun take_action :: "string \<Rightarrow> pydict \<Rightarrow> act_tuple \<Rightarrow> step" where
  "take_action pr ns (HelpAction, vs, os) = Stop (HelpExit pr)"
| "take_action pr ns (StoreTrue d, vs, os) = Go (ns(d \<mapsto> PBool True))"
| "take_action pr ns (Store d ConvStr, vs, os) =
     (case vs of [v] \<Rightarrow> Go (ns(d \<mapsto> PStr v)) | _ \<Rightarrow> Stop (ErrorExit pr (ExpectedOneArgument os)))"
| "take_action pr ns (Store d ConvInt, vs, os) =
     (case vs of
        [v] \<Rightarrow> (case py_int v of
                   Some i \<Rightarrow> Go (ns(d \<mapsto> PInt i))
                 | None \<Rightarrow> Stop (ErrorExit pr (InvalidInt os v)))
      | _ \<Rightarrow> Stop (ErrorExit pr (ExpectedOneArgument os)))"

fun run_actions :: "string \<Rightarrow> pydict \<Rightarrow> act_tuple list \<Rightarrow> step" where
  "run_actions pr ns [] = Go ns"
| "run_actions pr ns (t # ts) =
     (case take_action pr ns t of Go ns' \<Rightarrow> run_actions pr ns' ts | Stop r \<Rightarrow> Stop r)"

section \<open>The main loop of \<^verbatim>\<open>_parse_known_args\<close>\<close>

text \<open>
  Consuming the classified arguments from left to right.  An unknown option goes to
  the extras.  A positional (or a \<^verbatim>\<open>--\<close> followed by one), while the
  subparsers positional is still unfilled, matches its pattern \<^verbatim>\<open>-*A[-AO]*\<close>
  and so takes every remaining argument: the first names the subparser, which
  parses the rest (\<open>Enter\<close>).  Other positionals go to the extras.
\<close>

datatype consumed =
    Consumed pydict "string list"
  | Enter string "string list" pydict "string list"
  | Halted parse_result

function consume :: "parser_spec \<Rightarrow> (string \<times> argkind) list \<Rightarrow> pydict \<Rightarrow> string list \<Rightarrow> bool \<Rightarrow> consumed" where
  "consume p [] ns ex pending = Consumed ns ex"
| "consume p ((s, Optional None os oex) # rest) ns ex pending = consume p rest ns (ex @ [s]) pending"
| "consume p ((s, Optional (Some a) os oex) # rest) ns ex pending =
     (case consume_opt (optionals p) a os oex rest [] of
        Inl e \<Rightarrow> Halted (ErrorExit (prog p) e)
      | Inr (tups, ex', n) \<Rightarrow>
          (case run_actions (prog p) ns tups of
             Stop r \<Rightarrow> Halted r
           | Go ns' \<Rightarrow> consume p (drop n rest) ns' (ex @ ex') pending))"
| "consume p ((s, Positional) # rest) ns ex pending =
     (if pending then Enter s (map fst rest) ns ex
      else consume p rest ns (ex @ [s]) pending)"
| "consume p ((s, DashDash) # rest) ns ex pending =
     (if pending \<and> rest \<noteq> [] then Enter s (map fst rest) ns ex
      else consume p rest ns (ex @ [s]) pending)"
  by pat_completeness auto
termination
  by (relation "measure (\<lambda>(p, toks, ns, ex, pending). length toks)") auto

text \<open>
  A subparser created by \<^verbatim>\<open>add_parser(name, help=...)\<close>: its program name
  is the parent's followed by the name, and it has only the help options.
\<close>

definition help_table :: opt_table where
  "help_table = [(''-h'', HelpAction), (''--help'', HelpAction)]"

definition sub_parser :: "parser_spec \<Rightarrow> string \<Rightarrow> parser_spec" where
  "sub_parser p name =
     \<lparr>prog = prog p @ '' '' @ name, optionals = help_table, defaults = Map.empty,
      sub_dest = sub_dest p, sub_choices = []\<rparr>"

text \<open>
  \<^verbatim>\<open>parse_known_args\<close> of a parser without subparsers: the namespace and the
  extras, or the end of the program.
\<close>

definition parse_flat :: "parser_spec \<Rightarrow> string list \<Rightarrow> consumed" where
  "parse_flat p args =
     (case classify_all (optionals p) args of
        Inl e \<Rightarrow> Halted (ErrorExit (prog p) e)
      | Inr toks \<Rightarrow> consume p toks Map.empty [] False)"

text \<open>
  \<^verbatim>\<open>parse_known_args\<close> of the main parser: defaults first, then the arguments;
  on entering a subparser, \<^verbatim>\<open>_SubParsersAction.__call__\<close> checks the choice,
  records it under the subparsers' \<^verbatim>\<open>dest\<close>, parses the rest with the
  subparser and adds the subparser's extras to the parent's.  String defaults are
  passed through their \<^verbatim>\<open>type\<close> at the end, which for the \<^verbatim>\<open>str\<close>
  options and the untyped subcommand is the identity.
\<close>

definition parse_known :: "parser_spec \<Rightarrow> string list \<Rightarrow> consumed" where
  "parse_known p args =
     (case classify_all (optionals p) args of
        Inl e \<Rightarrow> Halted (ErrorExit (prog p) e)
      | Inr toks \<Rightarrow>
          (case consume p toks (defaults p) [] (sub_choices p \<noteq> []) of
             Enter name rest ns ex \<Rightarrow>
               (if name \<notin> set (sub_choices p) then Halted (ErrorExit (prog p) (InvalidChoice name))
                else (case parse_flat (sub_parser p name) rest of
                        Consumed ns' ex' \<Rightarrow> Consumed ((ns(sub_dest p \<mapsto> PStr name)) ++ ns') (ex @ ex')
                      | Halted r \<Rightarrow> Halted r
                      | Enter _ _ _ _ \<Rightarrow> Halted (ErrorExit (prog p) (InvalidChoice name))))
           | c \<Rightarrow> c))"

text \<open>\<^verbatim>\<open>parse_args\<close>: extras are an error of the main parser.\<close>

definition parse_args :: "parser_spec \<Rightarrow> string list \<Rightarrow> parse_result" where
  "parse_args p args =
     (case parse_known p args of
        Consumed ns ex \<Rightarrow> if ex = [] then Parsed ns else ErrorExit (prog p) (Unrecognized ex)
      | Halted r \<Rightarrow> r
      | Enter name _ _ _ \<Rightarrow> ErrorExit (prog p) (InvalidChoice name))"

text \<open>The single word \<^verbatim>\<open>opt=value\<close> that passes a value to an option.\<close>

definition opt_assign :: "string \<Rightarrow> string \<Rightarrow> string" where
  "opt_assign os v = os @ CHR ''='' # v"

section \<open>Well-typed namespaces\<close>

text \<open>
  The destination an action writes, whether a value has the type the action stores
  there, and what it means for a namespace to hold a value of the declared type at
  every destination of the parser and a valid choice at the subparsers' one.
\<close>

fun action_dest :: "action \<Rightarrow> string option" where
  "action_dest HelpAction = None"
| "action_dest (StoreTrue d) = Some d"
| "action_dest (Store d c) = Some d"

fun slot_ok :: "pydict \<Rightarrow> action \<Rightarrow> bool" where
  "slot_ok ns HelpAction = True"
| "slot_ok ns (StoreTrue d) = (case ns d of Some (PBool _) \<Rightarrow> True | _ \<Rightarrow> False)"
| "slot_ok ns (Store d ConvStr) = (case ns d of Some (PStr _) \<Rightarrow> True | _ \<Rightarrow> False)"
| "slot_ok ns (Store d ConvInt) = (case ns d of Some (PInt _) \<Rightarrow> True | _ \<Rightarrow> False)"

definition slots_ok :: "opt_table \<Rightarrow> pydict \<Rightarrow> bool" where
  "slots_ok tbl ns \<longleftrightarrow> list_all (\<lambda>(os, a). slot_ok ns a) tbl"

definition args_ok :: "parser_spec \<Rightarrow> pydict \<Rightarrow> bool" where
  "args_ok p ns \<longleftrightarrow> slots_ok (optionals p) ns \<and>
     (case ns (sub_dest p) of Some (PStr c) \<Rightarrow> c \<in> set (sub_choices p) | _ \<Rightarrow> False)"

text \<open>
  A table is consistent when two actions writing the same destination are the same
  action (so the destination has one type), and a parser is well formed when its
  table is consistent, the subparsers' destination is written by no option, and its
  defaults are well typed.
\<close>

definition table_actions :: "opt_table \<Rightarrow> action set" where
  "table_actions tbl = snd ` set tbl"

definition table_consistent :: "opt_table \<Rightarrow> bool" where
  "table_consistent tbl \<longleftrightarrow>
     list_all (\<lambda>(o1, a1). list_all (\<lambda>(o2, a2).
        action_dest a1 = None \<or> action_dest a1 \<noteq> action_dest a2 \<or> a1 = a2) tbl) tbl"

definition parser_wf :: "parser_spec \<Rightarrow> bool" where
  "parser_wf p \<longleftrightarrow> table_consistent (optionals p) \<and>
     list_all (\<lambda>(os, a). action_dest a \<noteq> Some (sub_dest p)) (optionals p) \<and>
     args_ok p (defaults p)"

text \<open>
  What an action may change: the values at the destinations of the table stay well
  typed, and every other key keeps its value.
\<close>

definition keeps :: "opt_table \<Rightarrow> pydict \<Rightarrow> pydict \<Rightarrow> bool" where
  "keeps tbl ns ns' \<longleftrightarrow> slots_ok tbl ns' \<and>
     (\<forall>k. (\<forall>(os, a) \<in> set tbl. action_dest a \<noteq> Some k) \<longrightarrow> ns' k = ns k)"

text \<open>The actions of the classified words are actions of the table.\<close>

definition toks_in_table :: "opt_table \<Rightarrow> (string \<times> argkind) list \<Rightarrow> bool" where
  "toks_in_table tbl toks \<longleftrightarrow>
     (\<forall>w a os oex. (w, Optional (Some a) os oex) \<in> set toks \<longrightarrow> a \<in> table_actions tbl)"

text \<open>The namespace that leaves the main loop is one the actions of the table could make.\<close>

definition consumed_keeps :: "opt_table \<Rightarrow> pydict \<Rightarrow> consumed \<Rightarrow> bool" where
  "consumed_keeps tbl ns r =
     (case r of Consumed ns' _ \<Rightarrow> keeps tbl ns ns' | Enter _ _ ns' _ \<Rightarrow> keeps tbl ns ns' | Halted _ \<Rightarrow> True)"

section \<open>Lemmas: classification\<close>

lemma option_tuples_action:
  "(a, os, ex) \<in> set (option_tuples tbl s) \<Longrightarrow> (os, a) \<in> set tbl"
  by (auto simp: option_tuples_def Let_def split: prod.splits if_splits)

lemma parse_optional_action:
  assumes "parse_optional tbl s = Inr (Optional (Some a) os ex)"
  shows "(os, a) \<in> set tbl"
proof -
  have tup: "\<forall>(a, os, ex) \<in> set (option_tuples tbl s). (os, a) \<in> set tbl"
    using option_tuples_action by blast
  show ?thesis
    using assms tup unfolding parse_optional_def exact_with_arg_def
    by (auto split: if_splits option.splits list.splits prod.splits dest: map_of_SomeD)
qed

lemma table_actionsI [intro]: "(os, a) \<in> set tbl \<Longrightarrow> a \<in> table_actions tbl"
  by (force simp: table_actions_def)

lemma table_actionsE [elim]: "a \<in> table_actions tbl \<Longrightarrow> (\<And>os. (os, a) \<in> set tbl \<Longrightarrow> P) \<Longrightarrow> P"
  by (auto simp: table_actions_def)

lemma parse_optional_exact:
  "map_of tbl os = Some a \<Longrightarrow> os \<noteq> [] \<Longrightarrow> hd os = CHR ''-'' \<Longrightarrow>
   parse_optional tbl os = Inr (Optional (Some a) os None)"
  by (simp add: parse_optional_def)

lemma parse_optional_positional:
  "s = [] \<or> hd s \<noteq> CHR ''-'' \<Longrightarrow> parse_optional tbl s = Inr Positional"
  by (simp add: parse_optional_def)

lemma partition_eq_no_eq:
  assumes "CHR ''='' \<notin> set s"
  shows "partition_eq s = (s, None)"
proof -
  from assms have all: "\<forall>x \<in> set s. x \<noteq> CHR ''=''" by blast
  then have t: "takeWhile (\<lambda>c. c \<noteq> CHR ''='') s = s" by (simp only: takeWhile_eq_all_conv)
  from all have d: "dropWhile (\<lambda>c. c \<noteq> CHR ''='') s = []" by (simp only: dropWhile_eq_Nil_conv)
  show ?thesis unfolding partition_eq_def t d by simp
qed

lemma map_of_no_eq_key:
  "\<forall>(k, b) \<in> set tbl. CHR ''='' \<notin> set k \<Longrightarrow> map_of tbl (os @ CHR ''='' # v) = None"
  by (induction tbl) auto

lemma parse_optional_opt_assign:
  assumes "map_of tbl os \<noteq> None" "CHR ''='' \<notin> set os" "os \<noteq> []" "hd os = CHR ''-''"
    "\<forall>(k, b) \<in> set tbl. CHR ''='' \<notin> set k"
  shows "parse_optional tbl (opt_assign os v) =
    (case map_of tbl os of Some a \<Rightarrow> Inr (Optional (Some a) os (Some (True, v))) | None \<Rightarrow> Inr Positional)"
proof -
  have "map_of tbl (os @ CHR ''='' # v) = None"
    using assms(5) by (rule map_of_no_eq_key)
  moreover have "partition_eq (os @ CHR ''='' # v) = (os, Some v)"
    using assms(2) by (simp add: partition_eq_def takeWhile_append dropWhile_append)
  ultimately show ?thesis
    using assms by (auto simp: parse_optional_def exact_with_arg_def opt_assign_def)
qed

lemma opt_assign_not_dashdash [simp]: "opt_assign os v \<noteq> ''--''"
proof
  assume eq: "opt_assign os v = ''--''"
  have "CHR ''='' \<in> set (opt_assign os v)" by (simp add: opt_assign_def)
  with eq show False by simp
qed

lemma classify_all_action:
  "classify_all tbl args = Inr toks \<Longrightarrow> (w, Optional (Some a) os ex) \<in> set toks \<Longrightarrow> (os, a) \<in> set tbl"
proof (induction tbl args arbitrary: toks rule: classify_all.induct)
  case (1 tbl)
  then show ?case by simp
next
  case (2 tbl s ss)
  then show ?case
    by (auto split: if_splits sum.splits dest: parse_optional_action)
qed

text \<open>Classification keeps the words, in order.\<close>

lemma classify_all_words: "classify_all tbl args = Inr toks \<Longrightarrow> map fst toks = args"
proof (induction tbl args arbitrary: toks rule: classify_all.induct)
  case (1 tbl)
  then show ?case by simp
next
  case (2 tbl s ss)
  then show ?case by (auto simp: comp_def split: if_splits sum.splits)
qed

section \<open>Lemmas: consuming options and taking actions\<close>

lemma consume_store_str:
  "consume p ((s, Optional (Some (Store d ConvStr)) os (Some (True, v))) # rest) ns ex pend =
   consume p rest (ns(d \<mapsto> PStr v)) ex pend"
  by simp

lemma consume_store_int:
  "py_int v = Some i \<Longrightarrow>
   consume p ((s, Optional (Some (Store d ConvInt)) os (Some (True, v))) # rest) ns ex pend =
   consume p rest (ns(d \<mapsto> PInt i)) ex pend"
  by simp

lemma consume_flag:
  "consume p ((s, Optional (Some (StoreTrue d)) os None) # rest) ns ex pend =
   consume p rest (ns(d \<mapsto> PBool True)) ex pend"
  by simp

lemma consume_opt_actions:
  "consume_opt tbl a os ex fol acc = Inr (tups, ex', n) \<Longrightarrow> a \<in> table_actions tbl \<Longrightarrow>
   \<forall>t \<in> set acc. fst t \<in> table_actions tbl \<Longrightarrow> \<forall>t \<in> set tups. fst t \<in> table_actions tbl"
proof (induction tbl a os ex fol acc rule: consume_opt.induct)
  case (1 tbl a os fol acc)
  then show ?case by (auto split: if_splits list.splits argkind.splits prod.splits)
next
  case (2 tbl a os sep e fol acc)
  then show ?case
    by (auto split: if_splits option.splits dest: map_of_SomeD)
qed

text \<open>An option with one value not followed by a positional: \<^verbatim>\<open>expected one argument\<close>.\<close>

lemma consume_opt_no_value:
  "fol = [] \<or> snd (hd fol) \<noteq> Positional \<Longrightarrow> act_nargs a = 1 \<Longrightarrow>
   consume_opt tbl a os None fol acc = Inl (ExpectedOneArgument os)"
  by (cases fol) (auto split: argkind.split)

lemma consume_opt_used: "consume_opt tbl a os ex fol acc = Inr (tups, ex', n) \<Longrightarrow> n \<le> 1"
  by (induction tbl a os ex fol acc rule: consume_opt.induct)
     (auto split: if_splits list.splits argkind.splits prod.splits option.splits)

lemma slot_ok_upd [simp]:
  assumes "action_dest b \<noteq> Some d"
  shows "slot_ok (ns(d \<mapsto> v)) b = slot_ok ns b"
proof (cases b)
  case (Store d' c)
  with assms show ?thesis by (cases c) auto
qed (use assms in auto)

lemma slots_ok_upd:
  "\<forall>(os, a) \<in> set tbl. action_dest a \<noteq> Some d \<Longrightarrow> slots_ok tbl (ns(d \<mapsto> v)) = slots_ok tbl ns"
  by (induction tbl) (auto simp: slots_ok_def)

lemma keeps_trans: "keeps tbl ns1 ns2 \<Longrightarrow> keeps tbl ns2 ns3 \<Longrightarrow> keeps tbl ns1 ns3"
  by (simp add: keeps_def)

lemma keeps_refl: "slots_ok tbl ns \<Longrightarrow> keeps tbl ns ns"
  by (simp add: keeps_def)

lemma keeps_store:
  assumes cons: "table_consistent tbl" and ok: "slots_ok tbl ns"
    and mem: "(os, a) \<in> set tbl" and dest: "action_dest a = Some d" and val: "slot_ok (ns(d \<mapsto> v)) a"
  shows "keeps tbl ns (ns(d \<mapsto> v))"
proof -
  have "slot_ok (ns(d \<mapsto> v)) b" if "(o2, b) \<in> set tbl" for o2 b
  proof (cases "action_dest b = Some d")
    case True
    with cons mem that dest have "b = a"
      unfolding table_consistent_def list_all_iff by fastforce
    with val show ?thesis by simp
  next
    case False
    with ok that show ?thesis by (auto simp: slots_ok_def list_all_iff)
  qed
  moreover have "\<forall>k. (\<forall>(os, a) \<in> set tbl. action_dest a \<noteq> Some k) \<longrightarrow> (ns(d \<mapsto> v)) k = ns k"
    using mem dest by fastforce
  ultimately show ?thesis by (auto simp: keeps_def slots_ok_def list_all_iff)
qed

lemma take_action_keeps:
  assumes "take_action pr ns t = Go ns'" "fst t \<in> table_actions tbl"
    and "table_consistent tbl" "slots_ok tbl ns"
  shows "keeps tbl ns ns'"
proof -
  obtain a vs os where t: "t = (a, vs, os)" by (cases t) auto
  from assms(2) t obtain o1 where mem: "(o1, a) \<in> set tbl" by auto
  note store = keeps_store [OF assms(3) assms(4) mem]
  show ?thesis
  proof (cases a)
    case HelpAction
    with assms(1) t show ?thesis by simp
  next
    case (StoreTrue d)
    with assms(1) t have "ns' = ns(d \<mapsto> PBool True)" by simp
    with StoreTrue store [of d "PBool True"] show ?thesis by simp
  next
    case (Store d c)
    with assms(1) t store show ?thesis
      by (cases c) (auto split: list.splits option.splits)
  qed
qed

lemma run_actions_keeps:
  "run_actions pr ns tups = Go ns' \<Longrightarrow> \<forall>t \<in> set tups. fst t \<in> table_actions tbl \<Longrightarrow>
   table_consistent tbl \<Longrightarrow> slots_ok tbl ns \<Longrightarrow> keeps tbl ns ns'"
proof (induction pr ns tups rule: run_actions.induct)
  case (1 pr ns)
  then show ?case by (simp add: keeps_refl)
next
  case (2 pr ns t ts)
  then obtain ns1 where step: "take_action pr ns t = Go ns1" and rest: "run_actions pr ns1 ts = Go ns'"
    by (auto split: step.splits)
  from 2 step have k1: "keeps tbl ns ns1" by (auto intro: take_action_keeps)
  then have "slots_ok tbl ns1" by (simp add: keeps_def)
  with "2.IH" [OF step rest] "2.prems"(2,3) have "keeps tbl ns1 ns'" by simp
  with k1 show ?case by (rule keeps_trans)
qed

section \<open>Lemmas: the main loop\<close>

lemma toks_in_table_Cons [simp]:
  "toks_in_table tbl ((w, k) # toks) \<longleftrightarrow>
   (\<forall>a os oex. k = Optional (Some a) os oex \<longrightarrow> a \<in> table_actions tbl) \<and> toks_in_table tbl toks"
  unfolding toks_in_table_def by fastforce

lemma toks_in_table_drop: "toks_in_table tbl toks \<Longrightarrow> toks_in_table tbl (drop n toks)"
  unfolding toks_in_table_def by (meson in_set_dropD)

lemma classify_all_in_table: "classify_all tbl args = Inr toks \<Longrightarrow> toks_in_table tbl toks"
  by (auto simp: toks_in_table_def dest: classify_all_action)

lemma consume_keeps:
  "toks_in_table (optionals p) toks \<Longrightarrow> table_consistent (optionals p) \<Longrightarrow> slots_ok (optionals p) ns \<Longrightarrow>
   consumed_keeps (optionals p) ns (consume p toks ns ex pend)"
proof (induction p toks ns ex pend rule: consume.induct)
  case (1 p ns ex pending)
  then show ?case by (simp add: consumed_keeps_def keeps_refl)
next
  case (2 p s os oex rest ns ex pending)
  then show ?case by simp
next
  case (3 p s a os oex rest ns ex pending)
  show ?case
  proof (cases "consume_opt (optionals p) a os oex rest []")
    case (Inl e)
    then show ?thesis by (simp add: consumed_keeps_def)
  next
    case (Inr r)
    obtain tups ex' n where r: "r = (tups, ex', n)" by (cases r) auto
    have acts: "\<forall>t \<in> set tups. fst t \<in> table_actions (optionals p)"
      using consume_opt_actions [of "optionals p" a os oex rest "[]" tups ex' n] Inr r "3.prems"(1)
      by simp
    show ?thesis
    proof (cases "run_actions (prog p) ns tups")
      case (Go ns')
      have k: "keeps (optionals p) ns ns'"
        using run_actions_keeps [OF Go acts "3.prems"(2,3)] .
      then have "slots_ok (optionals p) ns'" by (simp add: keeps_def)
      moreover have "toks_in_table (optionals p) (drop n rest)"
        using "3.prems"(1) by (simp add: toks_in_table_drop)
      ultimately have "consumed_keeps (optionals p) ns' (consume p (drop n rest) ns' (ex @ ex') pending)"
        using "3.IH" [OF Inr r [symmetric] refl Go] "3.prems"(2) by simp
      with k Inr r Go show ?thesis
        by (auto simp: consumed_keeps_def split: consumed.splits intro: keeps_trans)
    next
      case (Stop res)
      with Inr r show ?thesis by (simp add: consumed_keeps_def)
    qed
  qed
next
  case (4 p s rest ns ex pending)
  then show ?case by (simp add: consumed_keeps_def keeps_refl)
next
  case (5 p s rest ns ex pending)
  then show ?case by (simp add: consumed_keeps_def keeps_refl)
qed

text \<open>The loop stops the program only with help or an error, never with a namespace.\<close>

lemma take_action_stop: "take_action pr ns t = Stop r \<Longrightarrow> r \<noteq> Parsed ns'"
  by (induction pr ns t rule: take_action.induct) (auto split: list.splits option.splits)

lemma run_actions_stop: "run_actions pr ns ts = Stop r \<Longrightarrow> r \<noteq> Parsed ns'"
  by (induction pr ns ts rule: run_actions.induct) (auto split: step.splits dest: take_action_stop)

lemma consume_not_parsed: "consume p toks ns ex pend \<noteq> Halted (Parsed ns')"
  by (induction p toks ns ex pend rule: consume.induct)
     (auto split: sum.splits step.splits prod.splits dest: run_actions_stop)

lemma parse_flat_not_parsed: "parse_flat p args \<noteq> Halted (Parsed ns')"
  by (simp add: parse_flat_def consume_not_parsed split: sum.splits)

text \<open>A subparser has only help options, so its namespace stays empty.\<close>

lemma parse_flat_sub_parser:
  assumes "parse_flat (sub_parser p name) rest = Consumed ns' ex'"
  shows "ns' = Map.empty"
proof -
  let ?q = "sub_parser p name"
  obtain toks where cls: "classify_all help_table rest = Inr toks"
    and run: "consume ?q toks Map.empty [] False = Consumed ns' ex'"
    using assms by (auto simp: parse_flat_def sub_parser_def split: sum.splits)
  have "consumed_keeps (optionals ?q) Map.empty (consume ?q toks Map.empty [] False)"
    using classify_all_in_table [OF cls]
    by (intro consume_keeps) (simp_all add: sub_parser_def help_table_def table_consistent_def slots_ok_def)
  with run have "keeps help_table Map.empty ns'"
    by (simp add: consumed_keeps_def sub_parser_def)
  then show ?thesis
    by (auto simp: keeps_def help_table_def)
qed

theorem parse_args_args_ok:
  assumes wf: "parser_wf p" and parsed: "parse_args p argv = Parsed ns"
  shows "args_ok p ns"
proof -
  let ?tbl = "optionals p"
  from parsed obtain toks where cls: "classify_all ?tbl argv = Inr toks"
    by (auto simp: parse_args_def parse_known_def split: sum.splits consumed.splits if_splits)
  have cons: "table_consistent ?tbl" and nodest: "\<forall>(os, a) \<in> set ?tbl. action_dest a \<noteq> Some (sub_dest p)"
    and dflt: "args_ok p (defaults p)"
    using wf by (auto simp: parser_wf_def list_all_iff)
  then have dslots: "slots_ok ?tbl (defaults p)" by (simp add: args_ok_def)
  have ck: "consumed_keeps ?tbl (defaults p) (consume p toks (defaults p) [] (sub_choices p \<noteq> []))"
    using classify_all_in_table [OF cls] cons dslots by (rule consume_keeps)
  show ?thesis
  proof (cases "consume p toks (defaults p) [] (sub_choices p \<noteq> [])")
    case (Consumed ns0 ex0)
    with parsed cls have "ns = ns0"
      by (auto simp: parse_args_def parse_known_def split: if_splits)
    moreover from ck Consumed have "keeps ?tbl (defaults p) ns0"
      by (simp add: consumed_keeps_def)
    ultimately show ?thesis
      using nodest dflt by (auto simp: keeps_def args_ok_def)
  next
    case (Enter name rest ns0 ex0)
    from parsed cls Enter parse_flat_not_parsed obtain ns' ex' where
      choice: "name \<in> set (sub_choices p)" and
      sub: "parse_flat (sub_parser p name) rest = Consumed ns' ex'" and
      ns: "ns = (ns0(sub_dest p \<mapsto> PStr name)) ++ ns'"
      by (auto simp: parse_args_def parse_known_def split: if_splits consumed.splits)
    from sub have "ns' = Map.empty" by (rule parse_flat_sub_parser)
    with ns have ns: "ns = ns0(sub_dest p \<mapsto> PStr name)" by simp
    from ck Enter have "slots_ok ?tbl ns0"
      by (simp add: consumed_keeps_def keeps_def)
    with nodest have "slots_ok ?tbl ns"
      unfolding ns by (simp add: slots_ok_upd)
    with choice show ?thesis
      by (simp add: args_ok_def ns)
  next
    case (Halted r)
    with parsed cls consume_not_parsed show ?thesis
      by (auto simp: parse_args_def parse_known_def)
  qed
qed

end
