(* ===== verification/CwhyArgs.thy ===== *)
theory CwhyArgs
  imports ArgParse
begin

text \<open>
  The command line of cwhy, \<^verbatim>\<open>main()\<close> in \<^verbatim>\<open>src/cwhy/__main__.py\<close>
  lines 19--77: the parser's options in the order they are added (the automatic
  \<^verbatim>\<open>-h/--help\<close> first), their destinations and defaults, the three
  subcommands, and \<^verbatim>\<open>set_defaults(subcommand="explain")\<close>.  The theorems show
  what \<^verbatim>\<open>args = vars(parser.parse_args())\<close> holds: the declared keys with
  their declared types whenever parsing succeeds, the defaults for an empty command
  line, an exact round trip from a dictionary back to a command line, and the
  behaviours of argparse that the source inherits (abbreviations, options after a
  subcommand, negative integers).
\<close>

section \<open>The parser of \<^verbatim>\<open>main()\<close>\<close>

definition cwhy_subcommands :: "string list" where
  "cwhy_subcommands = [''explain'', ''fix'', ''extract-sources'']"

definition cwhy_optionals :: opt_table where
  "cwhy_optionals =
     [(''-h'', HelpAction), (''--help'', HelpAction),
      (''--version'', StoreTrue ''version''),
      (''--llm'', Store ''llm'' ConvStr),
      (''--timeout'', Store ''timeout'' ConvInt),
      (''--max-context'', Store ''max_context'' ConvInt),
      (''--show-prompt'', StoreTrue ''show_prompt''),
      (''--wrapper'', StoreTrue ''wrapper''),
      (''--wrapper-compiler'', Store ''wrapper_compiler'' ConvStr)]"

definition cwhy_defaults :: pydict where
  "cwhy_defaults =
     [''version'' \<mapsto> PBool False,
      ''llm'' \<mapsto> PStr ''gpt-3.5-turbo'',
      ''timeout'' \<mapsto> PInt 60,
      ''max_context'' \<mapsto> PInt 30,
      ''show_prompt'' \<mapsto> PBool False,
      ''wrapper'' \<mapsto> PBool False,
      ''wrapper_compiler'' \<mapsto> PStr ''c++'',
      ''subcommand'' \<mapsto> PStr ''explain'']"

text \<open>
  The keys of \<^verbatim>\<open>vars(args)\<close> in insertion order: \<^verbatim>\<open>parse_args\<close> first
  sets every action's default on the namespace, in the order of the
  \<^verbatim>\<open>add_argument\<close> calls and of \<^verbatim>\<open>add_subparsers\<close> (lines 24-67), and
  later assignments keep a key's place.
\<close>

definition cwhy_dests :: "string list" where
  "cwhy_dests = [''version'', ''llm'', ''timeout'', ''max_context'', ''show_prompt'', ''wrapper'',
     ''wrapper_compiler'', ''subcommand'']"

definition cwhy_parser :: parser_spec where
  "cwhy_parser =
     \<lparr>prog = ''cwhy'', optionals = cwhy_optionals, defaults = cwhy_defaults,
      sub_dest = ''subcommand'', sub_choices = cwhy_subcommands\<rparr>"

text \<open>\<^verbatim>\<open>args = vars(parser.parse_args())\<close>.\<close>

definition cwhy_parse :: "string list \<Rightarrow> parse_result" where
  "cwhy_parse argv = parse_args cwhy_parser argv"

section \<open>From a dictionary back to a command line\<close>

text \<open>
  The inverse direction, used to state the round trip: each value is passed as one
  word \<^verbatim>\<open>--opt=value\<close> (so that values starting with a dash need no
  care), each true flag as its option, and the subcommand last.
\<close>

definition flag_arg :: "string \<Rightarrow> string \<Rightarrow> pydict \<Rightarrow> string list" where
  "flag_arg os d ns = (case ns d of Some (PBool True) \<Rightarrow> [os] | _ \<Rightarrow> [])"

definition value_arg :: "string \<Rightarrow> string \<Rightarrow> pydict \<Rightarrow> string list" where
  "value_arg os d ns =
     (case ns d of
        Some (PStr v) \<Rightarrow> [opt_assign os v]
      | Some (PInt i) \<Rightarrow> [opt_assign os (py_str_int i)]
      | _ \<Rightarrow> [])"

definition unparse :: "pydict \<Rightarrow> string list" where
  "unparse ns =
     flag_arg ''--version'' ''version'' ns @ value_arg ''--llm'' ''llm'' ns @
     value_arg ''--timeout'' ''timeout'' ns @ value_arg ''--max-context'' ''max_context'' ns @
     flag_arg ''--show-prompt'' ''show_prompt'' ns @ flag_arg ''--wrapper'' ''wrapper'' ns @
     value_arg ''--wrapper-compiler'' ''wrapper_compiler'' ns @
     (case ns ''subcommand'' of Some (PStr c) \<Rightarrow> [c] | _ \<Rightarrow> [])"

section \<open>Lemmas\<close>

lemma cwhy_parser_wf: "parser_wf cwhy_parser"
  by (simp add: parser_wf_def cwhy_parser_def cwhy_optionals_def table_consistent_def args_ok_def
      slots_ok_def cwhy_defaults_def cwhy_subcommands_def)

lemma cwhy_option_words:
  "parse_optional cwhy_optionals ''-h'' = Inr (Optional (Some HelpAction) ''-h'' None)"
  "parse_optional cwhy_optionals ''--help'' = Inr (Optional (Some HelpAction) ''--help'' None)"
  "parse_optional cwhy_optionals ''--version'' = Inr (Optional (Some (StoreTrue ''version'')) ''--version'' None)"
  "parse_optional cwhy_optionals ''--llm'' = Inr (Optional (Some (Store ''llm'' ConvStr)) ''--llm'' None)"
  "parse_optional cwhy_optionals ''--timeout'' = Inr (Optional (Some (Store ''timeout'' ConvInt)) ''--timeout'' None)"
  "parse_optional cwhy_optionals ''--max-context'' =
     Inr (Optional (Some (Store ''max_context'' ConvInt)) ''--max-context'' None)"
  "parse_optional cwhy_optionals ''--show-prompt'' =
     Inr (Optional (Some (StoreTrue ''show_prompt'')) ''--show-prompt'' None)"
  "parse_optional cwhy_optionals ''--wrapper'' = Inr (Optional (Some (StoreTrue ''wrapper'')) ''--wrapper'' None)"
  "parse_optional cwhy_optionals ''--wrapper-compiler'' =
     Inr (Optional (Some (Store ''wrapper_compiler'' ConvStr)) ''--wrapper-compiler'' None)"
  by (simp_all add: parse_optional_def cwhy_optionals_def)

lemma cwhy_subcommands_ne [simp]: "cwhy_subcommands \<noteq> []"
  by (simp add: cwhy_subcommands_def)

lemma cwhy_subcommand_word:
  "c \<in> set cwhy_subcommands \<Longrightarrow> (c = [] \<or> hd c \<noteq> CHR ''-'') \<and> c \<noteq> ''--''"
  by (auto simp: cwhy_subcommands_def)

lemma dom_cwhy_defaults:
  "dom cwhy_defaults = {''version'', ''llm'', ''timeout'', ''max_context'', ''show_prompt'', ''wrapper'',
     ''wrapper_compiler'', ''subcommand''}"
  by (auto simp: cwhy_defaults_def)

lemma args_ok_cwhy_values:
  assumes "args_ok cwhy_parser ns"
  obtains b1 l t m b2 b3 w c where
    "ns ''version'' = Some (PBool b1)" "ns ''llm'' = Some (PStr l)" "ns ''timeout'' = Some (PInt t)"
    "ns ''max_context'' = Some (PInt m)" "ns ''show_prompt'' = Some (PBool b2)"
    "ns ''wrapper'' = Some (PBool b3)" "ns ''wrapper_compiler'' = Some (PStr w)"
    "ns ''subcommand'' = Some (PStr c)" "c \<in> set cwhy_subcommands"
  using assms
  by (auto simp: args_ok_def slots_ok_def cwhy_parser_def cwhy_optionals_def split: option.splits pyval.splits)

text \<open>The round trip for a dictionary given by its eight values.\<close>

lemma cwhy_unparse_values:
  assumes "c \<in> set cwhy_subcommands"
  shows "cwhy_parse (unparse (cwhy_defaults(''version'' \<mapsto> PBool b1, ''llm'' \<mapsto> PStr l,
      ''timeout'' \<mapsto> PInt t, ''max_context'' \<mapsto> PInt m, ''show_prompt'' \<mapsto> PBool b2,
      ''wrapper'' \<mapsto> PBool b3, ''wrapper_compiler'' \<mapsto> PStr w, ''subcommand'' \<mapsto> PStr c))) =
    Parsed (cwhy_defaults(''version'' \<mapsto> PBool b1, ''llm'' \<mapsto> PStr l, ''timeout'' \<mapsto> PInt t,
      ''max_context'' \<mapsto> PInt m, ''show_prompt'' \<mapsto> PBool b2, ''wrapper'' \<mapsto> PBool b3,
      ''wrapper_compiler'' \<mapsto> PStr w, ''subcommand'' \<mapsto> PStr c))"
  using assms cwhy_subcommand_word [OF assms]
  by (cases b1; cases b2; cases b3)
    (simp_all add: unparse_def flag_arg_def value_arg_def
        cwhy_parse_def parse_args_def parse_known_def cwhy_parser_def
        parse_optional_opt_assign parse_optional_exact parse_optional_positional
        consume_store_str consume_store_int consume_flag py_int_py_str_int
        parse_flat_def sub_parser_def cwhy_optionals_def fun_eq_iff cwhy_defaults_def)

lemma cwhy_neg_word_positional:
  assumes d: "is_digit d" and ds: "list_all is_digit ds"
  shows "parse_optional cwhy_optionals (CHR ''-'' # d # ds) = Inr Positional"
proof -
  let ?w = "CHR ''-'' # d # ds"
  have m: "map_of cwhy_optionals ?w = None"
    using d by (simp add: cwhy_optionals_def)
  have noeq: "CHR ''='' \<notin> set ?w" using d ds by (auto simp: list_all_iff is_digit_def)
  have e: "exact_with_arg cwhy_optionals ?w = None"
    using noeq by (simp add: exact_with_arg_def partition_eq_no_eq)
  have t: "option_tuples cwhy_optionals ?w = []"
    using d by (simp add: option_tuples_def long_opt_def cwhy_optionals_def)
  have "last ?w \<noteq> CHR 0x0A"
    using d ds by (cases ds rule: rev_cases) (auto simp: list_all_iff is_digit_def)
  then have n: "negative_number ?w" using d ds by (simp add: negative_number_def)
  show ?thesis using m e t n by (simp add: parse_optional_def)
qed

lemma cwhy_int_word_positional: "parse_optional cwhy_optionals (py_str_int i) = Inr Positional"
proof (cases "i < 0")
  case True
  obtain d ds where w: "py_str_nat (nat (- i)) = d # ds" and "is_digit d" "list_all is_digit ds"
    using py_str_nat_hd by blast
  moreover from True w have "py_str_int i = CHR ''-'' # d # ds" by (simp add: py_str_int_def)
  ultimately show ?thesis using cwhy_neg_word_positional by simp
next
  case False
  obtain d ds where w: "py_str_nat (nat i) = d # ds" and d: "is_digit d"
    using py_str_nat_hd by blast
  from False w have "py_str_int i = d # ds" by (simp add: py_str_int_def)
  moreover from d have "hd (d # ds) \<noteq> CHR ''-''" by simp
  ultimately show ?thesis by (simp add: parse_optional_positional)
qed

lemma cwhy_option_assign:
  assumes "map_of cwhy_optionals os = Some a"
  shows "parse_optional cwhy_optionals (opt_assign os v) = Inr (Optional (Some a) os (Some (True, v)))"
proof -
  have "os \<in> {''-h'', ''--help'', ''--version'', ''--llm'', ''--timeout'', ''--max-context'',
      ''--show-prompt'', ''--wrapper'', ''--wrapper-compiler''}"
    using assms by (auto simp: cwhy_optionals_def split: if_splits)
  then have "CHR ''='' \<notin> set os \<and> os \<noteq> [] \<and> hd os = CHR ''-''" by auto
  moreover have "\<forall>(k, b) \<in> set cwhy_optionals. CHR ''='' \<notin> set k"
    by (simp add: cwhy_optionals_def)
  ultimately show ?thesis
    using assms parse_optional_opt_assign [of cwhy_optionals os v] by simp
qed


lemma cwhy_timeout_prefix_word:
  assumes "p \<in> set (prefixes ''--timeout'')" and "3 \<le> length p"
  shows "parse_optional cwhy_optionals p = Inr (Optional (Some (Store ''timeout'' ConvInt)) ''--timeout'' None)"
proof -
  from assms have "p \<in> {''--t'', ''--ti'', ''--tim'', ''--time'', ''--timeo'', ''--timeou'', ''--timeout''}"
    by (simp only: prefixes.simps list.set insert_iff) auto
  then show ?thesis
    by (elim insertE emptyE)
      (simp_all add: parse_optional_def cwhy_optionals_def exact_with_arg_def partition_eq_def
        option_tuples_def long_opt_def)
qed

lemma cwhy_wrapper_prefix_word:
  assumes "p \<in> set (prefixes ''--wrappe'')" and "3 \<le> length p"
  shows "parse_optional cwhy_optionals p = Inl (Ambiguous p [''--wrapper'', ''--wrapper-compiler''])"
proof -
  from assms have "p \<in> {''--w'', ''--wr'', ''--wra'', ''--wrap'', ''--wrapp'', ''--wrappe''}"
    by (simp only: prefixes.simps list.set insert_iff) auto
  then show ?thesis
    by (elim insertE emptyE)
      (simp_all add: parse_optional_def cwhy_optionals_def exact_with_arg_def partition_eq_def
        option_tuples_def long_opt_def)
qed

lemma help_table_unknown_flag:
  "os \<in> {''--version'', ''--show-prompt'', ''--wrapper''} \<Longrightarrow>
   parse_optional help_table os = Inr (Optional None os None)"
  by (elim insertE emptyE)
    (simp_all add: help_table_def parse_optional_def exact_with_arg_def partition_eq_def
      option_tuples_def long_opt_def negative_number_def is_digit_def)

lemma cwhy_subcommand_positional:
  "c \<in> set cwhy_subcommands \<Longrightarrow> parse_optional cwhy_optionals c = Inr Positional \<and> c \<noteq> ''--''"
  using cwhy_subcommand_word [of c] by (simp add: parse_optional_positional)

text \<open>
  Help is an action taken while the arguments are consumed: when the whole command
  line classifies, a leading \<^verbatim>\<open>-h\<close> or \<^verbatim>\<open>--help\<close> ends parsing before
  anything after it is looked at.
\<close>

lemma cwhy_parse_help:
  assumes "os \<in> {''-h'', ''--help''}" and "classify_all cwhy_optionals rest = Inr toks"
  shows "cwhy_parse (os # rest) = HelpExit ''cwhy''"
proof -
  have "parse_optional cwhy_optionals os = Inr (Optional (Some HelpAction) os None) \<and> os \<noteq> ''--''"
    using assms(1) by (elim insertE emptyE) (simp_all add: cwhy_option_words)
  with assms(2) show ?thesis
    by (simp add: cwhy_parse_def parse_args_def parse_known_def cwhy_parser_def)
qed

text \<open>
  An integer option whose value does not convert stops parsing with
  \<^verbatim>\<open>invalid int value\<close> when its action is taken, before anything after it.
\<close>

lemma cwhy_parse_invalid_int:
  assumes "os \<in> {''--timeout'', ''--max-context''}" and "v = [] \<or> hd v \<noteq> CHR ''-''"
    and "py_int v = None" and "classify_all cwhy_optionals rest = Inr toks"
  shows "cwhy_parse (os # v # rest) = ErrorExit ''cwhy'' (InvalidInt os v)"
proof -
  obtain d where "parse_optional cwhy_optionals os = Inr (Optional (Some (Store d ConvInt)) os None)"
    and "os \<noteq> ''--''"
    using assms(1) by (elim insertE emptyE) (simp_all add: cwhy_option_words)
  moreover have "parse_optional cwhy_optionals v = Inr Positional" "v \<noteq> ''--''"
    using assms(2) by (auto simp: parse_optional_positional)
  ultimately show ?thesis
    using assms(3,4) by (simp add: cwhy_parse_def parse_args_def parse_known_def cwhy_parser_def)
qed

section \<open>Properties of the command line\<close>

text \<open>
  C1. Whenever the command line parses, \<^verbatim>\<open>args\<close> holds a boolean at
  \<^verbatim>\<open>version\<close>, \<^verbatim>\<open>show_prompt\<close> and \<^verbatim>\<open>wrapper\<close>, a string at
  \<^verbatim>\<open>llm\<close> and \<^verbatim>\<open>wrapper_compiler\<close>, an integer at \<^verbatim>\<open>timeout\<close>
  and \<^verbatim>\<open>max_context\<close>, and one of the three subcommands at
  \<^verbatim>\<open>subcommand\<close>: the lookups \<^verbatim>\<open>main()\<close> and the core make never
  raise \<^verbatim>\<open>KeyError\<close> and see values of the declared types.
\<close>

theorem cwhy_parse_args_ok: "cwhy_parse argv = Parsed ns \<Longrightarrow> args_ok cwhy_parser ns"
  unfolding cwhy_parse_def by (rule parse_args_args_ok [OF cwhy_parser_wf])

theorem cwhy_parse_args_ok_witness:
  "cwhy_parse [''--timeout'', ''5'', ''fix''] =
     Parsed (cwhy_defaults(''timeout'' \<mapsto> PInt 5, ''subcommand'' \<mapsto> PStr ''fix'')) \<and>
   args_ok cwhy_parser (cwhy_defaults(''timeout'' \<mapsto> PInt 5, ''subcommand'' \<mapsto> PStr ''fix''))"
proof -
  have five: "py_int ''5'' = Some 5"
    by (simp add: py_int_def py_strip_def py_isspace_def py_decimal_def is_digit_def digit_val_def)
  have h: "cwhy_parse [''--timeout'', ''5'', ''fix''] =
      Parsed (cwhy_defaults(''timeout'' \<mapsto> PInt 5, ''subcommand'' \<mapsto> PStr ''fix''))"
    by (simp add: cwhy_parse_def parse_args_def parse_known_def cwhy_parser_def cwhy_option_words
        parse_optional_positional cwhy_subcommands_def parse_flat_def sub_parser_def five)
  show ?thesis using h cwhy_parse_args_ok [OF h] by simp
qed

text \<open>
  C6. Round trip: every well-typed dictionary with the parser's eight keys is what
  \<^verbatim>\<open>parse_args\<close> returns for the command line \<open>unparse\<close> writes for it; in
  particular every string (even one starting with a dash) and every integer (even a
  negative one) can be passed to each option.
\<close>

theorem cwhy_parse_unparse:
  assumes ok: "args_ok cwhy_parser ns" and dom: "dom ns = dom cwhy_defaults"
  shows "cwhy_parse (unparse ns) = Parsed ns"
proof -
  from ok obtain b1 l t m b2 b3 w c where v:
    "ns ''version'' = Some (PBool b1)" "ns ''llm'' = Some (PStr l)" "ns ''timeout'' = Some (PInt t)"
    "ns ''max_context'' = Some (PInt m)" "ns ''show_prompt'' = Some (PBool b2)"
    "ns ''wrapper'' = Some (PBool b3)" "ns ''wrapper_compiler'' = Some (PStr w)"
    "ns ''subcommand'' = Some (PStr c)" and c: "c \<in> set cwhy_subcommands"
    by (rule args_ok_cwhy_values)
  have ns: "ns = cwhy_defaults(''version'' \<mapsto> PBool b1, ''llm'' \<mapsto> PStr l, ''timeout'' \<mapsto> PInt t,
      ''max_context'' \<mapsto> PInt m, ''show_prompt'' \<mapsto> PBool b2, ''wrapper'' \<mapsto> PBool b3,
      ''wrapper_compiler'' \<mapsto> PStr w, ''subcommand'' \<mapsto> PStr c)" (is "ns = ?m")
  proof
    fix k
    show "ns k = ?m k"
    proof (cases "k \<in> dom cwhy_defaults")
      case True
      then show ?thesis using v by (auto simp: dom_cwhy_defaults)
    next
      case False
      with dom have "ns k = None" by auto
      moreover from False have "?m k = None" by (auto simp: dom_cwhy_defaults cwhy_defaults_def)
      ultimately show ?thesis by simp
    qed
  qed
  from c show ?thesis
    unfolding ns by (rule cwhy_unparse_values)
qed

theorem cwhy_parse_unparse_witness:
  "cwhy_parse (unparse (cwhy_defaults(''llm'' \<mapsto> PStr ''-x'', ''timeout'' \<mapsto> PInt (-3)))) =
   Parsed (cwhy_defaults(''llm'' \<mapsto> PStr ''-x'', ''timeout'' \<mapsto> PInt (-3)))"
proof -
  have ok: "args_ok cwhy_parser (cwhy_defaults(''llm'' \<mapsto> PStr ''-x'', ''timeout'' \<mapsto> PInt (-3)))"
    by (simp add: args_ok_def slots_ok_def cwhy_parser_def cwhy_optionals_def cwhy_defaults_def
        cwhy_subcommands_def)
  have dom: "dom (cwhy_defaults(''llm'' \<mapsto> PStr ''-x'', ''timeout'' \<mapsto> PInt (-3))) = dom cwhy_defaults"
    by (simp add: dom_cwhy_defaults insert_absorb)
  show ?thesis by (rule cwhy_parse_unparse [OF ok dom])
qed



text \<open>
  C24.  A value of \<^verbatim>\<open>--timeout\<close> may carry white space: a word made of
  leading ASCII white space, an integer as \<^verbatim>\<open>str()\<close> prints it, and any
  trailing ASCII white space (\<^verbatim>\<open>--timeout ' 30\n'\<close>) sets the timeout to that
  integer, negative ones included, since \<^verbatim>\<open>type=int\<close> calls \<^verbatim>\<open>int()\<close>
  on the word and the leading blank keeps a negative number from looking like an
  option.
\<close>

theorem cwhy_parse_timeout_padded:
  assumes "a \<noteq> []" and "list_all py_isspace a" and "list_all py_isspace b"
  shows "cwhy_parse [''--timeout'', a @ py_str_int i @ b] = Parsed (cwhy_defaults(''timeout'' \<mapsto> PInt i))"
proof -
  have dash: "\<not> py_isspace (CHR ''-'')" by (simp add: py_isspace_def)
  have "hd (a @ py_str_int i @ b) \<noteq> CHR ''-''"
    using assms(1,2) dash by (cases a) auto
  then have "parse_optional cwhy_optionals (a @ py_str_int i @ b) = Inr Positional"
    by (simp add: parse_optional_positional)
  moreover have "a @ py_str_int i @ b \<noteq> ''--''"
    using assms(1,2) dash by (cases a) auto
  ultimately show ?thesis
    using py_int_padded [OF assms(2,3)]
    by (simp add: cwhy_parse_def parse_args_def parse_known_def cwhy_parser_def cwhy_subcommands_def
        cwhy_option_words)
qed

theorem cwhy_parse_timeout_padded_witness:
  "cwhy_parse [''--timeout'', '' '' @ py_str_int (-42) @ [CHR 0x0A]] =
     Parsed (cwhy_defaults(''timeout'' \<mapsto> PInt (-42)))"
  by (rule cwhy_parse_timeout_padded) (simp_all add: py_isspace_def)

text \<open>
  C12.  argparse accepts every unambiguous prefix of a long option: any prefix of
  \<^verbatim>\<open>--timeout\<close> of at least three characters sets the timeout, to any
  integer.
\<close>

theorem cwhy_parse_timeout_prefix:
  assumes "p \<in> set (prefixes ''--timeout'')" and "3 \<le> length p"
  shows "cwhy_parse [p, py_str_int i] = Parsed (cwhy_defaults(''timeout'' \<mapsto> PInt i))"
proof -
  have "p \<noteq> ''--''" using assms(2) by auto
  with cwhy_timeout_prefix_word [OF assms] show ?thesis
    by (simp add: cwhy_parse_def parse_args_def parse_known_def cwhy_parser_def cwhy_subcommands_def
        cwhy_int_word_positional py_int_py_str_int)
qed

theorem cwhy_parse_timeout_prefix_witness:
  "cwhy_parse [''--time'', py_str_int (-7)] = Parsed (cwhy_defaults(''timeout'' \<mapsto> PInt (-7)))"
  by (rule cwhy_parse_timeout_prefix) simp_all

text \<open>
  C13.  A prefix of \<^verbatim>\<open>--wrapper\<close> shorter than the option itself is
  ambiguous (it also abbreviates \<^verbatim>\<open>--wrapper-compiler\<close>): the command
  line is rejected with a usage error naming both options, whatever follows.
\<close>

theorem cwhy_parse_ambiguous:
  assumes "p \<in> set (prefixes ''--wrappe'')" and "3 \<le> length p"
  shows "cwhy_parse (p # rest) = ErrorExit ''cwhy'' (Ambiguous p [''--wrapper'', ''--wrapper-compiler''])"
proof -
  have "p \<noteq> ''--''" using assms(2) by auto
  with cwhy_wrapper_prefix_word [OF assms] show ?thesis
    by (simp add: cwhy_parse_def parse_args_def parse_known_def cwhy_parser_def)
qed

theorem cwhy_parse_ambiguous_witness:
  "cwhy_parse [''--wrap'', ''fix''] = ErrorExit ''cwhy'' (Ambiguous ''--wrap'' [''--wrapper'', ''--wrapper-compiler''])"
  by (rule cwhy_parse_ambiguous) simp_all

text \<open>
  C14.  Options of the main parser are not accepted after the subcommand: the
  subparsers know only \<^verbatim>\<open>-h\<close>, so \<^verbatim>\<open>cwhy fix --wrapper\<close> (or
  \<^verbatim>\<open>--version\<close>, \<^verbatim>\<open>--show-prompt\<close>) ends in the error
  \<^verbatim>\<open>unrecognized arguments\<close>.
\<close>

theorem cwhy_parse_flag_after_subcommand:
  assumes "c \<in> set cwhy_subcommands" and "os \<in> {''--version'', ''--show-prompt'', ''--wrapper''}"
  shows "cwhy_parse [c, os] = ErrorExit ''cwhy'' (Unrecognized [os])"
proof -
  have c: "parse_optional cwhy_optionals c = Inr Positional" "c \<noteq> ''--''"
    using cwhy_subcommand_positional [OF assms(1)] by simp_all
  have os: "os \<noteq> ''--''" using assms(2) by (elim insertE emptyE) simp_all
  obtain a where m: "parse_optional cwhy_optionals os = Inr (Optional (Some a) os None)"
    using assms(2) by (elim insertE emptyE) (simp_all add: cwhy_option_words)
  have cls: "classify_all cwhy_optionals [c, os] = Inr [(c, Positional), (os, Optional (Some a) os None)]"
    using c os m by simp
  have con: "consume cwhy_parser [(c, Positional), (os, Optional (Some a) os None)] cwhy_defaults [] True =
      Enter c [os] cwhy_defaults []"
    by simp
  have sub: "parse_flat (sub_parser cwhy_parser c) [os] = Consumed Map.empty [os]"
    using os help_table_unknown_flag [OF assms(2)] by (simp add: parse_flat_def sub_parser_def)
  show ?thesis
    using assms(1) cls con sub
    by (simp add: cwhy_parse_def parse_args_def parse_known_def cwhy_parser_def)
qed

theorem cwhy_parse_flag_after_subcommand_witness:
  "cwhy_parse [''fix'', ''--wrapper''] = ErrorExit ''cwhy'' (Unrecognized [''--wrapper''])"
  by (rule cwhy_parse_flag_after_subcommand) (simp_all add: cwhy_subcommands_def)

text \<open>
  C32.  An option that takes a value must be followed by one: when
  \<^verbatim>\<open>--llm\<close>, \<^verbatim>\<open>--timeout\<close>, \<^verbatim>\<open>--max-context\<close> or
  \<^verbatim>\<open>--wrapper-compiler\<close> ends the command line, or is followed by an option
  or by \<^verbatim>\<open>--\<close>, parsing stops with \<^verbatim>\<open>expected one argument\<close> for it;
  the next word is never taken as the value.
\<close>

theorem cwhy_parse_missing_value:
  assumes "os \<in> {''--llm'', ''--timeout'', ''--max-context'', ''--wrapper-compiler''}"
    and "classify_all cwhy_optionals rest = Inr toks" and "toks = [] \<or> snd (hd toks) \<noteq> Positional"
  shows "cwhy_parse (os # rest) = ErrorExit ''cwhy'' (ExpectedOneArgument os)"
proof -
  obtain d c where "parse_optional cwhy_optionals os = Inr (Optional (Some (Store d c)) os None)"
    and "os \<noteq> ''--''"
    using assms(1) by (elim insertE emptyE) (simp_all add: cwhy_option_words)
  moreover have "consume_opt cwhy_optionals (Store d c) os None toks [] = Inl (ExpectedOneArgument os)"
    using assms(3) by (rule consume_opt_no_value) simp
  ultimately show ?thesis
    using assms(2) by (simp add: cwhy_parse_def parse_args_def parse_known_def cwhy_parser_def)
qed

theorem cwhy_parse_missing_value_witness:
  "cwhy_parse [''--llm'', ''--wrapper''] = ErrorExit ''cwhy'' (ExpectedOneArgument ''--llm'')"
  by (rule cwhy_parse_missing_value
      [where toks = "[(''--wrapper'', Optional (Some (StoreTrue ''wrapper'')) ''--wrapper'' None)]"])
    (simp_all add: cwhy_option_words)

text \<open>
  C33.  A flag does not take a value: \<^verbatim>\<open>--version=V\<close>,
  \<^verbatim>\<open>--show-prompt=V\<close> or \<^verbatim>\<open>--wrapper=V\<close>, for every text \<open>V\<close> (the
  empty one included), stops parsing with \<^verbatim>\<open>ignored explicit argument\<close>,
  whatever follows, as long as the rest of the command line classifies (has no
  ambiguous abbreviation of an option).
\<close>

theorem cwhy_parse_flag_value:
  assumes "os \<in> {''--version'', ''--show-prompt'', ''--wrapper''}"
    and "classify_all cwhy_optionals rest = Inr toks"
  shows "cwhy_parse (opt_assign os v # rest) = ErrorExit ''cwhy'' (IgnoredExplicit os v)"
proof -
  obtain d where "map_of cwhy_optionals os = Some (StoreTrue d)" and "long_opt os"
    using assms(1) by (elim insertE emptyE) (simp_all add: cwhy_optionals_def long_opt_def)
  with assms(2) show ?thesis
    by (simp add: cwhy_option_assign cwhy_parse_def parse_args_def parse_known_def cwhy_parser_def)
qed

theorem cwhy_parse_flag_value_witness:
  "cwhy_parse [opt_assign ''--wrapper'' ''yes'', ''fix''] = ErrorExit ''cwhy'' (IgnoredExplicit ''--wrapper'' ''yes'')"
  by (rule cwhy_parse_flag_value) (simp_all add: cwhy_subcommand_positional cwhy_subcommands_def)

text \<open>
  C34.  Help after the subcommand is the subcommand's help: \<^verbatim>\<open>cwhy fix -h\<close>
  (and \<^verbatim>\<open>--help\<close>, for each subcommand) ends with the usage of
  \<^verbatim>\<open>cwhy fix\<close>, whatever follows as long as both parsers classify it.
\<close>

theorem cwhy_parse_subcommand_help:
  assumes "c \<in> set cwhy_subcommands" and "os \<in> {''-h'', ''--help''}"
    and "classify_all cwhy_optionals rest = Inr toks" and "classify_all help_table rest = Inr toks'"
  shows "cwhy_parse (c # os # rest) = HelpExit (''cwhy '' @ c)"
proof -
  have c: "parse_optional cwhy_optionals c = Inr Positional" "c \<noteq> ''--''"
    using cwhy_subcommand_positional [OF assms(1)] by simp_all
  have os: "parse_optional cwhy_optionals os = Inr (Optional (Some HelpAction) os None) \<and> os \<noteq> ''--''"
    using assms(2) by (elim insertE emptyE) (simp_all add: cwhy_option_words)
  have hs: "parse_optional help_table os = Inr (Optional (Some HelpAction) os None)"
    using assms(2) by (elim insertE emptyE) (simp_all add: parse_optional_def help_table_def)
  show ?thesis
    using assms(1,3,4) c os hs classify_all_words [OF assms(3)]
    by (simp add: cwhy_parse_def parse_args_def parse_known_def cwhy_parser_def parse_flat_def sub_parser_def)
qed

theorem cwhy_parse_subcommand_help_witness:
  "cwhy_parse [''extract-sources'', ''--help''] = HelpExit ''cwhy extract-sources''"
  using cwhy_parse_subcommand_help [of "''extract-sources''" "''--help''" "[]"]
  by (simp add: cwhy_subcommands_def)

text \<open>
  C35.  \<^verbatim>\<open>--\<close> in front of the subcommand is not dropped: the subparsers
  argument takes it as the subcommand name (argparse strips the first
  \<^verbatim>\<open>--\<close> for every other kind of positional, not for subparsers), so
  \<^verbatim>\<open>cwhy -- fix\<close> is rejected with \<^verbatim>\<open>invalid choice: '--'\<close>.
\<close>

theorem cwhy_parse_dashdash:
  assumes "rest \<noteq> []"
  shows "cwhy_parse (''--'' # rest) = ErrorExit ''cwhy'' (InvalidChoice ''--'')"
  using assms by (simp add: cwhy_parse_def parse_args_def parse_known_def cwhy_parser_def cwhy_subcommands_def)

theorem cwhy_parse_dashdash_witness:
  "cwhy_parse [''--'', ''fix''] = ErrorExit ''cwhy'' (InvalidChoice ''--'')"
  by (rule cwhy_parse_dashdash) simp

text \<open>
  C25.  A first positional word that is not one of the subcommands (a misspelt
  \<^verbatim>\<open>cwhy explian\<close>, an empty word) is a usage error naming that word,
  \<^verbatim>\<open>invalid choice\<close>, exit status 2, whatever follows it, as long as the
  rest of the command line classifies: the subparsers action checks the name against
  \<^verbatim>\<open>explain\<close>, \<^verbatim>\<open>fix\<close> and \<^verbatim>\<open>extract-sources\<close> (\<^verbatim>\<open>__main__.py\<close>
  lines 67-71) before any subparser runs.
\<close>

theorem cwhy_parse_invalid_choice:
  assumes "c \<notin> set cwhy_subcommands" and "c = [] \<or> hd c \<noteq> CHR ''-''"
    and "classify_all cwhy_optionals rest = Inr toks"
  shows "cwhy_parse (c # rest) = ErrorExit ''cwhy'' (InvalidChoice c)"
proof -
  have "parse_optional cwhy_optionals c = Inr Positional" "c \<noteq> ''--''"
    using assms(2) by (auto simp: parse_optional_positional)
  with assms(1,3) show ?thesis
    by (simp add: cwhy_parse_def parse_args_def parse_known_def cwhy_parser_def)
qed

theorem cwhy_parse_invalid_choice_witness:
  "cwhy_parse [''explian'', ''--timeout'', ''5''] = ErrorExit ''cwhy'' (InvalidChoice ''explian'')"
proof -
  have "classify_all cwhy_optionals [''--timeout'', ''5''] =
      Inr [(''--timeout'', Optional (Some (Store ''timeout'' ConvInt)) ''--timeout'' None), (''5'', Positional)]"
    by (simp add: cwhy_option_words parse_optional_positional)
  then show ?thesis
    by (rule cwhy_parse_invalid_choice [rotated 2]) (simp_all add: cwhy_subcommands_def)
qed

end
