(* ===== verification/PyFormat.thy ===== *)
theory PyFormat
  imports PyInt
begin

text \<open>
  Python's \<^verbatim>\<open>str.format\<close> with keyword arguments only, as
  \<^verbatim>\<open>wrapper()\<close> in \<^verbatim>\<open>src/cwhy/__main__.py\<close> (line 15) calls it:
  \<^verbatim>\<open>template.format(compiler=..., args=args)\<close>.  Literal text is copied,
  \<^verbatim>\<open>{{\<close> and \<^verbatim>\<open>}}\<close> stand for single braces, and a replacement field
  \<^verbatim>\<open>{name[key]...}\<close> is looked up among the keyword arguments and indexed.
  The errors Python raises are values of \<open>fmt_error\<close>: a malformed template is a
  \<^verbatim>\<open>ValueError\<close>, an empty or numeric field name an \<^verbatim>\<open>IndexError\<close> (there
  are no positional arguments), a missing name or key a \<^verbatim>\<open>KeyError\<close>.
  A value is printed with \<^verbatim>\<open>str\<close>, or with \<^verbatim>\<open>repr\<close> and
  \<^verbatim>\<open>ascii\<close> under the conversions \<^verbatim>\<open>!r\<close> and \<^verbatim>\<open>!a\<close>; a
  dictionary prints as Python prints it, its keys in insertion order.  Attribute
  access (\<^verbatim>\<open>{x.attr}\<close>) and non-empty format specifications are outside
  the model and give \<open>FmtUnsupported\<close>.
\<close>

datatype fmt_error =
    FmtValueError
  | FmtKeyError string
  | FmtIndexError
  | FmtTypeError
  | FmtUnsupported

text \<open>
  The values a field can denote: a string, a dictionary (its keys in insertion order
  and its contents), or another scalar.
\<close>

datatype fmt_val = FStr string | FDict "string list" pydict | FVal pyval

type_synonym fmt_kwargs = "(string \<times> fmt_val) list"

text \<open>A dictionary value as it is seen through indexing.\<close>

fun of_pyval :: "pyval \<Rightarrow> fmt_val" where
  "of_pyval (PStr s) = FStr s"
| "of_pyval v = FVal v"

text \<open>
  \<^verbatim>\<open>repr\<close> of a string (CPython \<^verbatim>\<open>unicode_repr\<close>), a character read as
  the code point \<open>0..255\<close>: the quote is \<^verbatim>\<open>"\<close> when the text holds a
  \<^verbatim>\<open>'\<close> and no \<^verbatim>\<open>"\<close>, and \<^verbatim>\<open>'\<close> otherwise; the quote and the
  backslash are escaped, tab, newline and carriage return are \<^verbatim>\<open>\t\<close>,
  \<^verbatim>\<open>\n\<close>, \<^verbatim>\<open>\r\<close>, the other control characters and the characters
  that are not printable (\<^verbatim>\<open>U+0080\<close> to \<^verbatim>\<open>U+00A0\<close>, the soft hyphen
  \<^verbatim>\<open>U+00AD\<close>) are \<^verbatim>\<open>\xhh\<close> in lower-case hexadecimal.  \<^verbatim>\<open>ascii\<close>
  (flag \<open>asc\<close>) escapes every non-ASCII character that way.
\<close>

definition hex2 :: "nat \<Rightarrow> string" where
  "hex2 n = [CHR 0x5C, CHR ''x'', ''0123456789abcdef'' ! (n div 16), ''0123456789abcdef'' ! (n mod 16)]"

definition repr_char :: "bool \<Rightarrow> char \<Rightarrow> char \<Rightarrow> string" where
  "repr_char asc q c =
     (let n = (of_char c :: nat) in
      if c = q \<or> c = CHR 0x5C then [CHR 0x5C, c]
      else if c = CHR 0x09 then [CHR 0x5C, CHR ''t'']
      else if c = CHR 0x0A then [CHR 0x5C, CHR ''n'']
      else if c = CHR 0x0D then [CHR 0x5C, CHR ''r'']
      else if n < 32 \<or> n = 127 then hex2 n
      else if n < 127 then [c]
      else if asc \<or> n \<le> 160 \<or> n = 173 then hex2 n
      else [c])"

definition py_repr_str :: "bool \<Rightarrow> string \<Rightarrow> string" where
  "py_repr_str asc s =
     (let q = (if CHR 0x27 \<in> set s \<and> CHR 0x22 \<notin> set s then CHR 0x22 else CHR 0x27) in
      q # concat (map (repr_char asc q) s) @ [q])"

fun py_repr_val :: "bool \<Rightarrow> pyval \<Rightarrow> string" where
  "py_repr_val asc (PBool b) = (if b then ''True'' else ''False'')"
| "py_repr_val asc (PInt i) = py_str_int i"
| "py_repr_val asc (PStr s) = py_repr_str asc s"

text \<open>\<^verbatim>\<open>sep.join(xs)\<close>.\<close>

fun py_join :: "string \<Rightarrow> string list \<Rightarrow> string" where
  "py_join sep [] = []"
| "py_join sep (x # xs) = x @ concat (map (\<lambda>y. sep @ y) xs)"

text \<open>\<^verbatim>\<open>repr\<close> of a dictionary: \<^verbatim>\<open>{k: v, ...}\<close> in insertion order.\<close>

definition py_repr_dict :: "bool \<Rightarrow> string list \<Rightarrow> pydict \<Rightarrow> string" where
  "py_repr_dict asc ks d =
     CHR ''{'' # py_join '', ''
       (List.map_filter (\<lambda>k. map_option (\<lambda>v. py_repr_str asc k @ '': '' @ py_repr_val asc v) (d k)) ks)
     @ ''}''"

text \<open>\<^verbatim>\<open>str(v)\<close> of a field value; \<^verbatim>\<open>str\<close> of a dictionary is its \<^verbatim>\<open>repr\<close>.\<close>

fun fmt_str :: "fmt_val \<Rightarrow> fmt_error + string" where
  "fmt_str (FStr s) = Inr s"
| "fmt_str (FVal (PBool b)) = Inr (if b then ''True'' else ''False'')"
| "fmt_str (FVal (PInt i)) = Inr (py_str_int i)"
| "fmt_str (FVal (PStr s)) = Inr s"
| "fmt_str (FDict ks d) = Inr (py_repr_dict False ks d)"

text \<open>\<^verbatim>\<open>repr(v)\<close> and \<^verbatim>\<open>ascii(v)\<close> of a field value.\<close>

fun fmt_repr :: "bool \<Rightarrow> fmt_val \<Rightarrow> string" where
  "fmt_repr asc (FStr s) = py_repr_str asc s"
| "fmt_repr asc (FVal v) = py_repr_val asc v"
| "fmt_repr asc (FDict ks d) = py_repr_dict asc ks d"

text \<open>
  \<^verbatim>\<open>v[key]\<close> inside a field: an all-digit key is an integer index, anything
  else a string key.
\<close>

definition fmt_index :: "fmt_val \<Rightarrow> string \<Rightarrow> fmt_error + fmt_val" where
  "fmt_index v k =
     (let numeric = list_all is_digit k in
      case v of
        FDict ks d \<Rightarrow>
          if numeric then Inl (FmtKeyError k)
          else (case d k of Some x \<Rightarrow> Inr (of_pyval x) | None \<Rightarrow> Inl (FmtKeyError k))
      | FStr s \<Rightarrow>
          if numeric then
            (let n = digits_value 0 k in if n < length s then Inr (FStr [s ! n]) else Inl FmtIndexError)
          else Inl FmtTypeError
      | FVal x \<Rightarrow> Inl FmtTypeError)"

text \<open>
  The accessors after the argument name: \<^verbatim>\<open>[key]\<close> indexes the value so far;
  a key runs to the first \<^verbatim>\<open>]\<close> and may not be empty; \<^verbatim>\<open>.attr\<close> is outside
  the model; any other character after \<^verbatim>\<open>]\<close> is a \<^verbatim>\<open>ValueError\<close>.
\<close>

function fmt_access :: "fmt_val \<Rightarrow> string \<Rightarrow> fmt_error + fmt_val" where
  "fmt_access v [] = Inr v"
| "fmt_access v (c # cs) =
     (if c = CHR ''['' then
        (let k = takeWhile (\<lambda>x. x \<noteq> CHR '']'') cs in
         if k = [] then Inl FmtValueError
         else case fmt_index v k of
           Inl e \<Rightarrow> Inl e
         | Inr v' \<Rightarrow> fmt_access v' (drop (Suc (length k)) cs))
      else if c = CHR ''.'' then Inl FmtUnsupported
      else Inl FmtValueError)"
  by pat_completeness auto
termination
  by (relation "measure (\<lambda>(v, s). length s)") auto

text \<open>
  The value of a field name: the argument name runs to the first \<^verbatim>\<open>.\<close> or
  \<^verbatim>\<open>[\<close>; an empty or all-digit name asks for a positional argument.
\<close>

definition fmt_field :: "fmt_kwargs \<Rightarrow> string \<Rightarrow> fmt_error + fmt_val" where
  "fmt_field kw name =
     (let arg = takeWhile (\<lambda>c. c \<noteq> CHR ''.'' \<and> c \<noteq> CHR ''['') name;
          rest = drop (length arg) name in
      if arg = [] \<or> list_all is_digit arg then Inl FmtIndexError
      else case map_of kw arg of
        None \<Rightarrow> Inl (FmtKeyError arg)
      | Some v \<Rightarrow> fmt_access v rest)"

text \<open>
  Scanning a field name after \<^verbatim>\<open>{\<close>: it ends at \<^verbatim>\<open>}\<close>, \<^verbatim>\<open>!\<close> or
  \<^verbatim>\<open>:\<close>, except inside brackets, which run to the next \<^verbatim>\<open>]\<close>; a
  \<^verbatim>\<open>{\<close> in the name or the end of the text is a \<^verbatim>\<open>ValueError\<close>.  The result
  is the name and the text from its terminator on.
\<close>

function scan_name :: "string \<Rightarrow> fmt_error + (string \<times> string)" where
  "scan_name [] = Inl FmtValueError"
| "scan_name (c # cs) =
     (if c = CHR ''['' then
        (let k = takeWhile (\<lambda>x. x \<noteq> CHR '']'') cs in
         if length k = length cs then Inl FmtValueError
         else case scan_name (drop (Suc (length k)) cs) of
           Inl e \<Rightarrow> Inl e
         | Inr (n, r) \<Rightarrow> Inr (c # k @ CHR '']'' # n, r))
      else if c = CHR ''{'' then Inl FmtValueError
      else if c = CHR ''}'' \<or> c = CHR ''!'' \<or> c = CHR '':'' then Inr ([], c # cs)
      else case scan_name cs of
        Inl e \<Rightarrow> Inl e
      | Inr (n, r) \<Rightarrow> Inr (c # n, r))"
  by pat_completeness auto
termination
  by (relation "measure length") auto

text \<open>
  A format specification after \<^verbatim>\<open>:\<close> runs to the \<^verbatim>\<open>}\<close> that closes
  the field, nested braces counted (\<^verbatim>\<open>parse_field\<close> of CPython's
  \<^verbatim>\<open>unicode_format.h\<close>); \<open>n\<close> is the number of braces still open inside
  it.  The result is the specification and the text after the field, or
  \<open>None\<close> for \<^verbatim>\<open>unmatched '{' in format spec\<close>.
\<close>

fun spec_scan :: "nat \<Rightarrow> string \<Rightarrow> (string \<times> string) option" where
  "spec_scan n [] = None"
| "spec_scan n (c # cs) =
     (if c = CHR ''}'' \<and> n = 0 then Some ([], cs)
      else map_option (\<lambda>(sp, r). (c # sp, r))
             (spec_scan (if c = CHR ''{'' then Suc n else if c = CHR ''}'' then n - 1 else n) cs))"

text \<open>
  The rest of the field after its name, as \<^verbatim>\<open>parse_field\<close> checks it before
  anything is looked up: \<^verbatim>\<open>}\<close> closes the field, \<^verbatim>\<open>!\<close> is followed by
  one conversion character and then \<^verbatim>\<open>}\<close> or \<^verbatim>\<open>:\<close>, and \<^verbatim>\<open>:\<close>
  starts a specification.  The result is the conversion, the specification and the
  text after the field; every malformed field is a \<^verbatim>\<open>ValueError\<close>.
\<close>

definition field_tail :: "string \<Rightarrow> fmt_error + (char option \<times> string \<times> string)" where
  "field_tail r =
     (case r of
        c # r' \<Rightarrow>
          if c = CHR ''}'' then Inr (None, [], r')
          else if c = CHR '':'' then
            (case spec_scan 0 r' of Some (sp, r'') \<Rightarrow> Inr (None, sp, r'') | None \<Rightarrow> Inl FmtValueError)
          else if c = CHR ''!'' then
            (case r' of
               v # d # r'' \<Rightarrow>
                 if d = CHR ''}'' then Inr (Some v, [], r'')
                 else if d = CHR '':'' then
                   (case spec_scan 0 r'' of Some (sp, r3) \<Rightarrow> Inr (Some v, sp, r3) | None \<Rightarrow> Inl FmtValueError)
                 else Inl FmtValueError
             | _ \<Rightarrow> Inl FmtValueError)
          else Inl FmtValueError
      | [] \<Rightarrow> Inl FmtValueError)"

text \<open>
  Rendering the looked-up value: a conversion other than \<^verbatim>\<open>s\<close>,
  \<^verbatim>\<open>r\<close>, \<^verbatim>\<open>a\<close> is a \<^verbatim>\<open>ValueError\<close>; otherwise the value is printed
  with \<^verbatim>\<open>str\<close> (no conversion, \<^verbatim>\<open>!s\<close>), \<^verbatim>\<open>repr\<close>
  (\<^verbatim>\<open>!r\<close>) or \<^verbatim>\<open>ascii\<close> (\<^verbatim>\<open>!a\<close>); a non-empty specification is
  outside the model.
\<close>

definition fmt_render :: "char option \<Rightarrow> string \<Rightarrow> fmt_val \<Rightarrow> fmt_error + string" where
  "fmt_render conv sp v =
     (case conv of
        Some x \<Rightarrow>
          if x \<noteq> CHR ''s'' \<and> x \<noteq> CHR ''r'' \<and> x \<noteq> CHR ''a'' then Inl FmtValueError
          else if sp \<noteq> [] then Inl FmtUnsupported
          else if x = CHR ''s'' then fmt_str v
          else Inr (fmt_repr (x = CHR ''a'') v)
      | None \<Rightarrow> if sp = [] then fmt_str v else Inl FmtUnsupported)"

text \<open>\<^verbatim>\<open>template.format(**kw)\<close>.\<close>

function py_format :: "fmt_kwargs \<Rightarrow> string \<Rightarrow> fmt_error + string" where
  "py_format kw [] = Inr []"
| "py_format kw (c # cs) =
     (if c = CHR ''{'' then
        (case cs of
           [] \<Rightarrow> Inl FmtValueError
         | d # ds \<Rightarrow>
             if d = CHR ''{'' then map_sum id ((#) c) (py_format kw ds)
             else (case scan_name cs of
                     Inl e \<Rightarrow> Inl e
                   | Inr (name, r) \<Rightarrow>
                       (case field_tail r of
                          Inl e \<Rightarrow> Inl e
                        | Inr (conv, sp, r') \<Rightarrow>
                            (case fmt_field kw name of
                               Inl e \<Rightarrow> Inl e
                             | Inr v \<Rightarrow>
                                 (case fmt_render conv sp v of
                                    Inl e \<Rightarrow> Inl e
                                  | Inr s \<Rightarrow> map_sum id ((@) s) (py_format kw r'))))))
      else if c = CHR ''}'' then
        (case cs of
           d # ds \<Rightarrow> if d = CHR ''}'' then map_sum id ((#) c) (py_format kw ds) else Inl FmtValueError
         | [] \<Rightarrow> Inl FmtValueError)
      else map_sum id ((#) c) (py_format kw cs))"
  by pat_completeness auto
termination
proof -
  have scan: "scan_name cs = Inr (n, r) \<Longrightarrow> length r \<le> length cs" for cs n r
  proof (induction cs arbitrary: n rule: scan_name.induct)
    case (2 c cs)
    then show ?case
      by (auto simp: Let_def split: if_splits sum.splits prod.splits)
  qed simp
  have spec: "spec_scan n t = Some (sp, r) \<Longrightarrow> length r < length t" for n t sp r
  proof (induction n t arbitrary: sp rule: spec_scan.induct)
    case (2 n c cs)
    then show ?case by (auto split: if_splits)
  qed simp
  have tail: "field_tail r = Inr (cv, sp, r') \<Longrightarrow> length r' < length r" for r r' cv sp
    by (auto simp: field_tail_def split: list.splits if_splits option.splits dest: spec)
  show ?thesis
    by (relation "measure (\<lambda>(kw, s). length s)") (fastforce dest: scan tail)+
qed

text \<open>
  The text that \<^verbatim>\<open>format\<close> prints as \<open>t\<close>: every brace doubled, the
  escaping a template author uses for a literal brace.
\<close>

definition fmt_escape :: "string \<Rightarrow> string" where
  "fmt_escape t = concat (map (\<lambda>c. if c = CHR ''{'' \<or> c = CHR ''}'' then [c, c] else [c]) t)"

text \<open>A text with no braces, which \<^verbatim>\<open>format\<close> copies.\<close>

definition brace_free :: "string \<Rightarrow> bool" where
  "brace_free t \<longleftrightarrow> (\<forall>c \<in> set t. c \<noteq> CHR ''{'' \<and> c \<noteq> CHR ''}'')"

text \<open>A plain field name: an identifier that is not a number and has no accessor.\<close>

definition plain_name :: "string \<Rightarrow> bool" where
  "plain_name n \<longleftrightarrow> n \<noteq> [] \<and> \<not> list_all is_digit n \<and>
     (\<forall>c \<in> set n. c \<notin> set ''{}[]!:.'')"

section \<open>Lemmas\<close>

lemma brace_free_Cons [simp]:
  "brace_free (c # t) \<longleftrightarrow> c \<noteq> CHR ''{'' \<and> c \<noteq> CHR ''}'' \<and> brace_free t"
  by (auto simp: brace_free_def)

lemma brace_free_append [simp]: "brace_free (s @ t) \<longleftrightarrow> brace_free s \<and> brace_free t"
  by (auto simp: brace_free_def)

lemma py_format_brace_free [cwhy_simps]:
  "brace_free t \<Longrightarrow> py_format kw (t @ r) = map_sum id ((@) t) (py_format kw r)"
proof (induction t)
  case Nil
  then show ?case by (cases "py_format kw r") simp_all
next
  case (Cons c t)
  then show ?case by (cases "py_format kw r") simp_all
qed

lemma py_format_brace_free_all [cwhy_simps]: "brace_free t \<Longrightarrow> py_format kw t = Inr t"
  using py_format_brace_free [of t kw "[]"] by simp

lemma scan_name_plain:
  "\<forall>c \<in> set n. c \<notin> set ''{}[]!:.'' \<Longrightarrow> scan_name (n @ CHR ''}'' # r) = Inr (n, CHR ''}'' # r)"
  by (induction n) auto

lemma fmt_field_plain:
  "plain_name n \<Longrightarrow> fmt_field kw n = (case map_of kw n of None \<Rightarrow> Inl (FmtKeyError n) | Some v \<Rightarrow> Inr v)"
proof -
  assume n: "plain_name n"
  then have tw: "takeWhile (\<lambda>c. c \<noteq> CHR ''.'' \<and> c \<noteq> CHR ''['') n = n"
    by (auto simp: plain_name_def takeWhile_eq_all_conv)
  have "n \<noteq> [] \<and> \<not> list_all is_digit n"
    using n by (simp add: plain_name_def)
  then show ?thesis
    unfolding fmt_field_def Let_def tw by (simp split: option.split)
qed

lemma py_format_field [cwhy_simps]:
  assumes "plain_name n"
  shows "py_format kw (CHR ''{'' # n @ CHR ''}'' # r) =
    (case map_of kw n of
       None \<Rightarrow> Inl (FmtKeyError n)
     | Some v \<Rightarrow> (case fmt_str v of Inl e \<Rightarrow> Inl e | Inr s \<Rightarrow> map_sum id ((@) s) (py_format kw r)))"
proof -
  from assms obtain c n' where n: "n = c # n'" "c \<noteq> CHR ''{''"
    by (cases n) (auto simp: plain_name_def)
  have "scan_name (n @ CHR ''}'' # r) = Inr (n, CHR ''}'' # r)"
    using assms scan_name_plain by (simp add: plain_name_def)
  with n assms show ?thesis
    by (simp add: fmt_field_plain field_tail_def fmt_render_def split: option.split)
qed

lemma fmt_escape_Cons [simp]:
  "fmt_escape (c # t) = (if c = CHR ''{'' \<or> c = CHR ''}'' then [c, c] else [c]) @ fmt_escape t"
  by (simp add: fmt_escape_def)

text \<open>
  A template in which every brace is doubled formats to the text with single
  braces, followed by what the rest formats to: \<^verbatim>\<open>{{\<close> and \<^verbatim>\<open>}}\<close> are
  the only escapes and all other characters are copied.
\<close>

lemma py_format_escape_append: "py_format kw (fmt_escape t @ r) = map_sum id ((@) t) (py_format kw r)"
proof (induction t)
  case Nil
  then show ?case by (cases "py_format kw r") (simp_all add: fmt_escape_def)
next
  case (Cons c t)
  then show ?case
    by (cases "c = CHR ''{''"; cases "c = CHR ''}''"; cases "py_format kw r") simp_all
qed

text \<open>
  A closing brace after literal text that is not doubled is a
  \<^verbatim>\<open>ValueError\<close> (\<^verbatim>\<open>Single '}' encountered in format string\<close>),
  whatever follows it.
\<close>

lemma py_format_single_close:
  assumes "brace_free a" and "take 1 b \<noteq> ''}''"
  shows "py_format kw (a @ CHR ''}'' # b) = Inl FmtValueError"
  using assms by (cases b) (simp_all add: py_format_brace_free)

end
