(* ===== verification/Tempfile.thy ===== *)
theory Tempfile
  imports Prelude "HOL-Library.While_Combinator"
begin

text \<open>
  The part of \<^verbatim>\<open>tempfile.NamedTemporaryFile(mode="w", delete=False)\<close>
  (\<^verbatim>\<open>src/cwhy/__main__.py\<close>, line 80) that decides which file is created:
  \<^verbatim>\<open>_mkstemp_inner\<close> of Python 3.11, the loop

  \<^verbatim>\<open>for seq in range(TMP_MAX):\<close>
  \<^verbatim>\<open>    name = next(names)\<close>
  \<^verbatim>\<open>    try: fd = os.open(file, O_CREAT | O_EXCL | ..., 0o600)\<close>
  \<^verbatim>\<open>    except FileExistsError: continue\<close>
  \<^verbatim>\<open>    return fd, file\<close>
  \<^verbatim>\<open>raise FileExistsError(...)\<close>

  written with \<open>while_option\<close> over the state \<open>(seq, names)\<close>: the loop goes on
  while attempts remain and the candidate exists.  The candidate names are the
  sequence the names generator would produce, given by the world; when it is
  shorter than \<^verbatim>\<open>TMP_MAX\<close> the missing names count as taken.  The file system
  is a map from paths to contents and permission bits.  The lemmas show that the
  loop stops (\<open>mkstemp_loop_halts\<close>, with the measure \<open>TMP_MAX - seq\<close>), that
  it returns exactly the first candidate that does not exist (the reference
  \<open>find\<close>), and the bit facts on the creation mode \<^verbatim>\<open>0o600\<close> under the
  umask; \<open>Cli\<close> states what they mean for \<^verbatim>\<open>main()\<close>.
\<close>

unbundle bit_operations_syntax

text \<open>Permission bits of a file, \<^verbatim>\<open>0o7777\<close> at most.\<close>

type_synonym mode = "12 word"

type_synonym fs = "string \<rightharpoonup> string \<times> mode"

text \<open>
  \<^verbatim>\<open>tempfile.TMP_MAX\<close> is \<^verbatim>\<open>os.TMP_MAX\<close> where the platform defines it:
  238328 with the GNU C library on Linux (10000 is only the fallback).
\<close>

definition tmp_max :: nat where
  "tmp_max = 238328"

text \<open>Octal \<^verbatim>\<open>0o600\<close> is 384: the file is created with it, less the umask bits.\<close>

definition create_mode :: "mode \<Rightarrow> mode" where
  "create_mode u = 384 AND NOT u"

type_synonym mkstemp_state = "nat \<times> string list"

text \<open>The loop goes on while an attempt remains and the candidate exists (\<^verbatim>\<open>continue\<close>).\<close>

fun mkstemp_retry :: "fs \<Rightarrow> mkstemp_state \<Rightarrow> bool" where
  "mkstemp_retry fs (seq, ns) = (seq < tmp_max \<and> ns \<noteq> [] \<and> fs (hd ns) \<noteq> None)"

fun mkstemp_next :: "mkstemp_state \<Rightarrow> mkstemp_state" where
  "mkstemp_next (seq, ns) = (Suc seq, tl ns)"

definition mkstemp_loop :: "fs \<Rightarrow> string list \<Rightarrow> mkstemp_state option" where
  "mkstemp_loop fs names = while_option (mkstemp_retry fs) mkstemp_next (0, names)"

text \<open>After the loop: the candidate that was free, or \<^verbatim>\<open>FileExistsError\<close> (\<open>None\<close>).\<close>

definition mkstemp_name :: "fs \<Rightarrow> string list \<Rightarrow> string option" where
  "mkstemp_name fs names =
     (case mkstemp_loop fs names of
        Some (seq, n # _) \<Rightarrow> if seq < tmp_max then Some n else None
      | _ \<Rightarrow> None)"

text \<open>The loop invariant: \<open>seq\<close> attempts made, on the first \<open>seq\<close> names, all taken.\<close>

fun mkstemp_inv :: "fs \<Rightarrow> string list \<Rightarrow> mkstemp_state \<Rightarrow> bool" where
  "mkstemp_inv fs names (seq, ns) =
     (seq \<le> tmp_max \<and> seq \<le> length names \<and> ns = drop seq names \<and>
        (\<forall>n \<in> set (take seq names). fs n \<noteq> None))"

text \<open>Evaluating the search on a concrete file system and name sequence.\<close>

lemmas mkstemp_eval = mkstemp_name_def mkstemp_loop_def while_option_unfold [where b = "mkstemp_retry fs" for fs] tmp_max_def

section \<open>Lemmas\<close>

lemma mkstemp_inv_init: "mkstemp_inv fs names (0, names)"
  by (simp add: mkstemp_inv.simps)

lemma mkstemp_inv_step:
  assumes "mkstemp_inv fs names s" and "mkstemp_retry fs s"
  shows "mkstemp_inv fs names (mkstemp_next s) \<and> tmp_max - fst (mkstemp_next s) < tmp_max - fst s"
proof -
  obtain seq ns where s: "s = (seq, ns)" by fastforce
  with assms have ns: "ns = drop seq names" and lt: "seq < length names" "seq < tmp_max"
    and old: "\<forall>n \<in> set (take seq names). fs n \<noteq> None" and cur: "fs (names ! seq) \<noteq> None"
    by (auto simp: mkstemp_inv.simps mkstemp_retry.simps hd_drop_conv_nth)
  have "take (Suc seq) names = take seq names @ [names ! seq]"
    using lt by (simp add: take_Suc_conv_app_nth)
  with ns lt old cur show ?thesis
    by (simp add: s mkstemp_inv.simps mkstemp_next.simps drop_Suc tl_drop)
qed

lemma mkstemp_loop_halts: "\<exists>s. mkstemp_loop fs names = Some s"
  unfolding mkstemp_loop_def
  using measure_while_option_Some [of "mkstemp_inv fs names" "mkstemp_retry fs" mkstemp_next
      "\<lambda>s. tmp_max - fst s", OF mkstemp_inv_step mkstemp_inv_init]
  by blast

lemma mkstemp_loop_result:
  assumes "mkstemp_loop fs names = Some s"
  shows "mkstemp_inv fs names s \<and> \<not> mkstemp_retry fs s"
proof
  show "mkstemp_inv fs names s"
    using while_option_rule [where P = "mkstemp_inv fs names", OF _ assms [unfolded mkstemp_loop_def]]
      mkstemp_inv_step mkstemp_inv_init by blast
  show "\<not> mkstemp_retry fs s"
    using assms unfolding mkstemp_loop_def by (rule while_option_stop)
qed

text \<open>Where the loop stops: after \<open>seq\<close> attempts on taken names, because no attempt
  is left, the names ran out, or the next candidate is free.\<close>

lemma mkstemp_loop_ends:
  obtains seq where "mkstemp_loop fs names = Some (seq, drop seq names)"
    and "seq \<le> tmp_max" and "seq \<le> length names"
    and "\<forall>n \<in> set (take seq names). fs n \<noteq> None"
    and "seq = min tmp_max (length names) \<or> seq < min tmp_max (length names) \<and> fs (names ! seq) = None"
proof -
  obtain s where r: "mkstemp_loop fs names = Some s" using mkstemp_loop_halts by blast
  obtain seq ns where s: "s = (seq, ns)" by fastforce
  have i: "mkstemp_inv fs names (seq, ns)" and n: "\<not> mkstemp_retry fs (seq, ns)"
    using mkstemp_loop_result [OF r] unfolding s by blast+
  have inv: "seq \<le> tmp_max" "seq \<le> length names" "ns = drop seq names"
      "\<forall>n \<in> set (take seq names). fs n \<noteq> None"
    using i by simp_all
  have stop: "seq = min tmp_max (length names) \<or> seq < min tmp_max (length names) \<and> fs (names ! seq) = None"
  proof (cases "seq < length names")
    case True
    then show ?thesis using n inv(1,3) by (auto simp: hd_drop_conv_nth simp del: not_None_eq)
  qed (use inv(1,2) in simp)
  from r s inv stop show ?thesis by (intro that) simp_all
qed

lemma mkstemp_name_fresh: "mkstemp_name fs names = Some n \<Longrightarrow> fs n = None"
  by (rule mkstemp_loop_ends [of fs names])
    (auto simp: mkstemp_name_def dest: nth_via_drop split: list.splits if_splits)

lemma mkstemp_name_candidate: "mkstemp_name fs names = Some n \<Longrightarrow> n \<in> set (take tmp_max names)"
proof (rule mkstemp_loop_ends [of fs names])
  fix seq
  assume "mkstemp_loop fs names = Some (seq, drop seq names)" and "mkstemp_name fs names = Some n"
  then have "seq < tmp_max" "drop seq names \<noteq> []" "names ! seq = n"
    by (auto simp: mkstemp_name_def dest: nth_via_drop split: list.splits if_splits)
  then show "n \<in> set (take tmp_max names)"
    by (metis drop_eq_Nil2 in_set_conv_nth length_take min_less_iff_conj not_le nth_take)
qed

text \<open>No name is returned exactly when every one of the first \<^verbatim>\<open>TMP_MAX\<close> candidates exists.\<close>

lemma mkstemp_name_None_iff:
  "mkstemp_name fs names = None \<longleftrightarrow> (\<forall>n \<in> set (take tmp_max names). fs n \<noteq> None)"
proof (rule mkstemp_loop_ends [of fs names])
  fix seq
  assume r: "mkstemp_loop fs names = Some (seq, drop seq names)" and le: "seq \<le> length names"
    and taken: "\<forall>n \<in> set (take seq names). fs n \<noteq> None"
    and stop: "seq = min tmp_max (length names) \<or> seq < min tmp_max (length names) \<and> fs (names ! seq) = None"
  show ?thesis
  proof (cases "seq = min tmp_max (length names)")
    case True
    then have "mkstemp_name fs names = None"
      using r by (auto simp: mkstemp_name_def min_def split: list.splits)
    moreover from True have "take seq names = take tmp_max names" by (simp only: take_min_length)
    ultimately show ?thesis using taken by simp
  next
    case False
    with stop have lt: "seq < tmp_max" "seq < length names" and free: "fs (names ! seq) = None" by simp_all
    then have "mkstemp_name fs names = Some (names ! seq)"
      using r by (simp add: mkstemp_name_def Cons_nth_drop_Suc [symmetric])
    moreover have "names ! seq \<in> set (take tmp_max names)"
      using lt by (metis in_set_conv_nth length_take min_less_iff_conj nth_take)
    ultimately show ?thesis using free by (auto simp del: not_None_eq)
  qed
qed

lemma create_mode_not_exec: "create_mode u AND 73 = 0"
proof -
  have "(384 :: mode) AND 73 = 0" by simp
  then show ?thesis
    unfolding create_mode_def by (metis and.assoc and.commute and_zero_eq)
qed

text \<open>The creation mode gives no permission to the group or to others (\<^verbatim>\<open>0o077\<close> is 63).\<close>

lemma create_mode_private: "create_mode u AND 63 = 0"
proof -
  have "(384 :: mode) AND 63 = 0" by simp
  then show ?thesis
    unfolding create_mode_def by (metis and.assoc and.commute and_zero_eq)
qed

text \<open>
  The loop with the raise after it is the reference search: it returns exactly what
  \<open>find\<close> returns on the first \<^verbatim>\<open>TMP_MAX\<close> candidates, the first one that
  does not exist, and \<open>None\<close> (\<^verbatim>\<open>FileExistsError\<close>) when there is none.
\<close>

lemma mkstemp_name_first_free:
  "mkstemp_name fs names = find (\<lambda>n. fs n = None) (take tmp_max names)"
proof (rule mkstemp_loop_ends [of fs names])
  fix seq
  assume r: "mkstemp_loop fs names = Some (seq, drop seq names)"
    and taken: "\<forall>n \<in> set (take seq names). fs n \<noteq> None"
    and stop: "seq = min tmp_max (length names) \<or> seq < min tmp_max (length names) \<and> fs (names ! seq) = None"
  show ?thesis
  proof (cases "seq = min tmp_max (length names)")
    case True
    then have "mkstemp_name fs names = None"
      using r by (auto simp: mkstemp_name_def min_def split: list.splits)
    moreover from True have "take seq names = take tmp_max names" by (simp only: take_min_length)
    with taken have "find (\<lambda>n. fs n = None) (take tmp_max names) = None"
      by (simp add: find_None_iff)
    ultimately show ?thesis by simp
  next
    case False
    with stop have lt: "seq < tmp_max" "seq < length names" and free: "fs (names ! seq) = None" by simp_all
    then have "mkstemp_name fs names = Some (names ! seq)"
      using r by (simp add: mkstemp_name_def Cons_nth_drop_Suc [symmetric])
    moreover have "\<forall>j < seq. fs (names ! j) \<noteq> None"
    proof (intro allI impI)
      fix j
      assume "j < seq"
      then have "names ! j \<in> set (take seq names)" using lt(2) by (force simp: in_set_conv_nth)
      with taken show "fs (names ! j) \<noteq> None" by blast
    qed
    then have "find (\<lambda>n. fs n = None) (take tmp_max names) = Some (names ! seq)"
      unfolding find_Some_iff using lt free by (auto intro!: exI [of _ seq])
    ultimately show ?thesis by simp
  qed
qed

end
