(* ===== verification/Cli.thy ===== *)
theory Cli
  imports CwhyArgs PyFormat Tempfile
begin

text \<open>
  \<^verbatim>\<open>main()\<close> of \<^verbatim>\<open>src/cwhy/__main__.py\<close> after parsing (lines 77--90)
  and \<^verbatim>\<open>wrapper(args)\<close> (lines 12--15), over an explicit world: standard
  input, the lines printed, the file system as a map from paths to contents and
  permission bits, the names \<^verbatim>\<open>tempfile\<close> would try (searched by
  \<open>mkstemp_name\<close> of \<open>Tempfile\<close>), the process umask, the installed
  \<^verbatim>\<open>wrapper.py.in\<close> template and the headers of the installed package
  metadata.  The
  diagnostic pipeline \<^verbatim>\<open>cwhy.evaluate(args, stdin)\<close> is a parameter
  \<open>core\<close> of the model: \<^verbatim>\<open>main\<close> only decides whether and with what it
  is called.  Python exceptions that escape \<^verbatim>\<open>main\<close> are values of
  \<open>py_exc\<close>; an exit through argparse is an exit status.
\<close>

unbundle bit_operations_syntax

section \<open>The world\<close>

text \<open>A line on standard error: an argparse usage error, or a message of the core.\<close>

datatype err_line = UsageError string arg_error | ErrorLine string

record world =
  stdin :: string
  out :: "string list"
  err :: "err_line list"
  files :: fs
  tmp_names :: "string list"
  umask :: mode
  template :: "string option"
  metadata :: "(string \<times> string) list option"

datatype py_exc =
    ExcKeyError string
  | ExcFileNotFound
  | ExcFileExists
  | ExcFormat fmt_error
  | ExcPackageNotFound
  | ExcValueError string

datatype outcome = Exited int | Raised py_exc

text \<open>\<^verbatim>\<open>cwhy.evaluate(args, stdin)\<close>, run on the world.\<close>

type_synonym core = "pydict \<Rightarrow> string \<Rightarrow> world \<Rightarrow> outcome \<times> world"

section \<open>Python primitives\<close>

text \<open>\<^verbatim>\<open>args[key]\<close>: a missing key raises \<^verbatim>\<open>KeyError\<close>.\<close>

definition py_getitem :: "pydict \<Rightarrow> string \<Rightarrow> py_exc + pyval" where
  "py_getitem d k = (case d k of None \<Rightarrow> Inl (ExcKeyError k) | Some v \<Rightarrow> Inr v)"

text \<open>The truth value of \<^verbatim>\<open>if v:\<close>.\<close>

fun py_truthy :: "pyval \<Rightarrow> bool" where
  "py_truthy (PBool b) = b"
| "py_truthy (PStr s) = (s \<noteq> [])"
| "py_truthy (PInt i) = (i \<noteq> 0)"

text \<open>\<^verbatim>\<open>str.lower()\<close> on the ASCII letters of a header name.\<close>

definition py_lower :: "string \<Rightarrow> string" where
  "py_lower s = map (\<lambda>c. let n = (of_char c :: nat) in if 65 \<le> n \<and> n \<le> 90 then char_of (n + 32) else c) s"

text \<open>
  \<^verbatim>\<open>msg[name]\<close> on the package metadata, \<^verbatim>\<open>email.message.Message.get\<close>:
  the value of the first header whose name equals \<open>name\<close> ignoring case, or
  \<^verbatim>\<open>None\<close>.  The headers are those of the installed \<^verbatim>\<open>METADATA\<close> file,
  in order.
\<close>

definition msg_get :: "(string \<times> string) list \<Rightarrow> string \<Rightarrow> string option" where
  "msg_get hs k = map_option snd (find (\<lambda>(h, v). py_lower h = py_lower k) hs)"

text \<open>A replacement field \<^verbatim>\<open>{v}\<close> of an f-string, for a string or \<^verbatim>\<open>None\<close>.\<close>

definition py_fstr_opt :: "string option \<Rightarrow> string" where
  "py_fstr_opt v = (case v of None \<Rightarrow> ''None'' | Some s \<Rightarrow> s)"

text \<open>\<^verbatim>\<open>f.write(text)\<close> on the file opened for writing, and \<^verbatim>\<open>os.chmod\<close>.\<close>

definition fs_write :: "string \<Rightarrow> string \<Rightarrow> fs \<Rightarrow> fs" where
  "fs_write n text fs = (case fs n of Some (_, m) \<Rightarrow> fs(n \<mapsto> (text, m)) | None \<Rightarrow> fs)"

definition fs_chmod :: "string \<Rightarrow> mode \<Rightarrow> fs \<Rightarrow> fs" where
  "fs_chmod n m fs = (case fs n of Some (text, _) \<Rightarrow> fs(n \<mapsto> (text, m)) | None \<Rightarrow> fs)"

section \<open>\<^verbatim>\<open>wrapper(args)\<close>\<close>

text \<open>
  Read the template installed beside the module, then format it with the
  compiler and the whole dictionary.
\<close>

definition wrapper :: "string option \<Rightarrow> pydict \<Rightarrow> py_exc + string" where
  "wrapper tmpl args =
     (case tmpl of
        None \<Rightarrow> Inl ExcFileNotFound
      | Some t \<Rightarrow>
          (case py_getitem args ''wrapper_compiler'' of
             Inl e \<Rightarrow> Inl e
           | Inr c \<Rightarrow>
               map_sum ExcFormat id
                 (py_format [(''compiler'', of_pyval c), (''args'', FDict cwhy_dests args)] t)))"

section \<open>\<^verbatim>\<open>main()\<close> after parsing\<close>

text \<open>
  The wrapper branch: the temporary file exists before \<^verbatim>\<open>wrapper(args)\<close>
  is evaluated inside \<^verbatim>\<open>f.write(...)\<close>, so an exception there leaves it
  behind, empty; otherwise the text is written, the mode set to
  \<^verbatim>\<open>0o755\<close> and the name printed.
\<close>

definition wrapper_branch :: "pydict \<Rightarrow> world \<Rightarrow> outcome \<times> world" where
  "wrapper_branch args w =
     (case mkstemp_name (files w) (tmp_names w) of
        None \<Rightarrow> (Raised ExcFileExists, w)
      | Some n \<Rightarrow>
          (let w1 = w\<lparr>files := (files w)(n \<mapsto> ([], create_mode (umask w)))\<rparr> in
           case wrapper (template w) args of
             Inl e \<Rightarrow> (Raised e, w1)
           | Inr text \<Rightarrow>
               (Exited 0,
                w1\<lparr>files := fs_chmod n 493 (fs_write n text (files w1)),
                   out := out w1 @ [n]\<rparr>)))"

text \<open>
  The version branch: \<^verbatim>\<open>importlib.metadata.metadata('cwhy')\<close> raises
  \<^verbatim>\<open>PackageNotFoundError\<close> when cwhy is not installed; otherwise
  \<^verbatim>\<open>['Version']\<close> is looked up in its headers and formatted into the line,
  \<^verbatim>\<open>None\<close> included.
\<close>

definition version_branch :: "world \<Rightarrow> outcome \<times> world" where
  "version_branch w =
     (case metadata w of
        None \<Rightarrow> (Raised ExcPackageNotFound, w)
      | Some hs \<Rightarrow> (Exited 0, w\<lparr>out := out w @ [''cwhy version '' @ py_fstr_opt (msg_get hs ''Version'')]\<rparr>))"

text \<open>The default branch: read all of standard input and evaluate it when non-empty.\<close>

definition stdin_branch :: "core \<Rightarrow> pydict \<Rightarrow> world \<Rightarrow> outcome \<times> world" where
  "stdin_branch core args w =
     (let s = stdin w; w1 = w\<lparr>stdin := []\<rparr> in
      if s \<noteq> [] then core args s w1 else (Exited 0, w1))"

definition main_body :: "core \<Rightarrow> pydict \<Rightarrow> world \<Rightarrow> outcome \<times> world" where
  "main_body core args w =
     (case py_getitem args ''wrapper'' of
        Inl e \<Rightarrow> (Raised e, w)
      | Inr wv \<Rightarrow>
          if py_truthy wv then wrapper_branch args w
          else (case py_getitem args ''version'' of
                  Inl e \<Rightarrow> (Raised e, w)
                | Inr vv \<Rightarrow> if py_truthy vv then version_branch w else stdin_branch core args w))"

text \<open>
  \<^verbatim>\<open>main()\<close>: \<^verbatim>\<open>--help\<close> prints the help and exits with status 0, a usage
  error prints the message to standard error and exits with status 2.
\<close>

definition cwhy_main :: "core \<Rightarrow> string list \<Rightarrow> world \<Rightarrow> outcome \<times> world" where
  "cwhy_main core argv w =
     (case cwhy_parse argv of
        HelpExit pr \<Rightarrow> (Exited 0, w\<lparr>out := out w @ [''usage: '' @ pr]\<rparr>)
      | ErrorExit pr e \<Rightarrow> (Exited 2, w\<lparr>err := err w @ [UsageError pr e]\<rparr>)
      | Parsed args \<Rightarrow> main_body core args w)"

section \<open>Lemmas\<close>

lemma cwhy_parsed_ok: "cwhy_parse argv = Parsed args \<Longrightarrow> args_ok cwhy_parser args"
  unfolding cwhy_parse_def by (rule parse_args_args_ok [OF cwhy_parser_wf])

text \<open>On a parsed command line the lookups of \<^verbatim>\<open>main\<close> never raise.\<close>

lemma cwhy_main_dispatch:
  assumes "cwhy_parse argv = Parsed args"
  shows "cwhy_main core argv w =
    (if args ''wrapper'' = Some (PBool True) then wrapper_branch args w
     else if args ''version'' = Some (PBool True) then version_branch w
     else stdin_branch core args w)"
proof -
  from cwhy_parsed_ok [OF assms] obtain b1 b3 where
    "args ''version'' = Some (PBool b1)" "args ''wrapper'' = Some (PBool b3)"
    by (rule args_ok_cwhy_values)
  with assms show ?thesis
    by (simp add: cwhy_main_def main_body_def py_getitem_def)
qed

lemma fs_chmod_write_new [simp]:
  "fs_chmod n m' (fs_write n text (fs(n \<mapsto> (t0, m)))) = fs(n \<mapsto> (text, m'))"
  by (simp add: fs_chmod_def fs_write_def)

lemma wrapper_branch_ok:
  assumes "mkstemp_name (files w) (tmp_names w) = Some n" and "wrapper (template w) args = Inr text"
  shows "wrapper_branch args w = (Exited 0, w\<lparr>files := (files w)(n \<mapsto> (text, 493)), out := out w @ [n]\<rparr>)"
  using assms by (simp add: wrapper_branch_def Let_def)

lemma wrapper_branch_error:
  assumes "mkstemp_name (files w) (tmp_names w) = Some n" and "wrapper (template w) args = Inl e"
  shows "wrapper_branch args w = (Raised e, w\<lparr>files := (files w)(n \<mapsto> ([], create_mode (umask w)))\<rparr>)"
  using assms by (simp add: wrapper_branch_def Let_def)

lemma wrapper_compiler_field:
  assumes "brace_free a" and "brace_free b" and "args ''wrapper_compiler'' = Some (PStr c)"
  shows "wrapper (Some (a @ ''{compiler}'' @ b)) args = Inr (a @ c @ b)"
proof -
  have "plain_name ''compiler''" by (simp add: plain_name_def is_digit_def)
  then show ?thesis
    using assms py_format_field [of "''compiler''"]
    by (simp add: wrapper_def py_getitem_def py_format_brace_free py_format_brace_free_all)
qed

lemma wrapper_escaped_field:
  assumes "args ''wrapper_compiler'' = Some (PStr c)"
  shows "wrapper (Some (fmt_escape a @ ''{compiler}'' @ fmt_escape b)) args = Inr (a @ c @ b)"
proof -
  have "plain_name ''compiler''" by (simp add: plain_name_def is_digit_def)
  then show ?thesis
    using assms py_format_field [of "''compiler''"] py_format_escape_append [of _ b "[]"]
    by (simp add: wrapper_def py_getitem_def py_format_escape_append)
qed

lemma wrapper_single_close:
  assumes "brace_free a" and "take 1 b \<noteq> ''}''" and "args ''wrapper_compiler'' = Some v"
  shows "wrapper (Some (a @ CHR ''}'' # b)) args = Inl (ExcFormat FmtValueError)"
  using assms py_format_single_close [OF assms(1,2)] by (simp add: wrapper_def py_getitem_def)

lemma cwhy_parse_wrapper_line:
  "cwhy_parse [''--wrapper'', opt_assign ''--wrapper-compiler'' c] =
     Parsed (cwhy_defaults(''wrapper'' \<mapsto> PBool True, ''wrapper_compiler'' \<mapsto> PStr c))"
proof -
  have "map_of cwhy_optionals ''--wrapper-compiler'' = Some (Store ''wrapper_compiler'' ConvStr)"
    by (simp add: cwhy_optionals_def)
  then show ?thesis
    by (simp add: cwhy_parse_def parse_args_def parse_known_def cwhy_parser_def cwhy_subcommands_def
        cwhy_option_words cwhy_option_assign consume_flag consume_store_str)
qed

lemma cwhy_parse_subcommand:
  assumes "c \<in> set cwhy_subcommands"
  shows "cwhy_parse [c] = Parsed (cwhy_defaults(''subcommand'' \<mapsto> PStr c))"
  using assms cwhy_subcommand_word [OF assms]
  by (simp add: cwhy_parse_def parse_args_def parse_known_def cwhy_parser_def
      parse_optional_positional parse_flat_def sub_parser_def)

lemma wrapper_not_file_exists: "wrapper t args \<noteq> Inl ExcFileExists"
proof -
  have "map_sum ExcFormat id r \<noteq> Inl ExcFileExists" for r :: "fmt_error + string"
    by (cases r) simp_all
  then show ?thesis by (simp add: wrapper_def py_getitem_def split: option.split sum.split)
qed

section \<open>Properties of \<^verbatim>\<open>main()\<close>\<close>

text \<open>
  C2.  Empty input is a no-op: when the command line parses without
  \<^verbatim>\<open>--wrapper\<close> or \<^verbatim>\<open>--version\<close> and standard input is empty,
  \<^verbatim>\<open>main\<close> exits with status 0, prints nothing, changes no file and never
  calls the core, whatever the core does.
\<close>

theorem cwhy_main_empty_stdin:
  assumes "cwhy_parse argv = Parsed args"
    and "args ''wrapper'' = Some (PBool False)" and "args ''version'' = Some (PBool False)"
    and "stdin w = []"
  shows "cwhy_main core argv w = (Exited 0, w)"
  using assms by (simp add: cwhy_main_dispatch stdin_branch_def)

theorem cwhy_main_empty_stdin_witness:
  "cwhy_main (\<lambda>a s w. (Exited 1, w\<lparr>out := out w @ [s]\<rparr>)) [''fix'']
     \<lparr>stdin = [], out = [], err = [], files = Map.empty, tmp_names = [''/tmp/tmp1''], umask = 18,
      template = None, metadata = Some [(''Version'', ''0.4'')]\<rparr> =
   (Exited 0, \<lparr>stdin = [], out = [], err = [], files = Map.empty, tmp_names = [''/tmp/tmp1''],
      umask = 18, template = None, metadata = Some [(''Version'', ''0.4'')]\<rparr>)"
  by (rule cwhy_main_empty_stdin [OF cwhy_parse_subcommand])
    (simp_all add: cwhy_subcommands_def cwhy_defaults_def)

text \<open>
  C3.  Non-empty input is evaluated exactly once, with the whole text read from
  standard input and the parsed dictionary: what \<^verbatim>\<open>main\<close> does is then
  what the core does on the world whose input has been consumed.
\<close>

theorem cwhy_main_evaluates:
  assumes "cwhy_parse argv = Parsed args"
    and "args ''wrapper'' = Some (PBool False)" and "args ''version'' = Some (PBool False)"
    and "stdin w \<noteq> []"
  shows "cwhy_main core argv w = core args (stdin w) (w\<lparr>stdin := []\<rparr>)"
  using assms by (simp add: cwhy_main_dispatch stdin_branch_def Let_def)

theorem cwhy_main_evaluates_witness:
  "cwhy_main (\<lambda>a s w. (Exited 1, w\<lparr>out := out w @ [s]\<rparr>)) [''fix'']
     \<lparr>stdin = ''a.c:1:2: error: x'', out = [], err = [], files = Map.empty, tmp_names = [],
      umask = 18, template = None, metadata = None\<rparr> =
   (Exited 1, \<lparr>stdin = [], out = [''a.c:1:2: error: x''], err = [], files = Map.empty, tmp_names = [],
      umask = 18, template = None, metadata = None\<rparr>)"
  by (subst cwhy_main_evaluates [OF cwhy_parse_subcommand])
    (simp_all add: cwhy_subcommands_def cwhy_defaults_def)

text \<open>
  C4.  With \<^verbatim>\<open>--wrapper\<close>, when a temporary name is free and the template
  formats, \<^verbatim>\<open>main\<close> creates a file under a name that did not exist, holding
  exactly the formatted template with mode \<^verbatim>\<open>0o755\<close>, prints its name, and
  does nothing else: standard input is not read, \<^verbatim>\<open>--version\<close> is ignored,
  no other file changes and the core is not called.
\<close>

theorem cwhy_main_wrapper_ok:
  assumes "cwhy_parse argv = Parsed args" and "args ''wrapper'' = Some (PBool True)"
    and "mkstemp_name (files w) (tmp_names w) = Some n" and "wrapper (template w) args = Inr text"
  shows "files w n = None \<and>
    cwhy_main core argv w = (Exited 0, w\<lparr>files := (files w)(n \<mapsto> (text, 493)), out := out w @ [n]\<rparr>)"
  using assms by (simp add: cwhy_main_dispatch wrapper_branch_ok mkstemp_name_fresh)

theorem cwhy_main_wrapper_ok_witness:
  "cwhy_main (\<lambda>a s w. (Exited 1, w)) [''--wrapper'', opt_assign ''--wrapper-compiler'' ''gcc'']
     \<lparr>stdin = ''x'', out = [], err = [], files = Map.empty, tmp_names = [''/tmp/t1''], umask = 18,
      template = Some ''exec {compiler}'', metadata = None\<rparr> =
   (Exited 0, \<lparr>stdin = ''x'', out = [''/tmp/t1''], err = [], files = [''/tmp/t1'' \<mapsto> (''exec gcc'', 493)],
      tmp_names = [''/tmp/t1''], umask = 18, template = Some ''exec {compiler}'', metadata = None\<rparr>)"
proof -
  have w: "wrapper (Some (''exec '' @ ''{compiler}'' @ ''''))
      (cwhy_defaults(''wrapper'' \<mapsto> PBool True, ''wrapper_compiler'' \<mapsto> PStr ''gcc'')) = Inr (''exec '' @ ''gcc'' @ '''')"
    by (rule wrapper_compiler_field) (simp_all add: brace_free_def)
  show ?thesis
    using cwhy_main_wrapper_ok [OF cwhy_parse_wrapper_line, of "''gcc''"] w
    by (simp add: mkstemp_eval)
qed

text \<open>
  C5.  When \<^verbatim>\<open>wrapper(args)\<close> raises an exception Python raises too
  (the template is missing, or malformed, or names a missing key), the exception
  escapes \<^verbatim>\<open>main\<close> after the temporary file has been created: an empty file
  is left behind, with the creation mode \<^verbatim>\<open>0o600\<close> under the umask, which
  has no execute bit whatever the umask.  Templates that use what the format model
  leaves out (\<open>FmtUnsupported\<close>) are not covered.
\<close>

theorem cwhy_main_wrapper_error:
  assumes "cwhy_parse argv = Parsed args" and "args ''wrapper'' = Some (PBool True)"
    and "mkstemp_name (files w) (tmp_names w) = Some n" and "wrapper (template w) args = Inl e"
    and "e \<noteq> ExcFormat FmtUnsupported"
  shows "cwhy_main core argv w =
      (Raised e, w\<lparr>files := (files w)(n \<mapsto> ([], create_mode (umask w)))\<rparr>) \<and>
    create_mode (umask w) AND 73 = 0"
  using assms by (simp add: cwhy_main_dispatch wrapper_branch_error create_mode_not_exec)

theorem cwhy_main_wrapper_error_witness:
  "cwhy_main (\<lambda>a s w. (Exited 1, w)) [''--wrapper'', opt_assign ''--wrapper-compiler'' ''gcc'']
     \<lparr>stdin = [], out = [], err = [], files = Map.empty, tmp_names = [''/tmp/t1''], umask = 18,
      template = None, metadata = None\<rparr> =
   (Raised ExcFileNotFound, \<lparr>stdin = [], out = [], err = [], files = [''/tmp/t1'' \<mapsto> ([], 384)],
      tmp_names = [''/tmp/t1''], umask = 18, template = None, metadata = None\<rparr>)"
proof -
  have "create_mode 18 = 384" by (simp add: create_mode_def)
  then show ?thesis
    using cwhy_main_wrapper_error [OF cwhy_parse_wrapper_line, of "''gcc''"]
    by (simp add: mkstemp_eval wrapper_def)
qed



text \<open>
  C10.  Any literal text survives \<^verbatim>\<open>wrapper()\<close>: when the installed
  template is the text \<open>a\<close>, then \<^verbatim>\<open>{compiler}\<close>, then the text
  \<open>b\<close>, with every brace of \<open>a\<close> and \<open>b\<close> doubled,
  \<^verbatim>\<open>cwhy --wrapper --wrapper-compiler=C\<close> writes exactly \<open>a C b\<close> to a fresh
  file with mode \<^verbatim>\<open>0o755\<close>, braces in \<open>a\<close>, \<open>b\<close> and \<open>C\<close> included.
\<close>

theorem cwhy_wrapper_escaped_template:
  assumes "template w = Some (fmt_escape a @ ''{compiler}'' @ fmt_escape b)"
    and "mkstemp_name (files w) (tmp_names w) = Some n"
  shows "cwhy_main core [''--wrapper'', opt_assign ''--wrapper-compiler'' c] w =
    (Exited 0, w\<lparr>files := (files w)(n \<mapsto> (a @ c @ b, 493)), out := out w @ [n]\<rparr>)"
proof -
  have "wrapper (template w) (cwhy_defaults(''wrapper'' \<mapsto> PBool True, ''wrapper_compiler'' \<mapsto> PStr c)) =
      Inr (a @ c @ b)"
    unfolding assms(1) by (rule wrapper_escaped_field) simp
  with assms(2) show ?thesis
    by (simp add: cwhy_main_dispatch [OF cwhy_parse_wrapper_line] wrapper_branch_ok)
qed

theorem cwhy_wrapper_escaped_template_witness:
  "cwhy_main (\<lambda>a s w. (Exited 1, w)) [''--wrapper'', opt_assign ''--wrapper-compiler'' ''g++'']
     \<lparr>stdin = [], out = [], err = [], files = Map.empty, tmp_names = [''/tmp/t1''], umask = 18,
        template = Some ''#!{{cc}} {compiler}'', metadata = None\<rparr> =
   (Exited 0, \<lparr>stdin = [], out = [''/tmp/t1''], err = [], files = [''/tmp/t1'' \<mapsto> (''#!{cc} g++'', 493)],
      tmp_names = [''/tmp/t1''], umask = 18, template = Some ''#!{{cc}} {compiler}'', metadata = None\<rparr>)"
proof -
  have t: "''#!{{cc}} {compiler}'' = fmt_escape ''#!{cc} '' @ ''{compiler}'' @ fmt_escape []"
    by (simp add: fmt_escape_def)
  show ?thesis
    using cwhy_wrapper_escaped_template [of "\<lparr>stdin = [], out = [], err = [], files = Map.empty, tmp_names = [''/tmp/t1''], umask = 18,         template = Some ''#!{{cc}} {compiler}'', metadata = None\<rparr>" "''#!{cc} ''" "[]" "''/tmp/t1''"
        "\<lambda>a s w. (Exited 1, w)" "''g++''"] t
    by (simp add: mkstemp_eval)
qed

text \<open>
  C11.  A single \<^verbatim>\<open>}\<close> in the literal text of the installed template (one
  that is not doubled) makes \<^verbatim>\<open>cwhy --wrapper\<close> fail with
  \<^verbatim>\<open>ValueError\<close> (\<^verbatim>\<open>Single '}' encountered in format string\<close>), whatever
  follows it in the template and whatever the command line says besides
  \<^verbatim>\<open>--wrapper\<close>; the empty temporary file is left behind.
\<close>

theorem cwhy_main_template_single_brace:
  assumes "cwhy_parse argv = Parsed args" and "args ''wrapper'' = Some (PBool True)"
    and "template w = Some (a @ CHR ''}'' # b)" and "brace_free a" and "take 1 b \<noteq> ''}''"
    and "mkstemp_name (files w) (tmp_names w) = Some n"
  shows "cwhy_main core argv w =
    (Raised (ExcFormat FmtValueError), w\<lparr>files := (files w)(n \<mapsto> ([], create_mode (umask w)))\<rparr>)"
proof -
  from cwhy_parsed_ok [OF assms(1)] obtain b1 l t m b2 b3 c sc where
    "args ''wrapper_compiler'' = Some (PStr c)"
    by (rule args_ok_cwhy_values)
  with assms(3-5) have "wrapper (template w) args = Inl (ExcFormat FmtValueError)"
    by (simp add: wrapper_single_close)
  with assms(1,2,6) show ?thesis
    by (simp add: cwhy_main_dispatch wrapper_branch_error)
qed

theorem cwhy_main_template_single_brace_witness:
  "cwhy_main (\<lambda>a s w. (Exited 1, w)) [''--wrapper'', opt_assign ''--wrapper-compiler'' ''cc'']
     \<lparr>stdin = [], out = [], err = [], files = Map.empty, tmp_names = [''/tmp/t1''], umask = 18,
        template = Some ''exec } {compiler}'', metadata = None\<rparr> =
   (Raised (ExcFormat FmtValueError), \<lparr>stdin = [], out = [], err = [], files = [''/tmp/t1'' \<mapsto> ([], 384)],
      tmp_names = [''/tmp/t1''], umask = 18, template = Some ''exec } {compiler}'', metadata = None\<rparr>)"
proof -
  have "create_mode 18 = 384" by (simp add: create_mode_def)
  moreover have "''exec } {compiler}'' = ''exec '' @ CHR ''}'' # '' {compiler}''" by simp
  ultimately show ?thesis
    using cwhy_main_template_single_brace [OF cwhy_parse_wrapper_line [of "''cc''"],
        where w = "\<lparr>stdin = [], out = [], err = [], files = Map.empty, tmp_names = [''/tmp/t1''], umask = 18,
        template = Some ''exec } {compiler}'', metadata = None\<rparr>" and a = "''exec ''" and b = "'' {compiler}''" and n = "''/tmp/t1''"
        and core = "\<lambda>a s w. (Exited 1, w)"]
    by (simp add: mkstemp_eval brace_free_def)
qed

text \<open>
  C22.  \<^verbatim>\<open>--version\<close> without \<^verbatim>\<open>--wrapper\<close> prints
  \<^verbatim>\<open>cwhy version V\<close>, V the value of the first metadata header named
  \<^verbatim>\<open>Version\<close> in any case, and exits 0, or raises when the package is not
  installed; it never reads standard input, writes a file or calls the core.
\<close>

theorem cwhy_main_version:
  assumes "cwhy_parse argv = Parsed args"
    and "args ''wrapper'' = Some (PBool False)" and "args ''version'' = Some (PBool True)"
  shows "cwhy_main core argv w =
    (case metadata w of
       None \<Rightarrow> (Raised ExcPackageNotFound, w)
     | Some hs \<Rightarrow> (Exited 0, w\<lparr>out := out w @ [''cwhy version '' @ py_fstr_opt (msg_get hs ''Version'')]\<rparr>))"
  using assms by (simp add: cwhy_main_dispatch version_branch_def)

theorem cwhy_main_version_witness:
  "cwhy_main (\<lambda>a s w. (Exited 1, w)) [''--version'']
     \<lparr>stdin = ''x'', out = [], err = [], files = Map.empty, tmp_names = [], umask = 18,
      template = None, metadata = Some [(''Metadata-Version'', ''2.1''), (''Name'', ''cwhy''), (''version'', ''0.4.1''), (''Version'', ''9'')]\<rparr> =
   (Exited 0, \<lparr>stdin = ''x'', out = [''cwhy version 0.4.1''], err = [], files = Map.empty, tmp_names = [],
      umask = 18, template = None, metadata = Some [(''Metadata-Version'', ''2.1''), (''Name'', ''cwhy''), (''version'', ''0.4.1''), (''Version'', ''9'')]\<rparr>)"
proof -
  have p: "cwhy_parse [''--version''] = Parsed (cwhy_defaults(''version'' \<mapsto> PBool True))"
    by (simp add: cwhy_parse_def parse_args_def parse_known_def cwhy_parser_def cwhy_subcommands_def
        cwhy_option_words consume_flag)
  have "msg_get [(''Metadata-Version'', ''2.1''), (''Name'', ''cwhy''), (''version'', ''0.4.1''), (''Version'', ''9'')]
      ''Version'' = Some ''0.4.1''"
    by code_simp
  with cwhy_main_version [OF p] show ?thesis by (simp add: cwhy_defaults_def py_fstr_opt_def)
qed

text \<open>
  C23.  When every one of the \<^verbatim>\<open>TMP_MAX\<close> candidate names already exists,
  \<^verbatim>\<open>--wrapper\<close> raises \<^verbatim>\<open>FileExistsError\<close> and leaves the world as it was:
  no existing file is overwritten and nothing is printed.
\<close>

theorem cwhy_main_wrapper_no_name:
  assumes "cwhy_parse argv = Parsed args" and "args ''wrapper'' = Some (PBool True)"
    and "\<forall>n \<in> set (take tmp_max (tmp_names w)). files w n \<noteq> None"
  shows "cwhy_main core argv w = (Raised ExcFileExists, w)"
proof -
  have "mkstemp_name (files w) (tmp_names w) = None"
    using assms(3) by (simp add: mkstemp_name_None_iff)
  with assms(1,2) show ?thesis
    by (simp add: cwhy_main_dispatch wrapper_branch_def)
qed

theorem cwhy_main_wrapper_no_name_witness:
  "cwhy_main (\<lambda>a s w. (Exited 1, w)) [''--wrapper'', opt_assign ''--wrapper-compiler'' ''cc'']
     \<lparr>stdin = [], out = [], err = [], files = [''/tmp/t1'' \<mapsto> (''keep'', 420)], tmp_names = [''/tmp/t1''],
      umask = 18, template = Some ''{compiler}'', metadata = None\<rparr> =
   (Raised ExcFileExists, \<lparr>stdin = [], out = [], err = [], files = [''/tmp/t1'' \<mapsto> (''keep'', 420)],
      tmp_names = [''/tmp/t1''], umask = 18, template = Some ''{compiler}'', metadata = None\<rparr>)"
  by (rule cwhy_main_wrapper_no_name [OF cwhy_parse_wrapper_line]) (simp_all add: tmp_max_def)

text \<open>
  C26.  Which file \<^verbatim>\<open>--wrapper\<close> writes: when the template formats,
  \<^verbatim>\<open>main\<close> puts the script, with mode \<^verbatim>\<open>0o755\<close>, under the first of
  the first \<^verbatim>\<open>TMP_MAX\<close> candidate names that does not exist, and prints that
  name: the retry loop of \<^verbatim>\<open>NamedTemporaryFile\<close> behind line 80 refines
  "take the first free candidate".
\<close>

theorem cwhy_main_wrapper_first_free:
  assumes "cwhy_parse argv = Parsed args" and "args ''wrapper'' = Some (PBool True)"
    and "wrapper (template w) args = Inr t"
    and "find (\<lambda>n. files w n = None) (take tmp_max (tmp_names w)) = Some n"
  shows "cwhy_main core argv w = (Exited 0, w\<lparr>files := (files w)(n \<mapsto> (t, 493)), out := out w @ [n]\<rparr>)"
  using assms by (simp add: cwhy_main_dispatch wrapper_branch_ok mkstemp_name_first_free)

theorem cwhy_main_wrapper_first_free_witness:
  "cwhy_main (\<lambda>a s w. (Exited 1, w)) [''--wrapper'', opt_assign ''--wrapper-compiler'' ''cc'']
     \<lparr>stdin = [], out = [], err = [], files = [''/tmp/t1'' \<mapsto> (''keep'', 420)],
        tmp_names = [''/tmp/t1'', ''/tmp/t2'', ''/tmp/t3''], umask = 18, template = Some ''{compiler}'', metadata = None\<rparr> =
   (Exited 0, \<lparr>stdin = [], out = [''/tmp/t2''], err = [],
      files = [''/tmp/t1'' \<mapsto> (''keep'', 420), ''/tmp/t2'' \<mapsto> (''cc'', 493)],
      tmp_names = [''/tmp/t1'', ''/tmp/t2'', ''/tmp/t3''], umask = 18, template = Some ''{compiler}'', metadata = None\<rparr>)"
proof -
  have w: "wrapper (Some ([] @ ''{compiler}'' @ []))
      (cwhy_defaults(''wrapper'' \<mapsto> PBool True, ''wrapper_compiler'' \<mapsto> PStr ''cc'')) = Inr ([] @ ''cc'' @ [])"
    by (rule wrapper_compiler_field) (simp_all add: brace_free_def)
  show ?thesis
    using cwhy_main_wrapper_first_free [OF cwhy_parse_wrapper_line, of "''cc''"] w
    by (simp add: tmp_max_def)
qed

text \<open>
  C27.  Liveness of \<^verbatim>\<open>--wrapper\<close>: as long as one of the first
  \<^verbatim>\<open>TMP_MAX\<close> candidate names is free, the name search does not give up:
  \<^verbatim>\<open>main\<close> creates a file under a name that did not exist, whether or not the
  template then formats, and never fails with \<^verbatim>\<open>FileExistsError\<close>.
\<close>

theorem cwhy_main_wrapper_creates:
  assumes "cwhy_parse argv = Parsed args" and "args ''wrapper'' = Some (PBool True)"
    and "\<exists>n \<in> set (take tmp_max (tmp_names w)). files w n = None"
  shows "\<exists>n. files w n = None \<and> files (snd (cwhy_main core argv w)) n \<noteq> None \<and>
    fst (cwhy_main core argv w) \<noteq> Raised ExcFileExists"
proof -
  obtain n where n: "mkstemp_name (files w) (tmp_names w) = Some n"
    using assms(3) mkstemp_name_None_iff [of "files w" "tmp_names w"] by fastforce
  show ?thesis
  proof (cases "wrapper (template w) args")
    case (Inl e)
    then show ?thesis
      using assms(1,2) n mkstemp_name_fresh [OF n] wrapper_not_file_exists [of "template w" args]
      by (auto simp: cwhy_main_dispatch wrapper_branch_error)
  next
    case (Inr t)
    then show ?thesis
      using assms(1,2) n mkstemp_name_fresh [OF n] by (auto simp: cwhy_main_dispatch wrapper_branch_ok)
  qed
qed

theorem cwhy_main_wrapper_creates_witness:
  "\<exists>n. files \<lparr>stdin = [], out = [], err = [], files = [''/tmp/t1'' \<mapsto> (''keep'', 420)],
        tmp_names = [''/tmp/t1'', ''/tmp/t2''], umask = 18, template = None, metadata = None\<rparr> n = None \<and>
     files (snd (cwhy_main (\<lambda>a s w. (Exited 1, w)) [''--wrapper'', opt_assign ''--wrapper-compiler'' ''cc'']
       \<lparr>stdin = [], out = [], err = [], files = [''/tmp/t1'' \<mapsto> (''keep'', 420)],
        tmp_names = [''/tmp/t1'', ''/tmp/t2''], umask = 18, template = None, metadata = None\<rparr>)) n \<noteq> None \<and>
     fst (cwhy_main (\<lambda>a s w. (Exited 1, w)) [''--wrapper'', opt_assign ''--wrapper-compiler'' ''cc'']
       \<lparr>stdin = [], out = [], err = [], files = [''/tmp/t1'' \<mapsto> (''keep'', 420)],
        tmp_names = [''/tmp/t1'', ''/tmp/t2''], umask = 18, template = None, metadata = None\<rparr>) \<noteq> Raised ExcFileExists"
  by (rule cwhy_main_wrapper_creates [OF cwhy_parse_wrapper_line]) (simp_all add: tmp_max_def)

text \<open>
  C28.  Help comes first: a command line that starts with \<^verbatim>\<open>-h\<close> or
  \<^verbatim>\<open>--help\<close> prints the usage and exits with status 0, whatever follows as long
  as it classifies; an invalid integer or \<^verbatim>\<open>--wrapper\<close> after it is never
  acted on, standard input is not read and no file is created.
\<close>

theorem cwhy_main_help:
  assumes "os \<in> {''-h'', ''--help''}" and "classify_all cwhy_optionals rest = Inr toks"
  shows "cwhy_main core (os # rest) w = (Exited 0, w\<lparr>out := out w @ [''usage: cwhy'']\<rparr>)"
  using cwhy_parse_help [OF assms] by (simp add: cwhy_main_def)

theorem cwhy_main_help_witness:
  "cwhy_main (\<lambda>a s w. (Exited 1, w)) [''-h'', ''--timeout'', ''ten'', ''--wrapper'']
     \<lparr>stdin = ''x'', out = [], err = [], files = Map.empty, tmp_names = [''/tmp/t1''], umask = 18,
      template = Some ''{compiler}'', metadata = None\<rparr> =
   (Exited 0, \<lparr>stdin = ''x'', out = [''usage: cwhy''], err = [], files = Map.empty, tmp_names = [''/tmp/t1''],
      umask = 18, template = Some ''{compiler}'', metadata = None\<rparr>)"
proof -
  have "classify_all cwhy_optionals [''--timeout'', ''ten'', ''--wrapper''] =
      Inr [(''--timeout'', Optional (Some (Store ''timeout'' ConvInt)) ''--timeout'' None), (''ten'', Positional),
           (''--wrapper'', Optional (Some (StoreTrue ''wrapper'')) ''--wrapper'' None)]"
    by (simp add: cwhy_option_words parse_optional_positional)
  from cwhy_main_help [OF _ this, of "''-h''"] show ?thesis by simp
qed

text \<open>
  C29.  A value of \<^verbatim>\<open>--timeout\<close> or \<^verbatim>\<open>--max-context\<close> that
  \<^verbatim>\<open>int()\<close> rejects is a usage error: \<^verbatim>\<open>main\<close> writes
  \<^verbatim>\<open>invalid int value\<close> for that option and value to standard error and exits
  with status 2, before anything later on the command line (a \<^verbatim>\<open>-h\<close>
  included) is acted on, as long as the rest of the command line classifies (has no
  ambiguous abbreviation of an option); standard input is not read and no file
  changes.
\<close>

theorem cwhy_main_invalid_int:
  assumes "os \<in> {''--timeout'', ''--max-context''}" and "v = [] \<or> hd v \<noteq> CHR ''-''"
    and "py_int v = None" and "classify_all cwhy_optionals rest = Inr toks"
  shows "cwhy_main core (os # v # rest) w =
    (Exited 2, w\<lparr>err := err w @ [UsageError ''cwhy'' (InvalidInt os v)]\<rparr>)"
  using cwhy_parse_invalid_int [OF assms] by (simp add: cwhy_main_def)

theorem cwhy_main_invalid_int_witness:
  "cwhy_main (\<lambda>a s w. (Exited 1, w)) [''--max-context'', ''ten'', ''-h'']
     \<lparr>stdin = ''x'', out = [], err = [], files = Map.empty, tmp_names = [], umask = 18,
      template = None, metadata = None\<rparr> =
   (Exited 2, \<lparr>stdin = ''x'', out = [], err = [UsageError ''cwhy'' (InvalidInt ''--max-context'' ''ten'')],
      files = Map.empty, tmp_names = [], umask = 18, template = None, metadata = None\<rparr>)"
proof -
  have "classify_all cwhy_optionals [''-h''] = Inr [(''-h'', Optional (Some HelpAction) ''-h'' None)]"
    by (simp add: cwhy_option_words)
  moreover have "py_int ''ten'' = None"
    by (simp add: py_int_def py_strip_def py_isspace_def py_decimal_def is_digit_def)
  ultimately show ?thesis
    using cwhy_main_invalid_int [of "''--max-context''" "''ten''"] by simp
qed

text \<open>
  C31.  When the installed metadata has no \<^verbatim>\<open>Version\<close> header,
  \<^verbatim>\<open>metadata('cwhy')['Version']\<close> is \<^verbatim>\<open>None\<close> rather than an error, and
  \<^verbatim>\<open>--version\<close> prints \<^verbatim>\<open>cwhy version None\<close> and exits 0.
\<close>

theorem cwhy_main_version_missing:
  assumes "cwhy_parse argv = Parsed args"
    and "args ''wrapper'' = Some (PBool False)" and "args ''version'' = Some (PBool True)"
    and "metadata w = Some hs" and "\<forall>(h, v) \<in> set hs. py_lower h \<noteq> ''version''"
  shows "cwhy_main core argv w = (Exited 0, w\<lparr>out := out w @ [''cwhy version None'']\<rparr>)"
proof -
  have "py_lower ''Version'' = ''version''" by code_simp
  with assms(5) have "msg_get hs ''Version'' = None"
    by (auto simp: msg_get_def find_None_iff)
  with assms(1-4) show ?thesis
    by (simp add: cwhy_main_dispatch version_branch_def py_fstr_opt_def)
qed

theorem cwhy_main_version_missing_witness:
  "cwhy_main (\<lambda>a s w. (Exited 1, w)) [''--version'']
     \<lparr>stdin = [], out = [], err = [], files = Map.empty, tmp_names = [], umask = 18,
      template = None, metadata = Some [(''Name'', ''cwhy'')]\<rparr> =
   (Exited 0, \<lparr>stdin = [], out = [''cwhy version None''], err = [], files = Map.empty, tmp_names = [],
      umask = 18, template = None, metadata = Some [(''Name'', ''cwhy'')]\<rparr>)"
proof -
  have p: "cwhy_parse [''--version''] = Parsed (cwhy_defaults(''version'' \<mapsto> PBool True))"
    by (simp add: cwhy_parse_def parse_args_def parse_known_def cwhy_parser_def cwhy_subcommands_def
        cwhy_option_words consume_flag)
  have "py_lower ''Name'' \<noteq> ''version''" by code_simp
  with cwhy_main_version_missing [OF p, of "\<lparr>stdin = [], out = [], err = [], files = Map.empty, tmp_names = [],
      umask = 18, template = None, metadata = Some [(''Name'', ''cwhy'')]\<rparr>"]
  show ?thesis by (simp add: cwhy_defaults_def)
qed

end
