(* ===== verification/Locations.thy ===== *)
theory Locations
  imports PyInt
begin

text \<open>
  The LocationParser of the diagnostic pipeline (spec section 4.1).  Its module,
  \<^verbatim>\<open>cwhy.py\<close>, is imported by \<^verbatim>\<open>src/cwhy/__main__.py\<close> but is not in
  the repository, so this theory follows the specification: the text is split into
  lines; each line is offered to an ordered list of recognizer rules
  (spec section 9), each of which yields a location or declines; a line no rule
  accepts continues the message of the last location, or is dropped before the
  first one.  A rule looks for the first colon that is preceded by a non-empty
  path and followed by a line number \<open>\<ge> 1\<close> and a colon, so a drive letter
  (\<^verbatim>\<open>C:\src\a.c:3:...\<close>) stays in the path; \<open>WithColumn\<close> then asks for a
  column and a colon, \<open>LineOnly\<close> does not.  One space after the last colon is
  the separator before the message.
\<close>

record source_location =
  loc_path :: string
  loc_line :: nat
  loc_column :: "nat option"
  loc_message :: string

datatype recognizer = WithColumn | LineOnly

definition recognizers :: "recognizer list" where
  "recognizers = [WithColumn, LineOnly]"

definition newline :: char where
  "newline = CHR 0x0A"

text \<open>The lines of a text, \<^verbatim>\<open>str.splitlines\<close> for \<^verbatim>\<open>\n\<close>: no empty last line.\<close>

definition text_lines :: "string \<Rightarrow> string list" where
  "text_lines s = (let ps = split_at_char newline s in if last ps = [] then butlast ps else ps)"

text \<open>A decimal number followed by a colon: its value and the text after the colon.\<close>

definition split_num :: "string \<Rightarrow> (nat \<times> string) option" where
  "split_num s =
     (let ds = takeWhile is_digit s; r = drop (length ds) s in
      if ds \<noteq> [] \<and> take 1 r = '':'' then Some (digits_value 0 ds, drop 1 r) else None)"

definition line_num :: "string \<Rightarrow> (nat \<times> string) option" where
  "line_num s = (case split_num s of Some (n, r) \<Rightarrow> if 1 \<le> n then Some (n, r) else None | None \<Rightarrow> None)"

text \<open>
  Scanning for the end of the path, the path so far reversed in \<open>acc\<close>: the
  path, the line number and the text after its colon.
\<close>

fun loc_split :: "string \<Rightarrow> string \<Rightarrow> (string \<times> nat \<times> string) option" where
  "loc_split acc [] = None"
| "loc_split acc (c # cs) =
     (if c = CHR '':'' \<and> acc \<noteq> [] then
        (case line_num cs of Some (n, r) \<Rightarrow> Some (rev acc, n, r) | None \<Rightarrow> loc_split (c # acc) cs)
      else loc_split (c # acc) cs)"

definition strip_sep :: "string \<Rightarrow> string" where
  "strip_sep m = (case m of c # m' \<Rightarrow> if c = CHR '' '' then m' else m | [] \<Rightarrow> [])"

fun recognize :: "recognizer \<Rightarrow> string \<Rightarrow> source_location option" where
  "recognize WithColumn l =
     (case loc_split [] l of
        Some (p, n, r) \<Rightarrow>
          (case split_num r of
             Some (col, m) \<Rightarrow>
               Some \<lparr>loc_path = p, loc_line = n, loc_column = Some col, loc_message = strip_sep m\<rparr>
           | None \<Rightarrow> None)
      | None \<Rightarrow> None)"
| "recognize LineOnly l =
     (case loc_split [] l of
        Some (p, n, r) \<Rightarrow> Some \<lparr>loc_path = p, loc_line = n, loc_column = None, loc_message = strip_sep r\<rparr>
      | None \<Rightarrow> None)"

text \<open>The rules in priority order: the first that accepts the line wins.\<close>

fun first_match :: "recognizer list \<Rightarrow> string \<Rightarrow> source_location option" where
  "first_match [] l = None"
| "first_match (r # rs) l = (case recognize r l of Some loc \<Rightarrow> Some loc | None \<Rightarrow> first_match rs l)"

definition recognize_line :: "string \<Rightarrow> source_location option" where
  "recognize_line l = first_match recognizers l"

text \<open>
  One line of the text, with the locations found so far newest first: a new
  location, a continuation of the newest message, or nothing.
\<close>

definition absorb :: "source_location list \<Rightarrow> string \<Rightarrow> source_location list" where
  "absorb acc l =
     (case recognize_line l of
        Some loc \<Rightarrow> loc # acc
      | None \<Rightarrow>
          (case acc of
             [] \<Rightarrow> []
           | x # xs \<Rightarrow> x\<lparr>loc_message := loc_message x @ newline # l\<rparr> # xs))"

definition parse_locations :: "string \<Rightarrow> source_location list" where
  "parse_locations text = rev (foldl absorb [] (text_lines text))"

text \<open>A location as \<^verbatim>\<open>path:line[:column]: message\<close> (spec section 4.5).\<close>

definition render_location :: "source_location \<Rightarrow> string" where
  "render_location l =
     loc_path l @ CHR '':'' # py_str_nat (loc_line l) @
     (case loc_column l of Some c \<Rightarrow> CHR '':'' # py_str_nat c | None \<Rightarrow> []) @
     CHR '':'' # CHR '' '' # loc_message l"

text \<open>
  The locations \<open>render_location\<close> writes so that they are read back: a
  non-empty path in which a colon is always followed by a non-digit, a line
  number \<open>\<ge> 1\<close> and a one-line message.
\<close>

fun path_colons_ok :: "string \<Rightarrow> bool" where
  "path_colons_ok [] = True"
| "path_colons_ok (c # cs) = ((c = CHR '':'' \<longrightarrow> cs \<noteq> [] \<and> \<not> is_digit (hd cs)) \<and> path_colons_ok cs)"

definition loc_ok :: "source_location \<Rightarrow> bool" where
  "loc_ok l \<longleftrightarrow> loc_path l \<noteq> [] \<and> path_colons_ok (loc_path l) \<and> newline \<notin> set (loc_path l) \<and>
     1 \<le> loc_line l \<and> newline \<notin> set (loc_message l)"

text \<open>The position of a location, without its message.\<close>

definition loc_key :: "source_location \<Rightarrow> string \<times> nat \<times> nat option" where
  "loc_key l = (loc_path l, loc_line l, loc_column l)"

section \<open>Lemmas\<close>

lemma text_lines_single: "newline \<notin> set s \<Longrightarrow> s \<noteq> [] \<Longrightarrow> text_lines s = [s]"
  by (simp add: text_lines_def)


lemma split_num_digits:
  assumes "list_all is_digit ds" and "ds \<noteq> []"
  shows "split_num (ds @ CHR '':'' # r) = Some (digits_value 0 ds, r)"
proof -
  have "\<not> is_digit (CHR '':'')" by (simp add: is_digit_def)
  then have "takeWhile is_digit (ds @ CHR '':'' # r) = ds"
    using assms(1) by (simp add: takeWhile_append list_all_iff)
  with assms(2) show ?thesis by (simp add: split_num_def)
qed


lemma split_num_nondigit: "s = [] \<or> \<not> is_digit (hd s) \<Longrightarrow> split_num s = None"
  by (cases s) (auto simp: split_num_def)


lemma line_num_py_str_nat:
  "1 \<le> n \<Longrightarrow> line_num (py_str_nat n @ CHR '':'' # r) = Some (n, r)"
proof -
  obtain d ds where "py_str_nat n = d # ds" "is_digit d" "list_all is_digit ds"
    using py_str_nat_hd by blast
  then have "split_num (py_str_nat n @ CHR '':'' # r) = Some (n, r)"
    using split_num_digits [of "py_str_nat n" r] digits_value_py_str_nat [of n] by simp
  then show "1 \<le> n \<Longrightarrow> ?thesis" by (simp add: line_num_def)
qed


lemma split_num_py_str_nat: "split_num (py_str_nat n @ CHR '':'' # r) = Some (n, r)"
proof -
  obtain d ds where "py_str_nat n = d # ds" "is_digit d" "list_all is_digit ds"
    using py_str_nat_hd by blast
  then show ?thesis
    using split_num_digits [of "py_str_nat n" r] digits_value_py_str_nat [of n] by simp
qed


lemma loc_split_path:
  assumes "path_colons_ok p" and "rev acc @ p \<noteq> []" and "line_num r0 = Some (n, r)"
  shows "loc_split acc (p @ CHR '':'' # r0) = Some (rev acc @ p, n, r)"
  using assms
proof (induction p arbitrary: acc)
  case Nil
  then show ?case by simp
next
  case (Cons c p)
  show ?case
  proof (cases "c = CHR '':''")
    case True
    with Cons.prems(1) have p: "p \<noteq> []" "\<not> is_digit (hd p)" by auto
    then have "line_num (p @ CHR '':'' # r0) = None"
      by (simp add: line_num_def split_num_nondigit)
    with True Cons.prems Cons.IH [of "c # acc"] show ?thesis by (cases "acc = []") simp_all
  next
    case False
    with Cons.prems Cons.IH [of "c # acc"] show ?thesis by simp
  qed
qed


lemma recognize_line_render:
  assumes "loc_ok l"
  shows "recognize_line (render_location l) = Some l"
proof -
  have ok: "loc_path l \<noteq> []" "path_colons_ok (loc_path l)" "1 \<le> loc_line l"
    using assms by (simp_all add: loc_ok_def)
  let ?rest = "(case loc_column l of Some c \<Rightarrow> CHR '':'' # py_str_nat c | None \<Rightarrow> []) @
     CHR '':'' # CHR '' '' # loc_message l"
  have split: "loc_split [] (render_location l) =
      Some (loc_path l, loc_line l, (case loc_column l of Some c \<Rightarrow> py_str_nat c @ CHR '':'' # CHR '' '' # loc_message l
                                      | None \<Rightarrow> CHR '' '' # loc_message l))"
  proof (cases "loc_column l")
    case None
    then show ?thesis
      using loc_split_path [OF ok(2), of "[]" "py_str_nat (loc_line l) @ CHR '':'' # CHR '' '' # loc_message l"]
        ok line_num_py_str_nat [OF ok(3)] by (simp add: render_location_def)
  next
    case (Some c)
    then show ?thesis
      using loc_split_path [OF ok(2), of "[]" "py_str_nat (loc_line l) @ CHR '':'' # py_str_nat c @ CHR '':'' # CHR '' '' # loc_message l"]
        ok line_num_py_str_nat [OF ok(3)] by (simp add: render_location_def)
  qed
  show ?thesis
  proof (cases "loc_column l")
    case None
    have "split_num (CHR '' '' # loc_message l) = None"
      by (rule split_num_nondigit) (simp add: is_digit_def)
    with None split show ?thesis
      by (simp add: recognize_line_def recognizers_def strip_sep_def)
  next
    case (Some c)
    with split show ?thesis
      by (simp add: recognize_line_def recognizers_def strip_sep_def split_num_py_str_nat)
  qed
qed


lemma render_location_ne: "render_location l \<noteq> []"
  by (simp add: render_location_def)


lemma newline_render_location:
  "loc_ok l \<Longrightarrow> newline \<notin> set (render_location l)"
proof -
  have "newline \<notin> set (py_str_nat n)" for n
    using py_str_nat_digits by (fastforce simp: newline_def is_digit_def)
  then show "loc_ok l \<Longrightarrow> ?thesis"
    by (auto simp: render_location_def loc_ok_def newline_def split: option.splits)
qed


lemma absorb_keys:
  "map loc_key (absorb acc l) =
   (case recognize_line l of Some loc \<Rightarrow> [loc_key loc] | None \<Rightarrow> []) @ map loc_key acc"
  by (auto simp: absorb_def loc_key_def split: option.split list.split)


lemma foldl_absorb_keys:
  "map loc_key (foldl absorb acc ls) = rev (map loc_key (List.map_filter recognize_line ls)) @ map loc_key acc"
proof (induction ls arbitrary: acc)
  case Nil
  then show ?case by (simp add: map_filter_simps)
next
  case (Cons l ls)
  then show ?case
    by (simp add: absorb_keys map_filter_simps split: option.split)
qed


lemma map_filter_all_None: "\<forall>x \<in> set xs. f x = None \<Longrightarrow> List.map_filter f xs = []"
  by (induction xs) (simp_all add: map_filter_simps)


section \<open>Properties of the LocationParser\<close>

text \<open>
  Round trip of the LocationParser with the extract-sources rendering: a
  location with a non-empty one-line path whose colons are not followed by digits
  (so drive letters are allowed), a line \<open>\<ge> 1\<close>, any column or none and
  any one-line message is rendered as \<^verbatim>\<open>path:line[:column]: message\<close>
  and parsed back to exactly itself.
\<close>

theorem parse_render_location: "loc_ok l \<Longrightarrow> parse_locations (render_location l) = [l]"
  by (simp add: parse_locations_def text_lines_single newline_render_location render_location_ne
      absorb_def recognize_line_render)


theorem parse_render_location_witness:
  "parse_locations ''/tmp/a.cpp:10:5: error: foo'' =
     [\<lparr>loc_path = ''/tmp/a.cpp'', loc_line = 10, loc_column = Some 5, loc_message = ''error: foo''\<rparr>]"
proof -
  let ?l = "\<lparr>loc_path = ''/tmp/a.cpp'', loc_line = 10, loc_column = Some 5, loc_message = ''error: foo''\<rparr>"
  have ok: "loc_ok ?l" by (simp add: loc_ok_def newline_def is_digit_def)
  have "render_location ?l = ''/tmp/a.cpp:10:5: error: foo''"
    by code_simp
  with parse_render_location [OF ok] show ?thesis by simp
qed

text \<open>
  The parser neither merges nor reorders: the positions it returns are
  exactly those of the recognised lines, in the order of the text, repeated
  positions included; unrecognised lines only extend messages.
\<close>

theorem parse_locations_keys:
  "map loc_key (parse_locations t) = map loc_key (List.map_filter recognize_line (text_lines t))"
  by (simp add: parse_locations_def rev_map [symmetric] foldl_absorb_keys)


text \<open>
  A text in which no line carries a \<^verbatim>\<open>path:line\<close> reference yields
  no location (for example a linker error), and this is a result, not a failure.
\<close>

theorem parse_locations_none:
  "\<forall>l \<in> set (text_lines t). recognize_line l = None \<Longrightarrow> parse_locations t = []"
proof -
  assume "\<forall>l \<in> set (text_lines t). recognize_line l = None"
  then have "List.map_filter recognize_line (text_lines t) = []"
    by (rule map_filter_all_None)
  then have "map loc_key (parse_locations t) = []"
    by (simp add: parse_locations_def rev_map [symmetric] foldl_absorb_keys)
  then show ?thesis by simp
qed

theorem parse_locations_none_witness: "parse_locations ''ld: cannot find -lfoo'' = []"
  by (rule parse_locations_none)
    (simp add: text_lines_def newline_def recognize_line_def recognizers_def line_num_def split_num_def
      is_digit_def)

end
