(* ===== verification/Context.thy ===== *)
theory Context
  imports Locations
begin

text \<open>
  The ContextAssembler (spec section 4.2), modelled from the specification because
  \<^verbatim>\<open>cwhy.py\<close> is not in the repository.  The readable source files are a map
  from paths to their text.  For a location it returns the lines
  \<open>[line - window, line + window]\<close> clipped to the file, numbered from 1, and
  marks the snippet \<open>truncated\<close> when the window passes an end of the file; a
  missing or unreadable file, or a line past its end, gives an empty truncated
  snippet and never an error.  The window is the fixed constant 3.
\<close>

type_synonym source_files = "string \<Rightarrow> string option"

record context_snippet =
  snip_loc :: source_location
  snip_lines :: "(nat \<times> string) list"
  truncated :: bool

definition context_window :: nat where
  "context_window = 3"

text \<open>Lines \<open>lo\<close> to \<open>hi\<close> of a file, numbered from 1.\<close>

definition window_lines :: "string list \<Rightarrow> nat \<Rightarrow> nat \<Rightarrow> (nat \<times> string) list" where
  "window_lines ls lo hi = map (\<lambda>i. (i, ls ! (i - 1))) [lo..<Suc hi]"

definition assemble :: "source_files \<Rightarrow> source_location \<Rightarrow> nat \<Rightarrow> context_snippet" where
  "assemble fs loc window =
     (case fs (loc_path loc) of
        None \<Rightarrow> \<lparr>snip_loc = loc, snip_lines = [], truncated = True\<rparr>
      | Some content \<Rightarrow>
          (let ls = text_lines content; n = length ls; l = loc_line loc in
           if l = 0 \<or> n < l then \<lparr>snip_loc = loc, snip_lines = [], truncated = True\<rparr>
           else \<lparr>snip_loc = loc,
                 snip_lines = window_lines ls (max 1 (l - window)) (min n (l + window)),
                 truncated = (l \<le> window \<or> n < l + window)\<rparr>))"

section \<open>Lemmas\<close>

lemma assemble_loc [simp]: "snip_loc (assemble fs loc window) = loc"
  by (simp add: assemble_def Let_def split: option.split)

lemma assemble_in_file:
  assumes "fs (loc_path loc) = Some content" and "1 \<le> loc_line loc"
    and "loc_line loc \<le> length (text_lines content)"
  shows "assemble fs loc window =
    \<lparr>snip_loc = loc,
     snip_lines = window_lines (text_lines content) (max 1 (loc_line loc - window))
                    (min (length (text_lines content)) (loc_line loc + window)),
     truncated = (loc_line loc \<le> window \<or> length (text_lines content) < loc_line loc + window)\<rparr>"
  using assms by (simp add: assemble_def Let_def)

lemma length_window_lines: "length (window_lines ls lo hi) = Suc hi - lo"
  by (simp add: window_lines_def del: upt_Suc)

lemma map_fst_window_lines: "map fst (window_lines ls lo hi) = [lo..<Suc hi]"
  by (simp add: window_lines_def comp_def)

lemma window_lines_text: "(i, s) \<in> set (window_lines ls lo hi) \<Longrightarrow> s = ls ! (i - 1)"
  by (auto simp: window_lines_def)

lemma window_lines_member:
  "lo \<le> i \<Longrightarrow> i \<le> hi \<Longrightarrow> (i, ls ! (i - 1)) \<in> set (window_lines ls lo hi)"
  unfolding window_lines_def set_map by (rule imageI) (simp del: upt_Suc)

section \<open>Properties of the ContextAssembler\<close>

text \<open>
  A location whose file does not exist (or is unreadable) gives an empty,
  truncated snippet: context that is unavailable is recorded, never raised.
\<close>

theorem assemble_missing:
  "fs (loc_path loc) = None \<Longrightarrow> snip_lines (assemble fs loc window) = [] \<and> truncated (assemble fs loc window)"
  by (simp add: assemble_def)

theorem assemble_missing_witness:
  "snip_lines (assemble (\<lambda>p. None) \<lparr>loc_path = ''/usr/include/x.h'', loc_line = 4, loc_column = None,
     loc_message = ''note''\<rparr> 3) = [] \<and>
   truncated (assemble (\<lambda>p. None) \<lparr>loc_path = ''/usr/include/x.h'', loc_line = 4, loc_column = None,
     loc_message = ''note''\<rparr> 3)"
  by (rule assemble_missing) simp

text \<open>
  Inside the file, the snippet holds exactly the lines
  \<open>max 1 (line - w)\<close> to \<open>min n (line + w)\<close> of the file, in order and with
  their text, so at most \<open>2w + 1\<close> lines and always the diagnosed line itself;
  it is truncated exactly when the window passes the first or the last line.
\<close>

theorem assemble_window:
  assumes "fs (loc_path loc) = Some content" and "1 \<le> loc_line loc"
    and "loc_line loc \<le> length (text_lines content)"
  shows "map fst (snip_lines (assemble fs loc w)) =
           [max 1 (loc_line loc - w)..<Suc (min (length (text_lines content)) (loc_line loc + w))] \<and>
         (\<forall>(i, s) \<in> set (snip_lines (assemble fs loc w)). s = text_lines content ! (i - 1)) \<and>
         (loc_line loc, text_lines content ! (loc_line loc - 1)) \<in> set (snip_lines (assemble fs loc w)) \<and>
         length (snip_lines (assemble fs loc w)) \<le> 2 * w + 1 \<and>
         (truncated (assemble fs loc w) \<longleftrightarrow> loc_line loc \<le> w \<or> length (text_lines content) < loc_line loc + w)"
proof -
  note a = assemble_in_file [of fs loc content w, OF assms]
  have mem: "(loc_line loc, text_lines content ! (loc_line loc - 1)) \<in>
      set (window_lines (text_lines content) (max 1 (loc_line loc - w))
             (min (length (text_lines content)) (loc_line loc + w)))"
    using assms(2,3) by (intro window_lines_member) auto
  show ?thesis
    unfolding a
    using mem by (auto simp: map_fst_window_lines length_window_lines dest: window_lines_text)
qed

theorem assemble_window_witness:
  "map fst (snip_lines (assemble [''a.c'' \<mapsto> ''l1'' @ [newline] @ ''l2'' @ [newline] @ ''l3'']
      \<lparr>loc_path = ''a.c'', loc_line = 2, loc_column = None, loc_message = ''e''\<rparr> 3)) = [1..<4] \<and>
   truncated (assemble [''a.c'' \<mapsto> ''l1'' @ [newline] @ ''l2'' @ [newline] @ ''l3'']
      \<lparr>loc_path = ''a.c'', loc_line = 2, loc_column = None, loc_message = ''e''\<rparr> 3)"
proof -
  define c where "c = ''l1'' @ [newline] @ ''l2'' @ [newline] @ ''l3''"
  define l where "l = \<lparr>loc_path = ''a.c'', loc_line = 2, loc_column = None, loc_message = ''e''\<rparr>"
  have lines: "text_lines c = [''l1'', ''l2'', ''l3'']"
    by (simp add: c_def text_lines_def newline_def)
  have "map fst (snip_lines (assemble [''a.c'' \<mapsto> c] l 3)) = [1..<4] \<and> truncated (assemble [''a.c'' \<mapsto> c] l 3)"
    using assemble_window [of "[''a.c'' \<mapsto> c]" l c 3] lines by (simp add: l_def upt_rec)
  then show ?thesis by (simp add: c_def l_def)
qed

end
