(* ===== verification/Prompt.thy ===== *)
theory Prompt
  imports Context
begin

text \<open>
  The PromptBuilder (spec section 4.3), modelled from the specification.  The
  invocation configuration is a record; the payload holds the per-mode
  instructions, the diagnostic text, the snippets and the budget.  A snippet is
  assembled for every location and the first \<open>max_context\<close> are kept, the
  later ones dropped whole; a negative \<open>max_context\<close>, which the command line
  accepts, keeps none.  \<open>build_lazy\<close> is the implementation that reads only the
  files of the kept locations; it is proved equal to \<open>build\<close>.
\<close>

datatype cw_mode = Explain | Fix | ExtractSources

record config =
  cfg_model :: string
  cfg_timeout :: int
  cfg_max_context :: int
  cfg_mode :: cw_mode

record payload =
  instructions :: string
  diagnostic_text :: string
  snippets :: "context_snippet list"
  budget :: int

text \<open>The fixed system instruction of each mode that consults the model.\<close>

definition instructions_for :: "cw_mode \<Rightarrow> string" where
  "instructions_for m =
     (case m of
        Fix \<Rightarrow> ''Propose a concrete patch to the source that fixes the compiler diagnostic.''
      | _ \<Rightarrow> ''Explain the compiler diagnostic and its most likely cause.'')"

definition build :: "source_files \<Rightarrow> string \<Rightarrow> source_location list \<Rightarrow> config \<Rightarrow> payload" where
  "build fs txt locs cfg =
     \<lparr>instructions = instructions_for (cfg_mode cfg), diagnostic_text = txt,
      snippets = take (nat (cfg_max_context cfg)) (map (\<lambda>l. assemble fs l context_window) locs),
      budget = cfg_max_context cfg\<rparr>"

definition build_lazy :: "source_files \<Rightarrow> string \<Rightarrow> source_location list \<Rightarrow> config \<Rightarrow> payload" where
  "build_lazy fs txt locs cfg =
     \<lparr>instructions = instructions_for (cfg_mode cfg), diagnostic_text = txt,
      snippets = map (\<lambda>l. assemble fs l context_window) (take (nat (cfg_max_context cfg)) locs),
      budget = cfg_max_context cfg\<rparr>"

text \<open>A snippet as text: one line \<^verbatim>\<open>n: text\<close> per source line, after its location.\<close>

definition render_snippet :: "context_snippet \<Rightarrow> string" where
  "render_snippet s =
     newline # render_location (snip_loc s) @
     concat (map (\<lambda>(i, t). newline # py_str_nat i @ CHR '':'' # CHR '' '' # t) (snip_lines s))"

type_synonym message = "string \<times> string"

text \<open>The conversation sent upstream: the system instructions and the user content.\<close>

definition payload_messages :: "payload \<Rightarrow> message list" where
  "payload_messages p =
     [(''system'', instructions p),
      (''user'', diagnostic_text p @ concat (map render_snippet (snippets p)))]"

section \<open>Lemmas\<close>

lemma snippets_build: "snippets (build fs txt locs cfg) =
    map (\<lambda>l. assemble fs l context_window) (take (nat (cfg_max_context cfg)) locs)"
  by (simp add: build_def take_map)

lemma assemble_cong: "fs (loc_path l) = fs' (loc_path l) \<Longrightarrow> assemble fs l w = assemble fs' l w"
  by (simp add: assemble_def)

lemma snip_loc_build:
  "map snip_loc (snippets (build fs txt locs cfg)) = take (nat (cfg_max_context cfg)) locs"
  by (simp add: snippets_build comp_def)

section \<open>Properties of the PromptBuilder\<close>

text \<open>
  The payload keeps exactly the snippets of the first \<open>max_context\<close>
  locations, in order of appearance: never more than \<open>max_context\<close>, all of them
  when there are fewer locations, and none for a negative budget.
\<close>

theorem build_first_snippets:
  "map snip_loc (snippets (build fs txt locs cfg)) = take (nat (cfg_max_context cfg)) locs \<and>
   int (length (snippets (build fs txt locs cfg))) = min (int (length locs)) (max 0 (cfg_max_context cfg))"
proof -
  have "length (snippets (build fs txt locs cfg)) = min (length locs) (nat (cfg_max_context cfg))"
    by (simp add: build_def)
  then show ?thesis by (simp add: snip_loc_build)
qed

text \<open>
  Assembling context only for the locations that will be kept gives the same
  payload as assembling it for all of them and dropping the rest.
\<close>

theorem build_lazy_eq: "build_lazy fs txt locs cfg = build fs txt locs cfg"
  by (simp add: build_lazy_def build_def take_map)

text \<open>
  Only the files of the kept locations are read: two file systems that agree
  on the paths of the first \<open>max_context\<close> locations give the same payload,
  whatever the files named by the dropped locations hold.
\<close>

theorem build_reads_kept_files:
  assumes "\<forall>l \<in> set (take (nat (cfg_max_context cfg)) locs). fs (loc_path l) = fs' (loc_path l)"
  shows "build fs txt locs cfg = build fs' txt locs cfg"
proof -
  have "map (\<lambda>l. assemble fs l context_window) (take (nat (cfg_max_context cfg)) locs) =
        map (\<lambda>l. assemble fs' l context_window) (take (nat (cfg_max_context cfg)) locs)"
    using assms by (auto intro: assemble_cong)
  then show ?thesis
    by (simp add: build_def take_map)
qed

theorem build_reads_kept_files_witness:
  "build [''a.c'' \<mapsto> ''int x;''] ''a.c:1: e'' [\<lparr>loc_path = ''a.c'', loc_line = 1, loc_column = None, loc_message = ''e''\<rparr>,
      \<lparr>loc_path = ''b.c'', loc_line = 2, loc_column = None, loc_message = ''f''\<rparr>]
      \<lparr>cfg_model = ''m'', cfg_timeout = 60, cfg_max_context = 1, cfg_mode = Explain\<rparr> =
   build [''a.c'' \<mapsto> ''int x;'', ''b.c'' \<mapsto> ''y''] ''a.c:1: e'' [\<lparr>loc_path = ''a.c'', loc_line = 1, loc_column = None, loc_message = ''e''\<rparr>,
      \<lparr>loc_path = ''b.c'', loc_line = 2, loc_column = None, loc_message = ''f''\<rparr>]
      \<lparr>cfg_model = ''m'', cfg_timeout = 60, cfg_max_context = 1, cfg_mode = Explain\<rparr>"
  by (rule build_reads_kept_files) simp

end
