(* ===== verification/Dispatch.thy ===== *)
theory Dispatch
  imports Prompt
begin

text \<open>
  The LLMDispatcher (spec section 4.4), modelled from the specification.  The
  completion primitive \<^verbatim>\<open>complete(messages, model, timeout)\<close> is a parameter
  \<open>transport\<close>: it answers with a text and the seconds waited, or signals a
  timeout, a network or authentication failure, or a refusal by the provider.  The
  dispatcher is given twice: as the protocol \<open>dstep\<close>, an inductive step
  relation from \<open>Ready\<close> through one request (\<open>Waiting\<close>) to \<open>Done\<close>, that
  logs every request sent; and as the function \<open>dispatch\<close>.  The theorems show
  that every run sends exactly one request and ends, and that the function is the
  only result the protocol can reach.  A reply that took longer than the timeout is
  a \<open>Timeout\<close>: the timeout is a hard bound on what is accepted.
\<close>

datatype dispatch_result = Success string | Timeout | TransportError string | ModelError string

datatype reply = Replied nat string | ReplyTimeout | NetFailure string | Refused string

type_synonym transport = "message list \<Rightarrow> string \<Rightarrow> int \<Rightarrow> reply"

fun classify :: "int \<Rightarrow> reply \<Rightarrow> dispatch_result" where
  "classify tmo (Replied secs txt) = (if tmo < int secs then Timeout else Success txt)"
| "classify tmo ReplyTimeout = Timeout"
| "classify tmo (NetFailure d) = TransportError d"
| "classify tmo (Refused d) = ModelError d"

definition dispatch :: "transport \<Rightarrow> message list \<Rightarrow> string \<Rightarrow> int \<Rightarrow> dispatch_result" where
  "dispatch T msgs model tmo = classify tmo (T msgs model tmo)"

section \<open>The dispatch protocol\<close>

datatype dphase = Ready | Waiting | Done dispatch_result

record dstate =
  phase :: dphase
  sent :: "message list list"

definition dinit :: dstate where
  "dinit = \<lparr>phase = Ready, sent = []\<rparr>"

inductive dstep :: "transport \<Rightarrow> message list \<Rightarrow> string \<Rightarrow> int \<Rightarrow> dstate \<Rightarrow> dstate \<Rightarrow> bool"
  for T msgs model tmo where
  send: "phase s = Ready \<Longrightarrow> dstep T msgs model tmo s \<lparr>phase = Waiting, sent = sent s @ [msgs]\<rparr>"
| receive: "phase s = Waiting \<Longrightarrow>
    dstep T msgs model tmo s \<lparr>phase = Done (classify tmo (T msgs model tmo)), sent = sent s\<rparr>"

inductive_simps dstep_iff: "dstep T msgs model tmo s t"

text \<open>The invariant: at most one request, and exactly one once a request is under way.\<close>

definition dinv :: "message list \<Rightarrow> dstate \<Rightarrow> bool" where
  "dinv msgs s \<longleftrightarrow> (if phase s = Ready then sent s = [] else sent s = [msgs])"

text \<open>How far a state is along the protocol.\<close>

fun drank :: "dphase \<Rightarrow> nat" where
  "drank Ready = 0"
| "drank Waiting = 1"
| "drank (Done r) = 2"

section \<open>Lemmas\<close>

lemma dinv_init: "dinv msgs dinit"
  by (simp add: dinv_def dinit_def)

lemma dstep_dinv: "dstep T msgs model tmo s t \<Longrightarrow> dinv msgs s \<Longrightarrow> dinv msgs t"
  by (induction rule: dstep.induct) (simp_all add: dinv_def)

lemma dsteps_dinv: "(dstep T msgs model tmo)\<^sup>*\<^sup>* s t \<Longrightarrow> dinv msgs s \<Longrightarrow> dinv msgs t"
  by (induction rule: rtranclp_induct) (auto intro: dstep_dinv)

lemma dstep_rank: "dstep T msgs model tmo s t \<Longrightarrow> drank (phase t) = Suc (drank (phase s))"
  by (induction rule: dstep.induct) simp_all

lemma dstep_from_Done: "phase s = Done r \<Longrightarrow> \<not> dstep T msgs model tmo s t"
  by (simp add: dstep_iff)

lemma dstep_progress: "phase s \<in> {Ready, Waiting} \<Longrightarrow> \<exists>t. dstep T msgs model tmo s t"
  by (auto simp: dstep_iff)

lemma relpowp_dstep_rank:
  "(dstep T msgs model tmo ^^ n) s t \<Longrightarrow> drank (phase t) = n + drank (phase s)"
proof (induction n arbitrary: t)
  case 0
  then show ?case by simp
next
  case (Suc n)
  then obtain u where "(dstep T msgs model tmo ^^ n) s u" "dstep T msgs model tmo u t" by auto
  with Suc.IH show ?case by (simp add: dstep_rank)
qed

lemma drank_le: "drank p \<le> 2"
  by (cases p) simp_all

lemma dsteps_Done:
  assumes "(dstep T msgs model tmo)\<^sup>*\<^sup>* dinit s" and "phase s = Done r"
  shows "r = dispatch T msgs model tmo"
  using assms
proof (induction rule: rtranclp_induct)
  case base
  then show ?case by (simp add: dinit_def)
next
  case (step u t)
  from step.hyps(2) step.prems show ?case
    by (cases rule: dstep.cases) (simp_all add: dispatch_def)
qed

lemma dsteps_reach_Done:
  "(dstep T msgs model tmo)\<^sup>*\<^sup>* dinit \<lparr>phase = Done (dispatch T msgs model tmo), sent = [msgs]\<rparr>"
proof -
  have s1: "dstep T msgs model tmo dinit \<lparr>phase = Waiting, sent = [msgs]\<rparr>"
    using dstep.send [of dinit] by (simp add: dinit_def)
  have s2: "dstep T msgs model tmo \<lparr>phase = Waiting, sent = [msgs]\<rparr>
      \<lparr>phase = Done (dispatch T msgs model tmo), sent = [msgs]\<rparr>"
    using dstep.receive [of "\<lparr>phase = Waiting, sent = [msgs]\<rparr>"] by (simp add: dispatch_def)
  from s1 s2 show ?thesis by (meson rtranclp.rtrancl_into_rtrancl rtranclp.rtrancl_refl)
qed

section \<open>Properties of the LLMDispatcher\<close>

text \<open>
  No retry: in every state the protocol reaches, at most one request has been
  sent, and once the dispatcher has left \<open>Ready\<close> exactly one request, the
  payload's messages, has been sent.
\<close>

theorem dispatch_one_request:
  assumes "(dstep T msgs model tmo)\<^sup>*\<^sup>* dinit s"
  shows "length (sent s) \<le> 1 \<and> (phase s \<noteq> Ready \<longrightarrow> sent s = [msgs])"
proof -
  have "dinv msgs s" using assms dinv_init by (rule dsteps_dinv)
  then show ?thesis by (auto simp: dinv_def split: if_splits)
qed

theorem dispatch_one_request_witness:
  "length (sent \<lparr>phase = Done (dispatch (\<lambda>m md t. Replied 2 ''ok'') [(''user'', ''x'')] ''gpt'' 60),
      sent = [[(''user'', ''x'')]]\<rparr>) \<le> 1 \<and>
   (phase \<lparr>phase = Done (dispatch (\<lambda>m md t. Replied 2 ''ok'') [(''user'', ''x'')] ''gpt'' 60),
      sent = [[(''user'', ''x'')]]\<rparr> \<noteq> Ready \<longrightarrow>
    sent \<lparr>phase = Done (dispatch (\<lambda>m md t. Replied 2 ''ok'') [(''user'', ''x'')] ''gpt'' 60),
      sent = [[(''user'', ''x'')]]\<rparr> = [[(''user'', ''x'')]])"
  by (rule dispatch_one_request [OF dsteps_reach_Done])

text \<open>
  Refinement: the function \<open>dispatch\<close> implements the protocol.  The
  results the protocol can end with are exactly the one \<open>dispatch\<close> computes.
\<close>

theorem dispatch_refines_dstep:
  "(\<exists>s. (dstep T msgs model tmo)\<^sup>*\<^sup>* dinit s \<and> phase s = Done r) \<longleftrightarrow> r = dispatch T msgs model tmo"
  using dsteps_Done dsteps_reach_Done by fastforce

text \<open>
  Termination: every run of the protocol from the start has at most two
  steps, the request and the reply.
\<close>

theorem dispatch_terminates: "(dstep T msgs model tmo ^^ n) dinit s \<Longrightarrow> n \<le> 2"
proof -
  assume run: "(dstep T msgs model tmo ^^ n) dinit s"
  have "drank (phase s) = n" using relpowp_dstep_rank [OF run] by (simp add: dinit_def)
  with drank_le [of "phase s"] show "n \<le> 2" by simp
qed

theorem dispatch_terminates_witness:
  "((dstep (\<lambda>m md t. ReplyTimeout) [] ''gpt'' 60) ^^ 2) dinit
     \<lparr>phase = Done Timeout, sent = [[]]\<rparr> \<and> (2::nat) \<le> 2"
proof -
  have s1: "dstep (\<lambda>m md t. ReplyTimeout) [] ''gpt'' 60 dinit \<lparr>phase = Waiting, sent = [[]]\<rparr>"
    by (simp add: dstep_iff dinit_def)
  have s2: "dstep (\<lambda>m md t. ReplyTimeout) [] ''gpt'' 60 \<lparr>phase = Waiting, sent = [[]]\<rparr>
      \<lparr>phase = Done Timeout, sent = [[]]\<rparr>"
    by (simp add: dstep_iff)
  have run: "((dstep (\<lambda>m md t. ReplyTimeout) [] ''gpt'' 60) ^^ 2) dinit \<lparr>phase = Done Timeout, sent = [[]]\<rparr>"
    using s1 s2 by (auto simp: numeral_2_eq_2 relcomppI)
  show ?thesis using run dispatch_terminates [OF run] by simp
qed

text \<open>
  Progress: a run from the start can only stop in \<open>Done\<close>, and then with
  the result of \<open>dispatch\<close>; the dispatcher never hangs between request and
  reply.
\<close>

theorem dispatch_stops_done:
  assumes "(dstep T msgs model tmo)\<^sup>*\<^sup>* dinit s" and "\<forall>t. \<not> dstep T msgs model tmo s t"
  shows "phase s = Done (dispatch T msgs model tmo)"
proof (cases "phase s")
  case (Done r)
  with dsteps_Done [OF assms(1)] show ?thesis by simp
qed (use assms(2) dstep_progress in blast)+

theorem dispatch_stops_done_witness:
  "phase \<lparr>phase = Done (dispatch (\<lambda>m md t. Refused ''policy'') [] ''gpt'' 60), sent = [[]]\<rparr> =
     Done (ModelError ''policy'')"
proof -
  have "\<forall>t. \<not> dstep (\<lambda>m md t. Refused ''policy'') [] ''gpt'' 60
      \<lparr>phase = Done (dispatch (\<lambda>m md t. Refused ''policy'') [] ''gpt'' 60), sent = [[]]\<rparr> t"
    by (simp add: dstep_iff)
  from dispatch_stops_done [OF dsteps_reach_Done this] show ?thesis
    by (simp add: dispatch_def)
qed

end
