(* ===== verification/Render.thy ===== *)
theory Render
  imports Dispatch
begin

text \<open>
  The ModeRenderer (spec section 4.5), modelled from the specification: what one
  run prints on standard output and standard error, and its exit status.
  \<^verbatim>\<open>extract-sources\<close> prints one line per location and exits 0; in the
  other modes a \<open>Success\<close> is printed verbatim, and each failure prints one
  line on standard error that names its kind and exits with status 1, with nothing
  on standard output.
\<close>

record rendered =
  r_out :: "string list"
  r_err :: "string list"
  r_status :: int

definition render_sources :: "source_location list \<Rightarrow> rendered" where
  "render_sources locs = \<lparr>r_out = map render_location locs, r_err = [], r_status = 0\<rparr>"

text \<open>The name of a failure, as the error line shows it.\<close>

fun failure_kind :: "dispatch_result \<Rightarrow> string option" where
  "failure_kind (Success t) = None"
| "failure_kind Timeout = Some ''timeout''"
| "failure_kind (TransportError d) = Some ''transport error''"
| "failure_kind (ModelError d) = Some ''model error''"

fun failure_detail :: "dispatch_result \<Rightarrow> string" where
  "failure_detail (TransportError d) = '': '' @ d"
| "failure_detail (ModelError d) = '': '' @ d"
| "failure_detail r = []"

definition render_result :: "dispatch_result \<Rightarrow> rendered" where
  "render_result r =
     (case failure_kind r of
        None \<Rightarrow> (case r of Success t \<Rightarrow> \<lparr>r_out = [t], r_err = [], r_status = 0\<rparr>
                        | _ \<Rightarrow> \<lparr>r_out = [], r_err = [], r_status = 0\<rparr>)
      | Some k \<Rightarrow> \<lparr>r_out = [], r_err = [''cwhy: error: '' @ k @ failure_detail r], r_status = 1\<rparr>)"

section \<open>Lemmas\<close>

lemma failure_kind_None: "failure_kind r = None \<longleftrightarrow> (\<exists>t. r = Success t)"
  by (cases r) simp_all

lemma render_result_Success [simp]:
  "render_result (Success t) = \<lparr>r_out = [t], r_err = [], r_status = 0\<rparr>"
  by (simp add: render_result_def)

section \<open>Properties of the ModeRenderer\<close>

text \<open>
  Every dispatch failure is surfaced: nothing is printed on standard output
  (no partial model text), the status is non-zero, and the one error line names
  the kind of failure.
\<close>

theorem render_failure:
  assumes "failure_kind r = Some k"
  shows "r_out (render_result r) = [] \<and> r_status (render_result r) \<noteq> 0 \<and>
    (\<exists>e \<in> set (r_err (render_result r)). sublist k e)"
proof -
  have "sublist k (''cwhy: error: '' @ k @ failure_detail r)"
    by (metis sublist_appendI)
  with assms show ?thesis by (simp add: render_result_def)
qed

theorem render_failure_witness:
  "r_out (render_result Timeout) = [] \<and> r_status (render_result Timeout) \<noteq> 0 \<and>
   (\<exists>e \<in> set (r_err (render_result Timeout)). sublist ''timeout'' e)"
  by (rule render_failure) simp

end
