(* ===== verification/Pipeline.thy ===== *)
theory Pipeline
  imports Cli Render
begin

text \<open>
  The diagnostic pipeline as the core of \<^verbatim>\<open>main()\<close>: \<open>evaluate\<close> is
  \<^verbatim>\<open>cwhy.evaluate(args, stdin)\<close> as the specification describes it (spec
  sections 2 and 5: parse, assemble, build, dispatch, render, in this order, with no
  state shared between runs), run on the world of \<open>Cli\<close>.  The configuration is
  read from \<^verbatim>\<open>args\<close> (\<^verbatim>\<open>llm\<close>, \<^verbatim>\<open>timeout\<close>, \<^verbatim>\<open>max_context\<close>,
  \<^verbatim>\<open>subcommand\<close>); a source file is readable when its owner-read bit
  \<^verbatim>\<open>0o400\<close> (256) is set.  \<open>cwhy_run T\<close> is the whole program with the
  transport \<open>T\<close>: \<open>cwhy_main\<close> with \<open>evaluate T\<close> as its core.
\<close>

unbundle bit_operations_syntax

definition get_str :: "pydict \<Rightarrow> string \<Rightarrow> py_exc + string" where
  "get_str args k = (case args k of Some (PStr s) \<Rightarrow> Inr s | Some _ \<Rightarrow> Inl (ExcValueError k) | None \<Rightarrow> Inl (ExcKeyError k))"

definition get_int :: "pydict \<Rightarrow> string \<Rightarrow> py_exc + int" where
  "get_int args k = (case args k of Some (PInt i) \<Rightarrow> Inr i | Some _ \<Rightarrow> Inl (ExcValueError k) | None \<Rightarrow> Inl (ExcKeyError k))"

definition mode_of :: "string \<Rightarrow> cw_mode option" where
  "mode_of s =
     (if s = ''explain'' then Some Explain else if s = ''fix'' then Some Fix
      else if s = ''extract-sources'' then Some ExtractSources else None)"

definition config_of :: "pydict \<Rightarrow> py_exc + config" where
  "config_of args =
     (case (get_str args ''llm'', get_int args ''timeout'', get_int args ''max_context'',
            get_str args ''subcommand'') of
        (Inr md, Inr tmo, Inr k, Inr sc) \<Rightarrow>
          (case mode_of sc of
             Some m \<Rightarrow> Inr \<lparr>cfg_model = md, cfg_timeout = tmo, cfg_max_context = k, cfg_mode = m\<rparr>
           | None \<Rightarrow> Inl (ExcValueError ''subcommand''))
      | (Inl e, _, _, _) \<Rightarrow> Inl e
      | (_, Inl e, _, _) \<Rightarrow> Inl e
      | (_, _, Inl e, _) \<Rightarrow> Inl e
      | (_, _, _, Inl e) \<Rightarrow> Inl e)"

definition world_sources :: "world \<Rightarrow> source_files" where
  "world_sources w p = (case files w p of Some (t, m) \<Rightarrow> if m AND 256 \<noteq> 0 then Some t else None | None \<Rightarrow> None)"

text \<open>Printing a rendered result and exiting with its status.\<close>

definition emit :: "rendered \<Rightarrow> world \<Rightarrow> outcome \<times> world" where
  "emit r w = (Exited (r_status r), w\<lparr>out := out w @ r_out r, err := err w @ map ErrorLine (r_err r)\<rparr>)"

text \<open>
  \<^verbatim>\<open>--show-prompt\<close> (\<^verbatim>\<open>__main__.py\<close> lines 49-53, \<open>store_true\<close>, help
  ``only print prompt and exit''): in the explain and fix modes the prompt, the
  contents of the payload's messages, is printed and the run exits 0 before the
  transport is called.  The extract-sources mode builds no prompt.
\<close>

definition show_prompt :: "pydict \<Rightarrow> bool" where
  "show_prompt args = (args ''show_prompt'' = Some (PBool True))"

definition evaluate :: "transport \<Rightarrow> core" where
  "evaluate T args txt w =
     (case config_of args of
        Inl e \<Rightarrow> (Raised e, w)
      | Inr cfg \<Rightarrow>
          (let locs = parse_locations txt in
           case cfg_mode cfg of
             ExtractSources \<Rightarrow> emit (render_sources locs) w
           | _ \<Rightarrow>
               (let p = build (world_sources w) txt locs cfg in
                if show_prompt args
                then emit \<lparr>r_out = map snd (payload_messages p), r_err = [], r_status = 0\<rparr> w
                else emit (render_result (dispatch T (payload_messages p) (cfg_model cfg) (cfg_timeout cfg))) w)))"

definition cwhy_run :: "transport \<Rightarrow> string list \<Rightarrow> world \<Rightarrow> outcome \<times> world" where
  "cwhy_run T argv w = cwhy_main (evaluate T) argv w"

section \<open>Lemmas\<close>

lemma config_of_ok:
  assumes "args ''llm'' = Some (PStr md)" and "args ''timeout'' = Some (PInt tmo)"
    and "args ''max_context'' = Some (PInt k)" and "args ''subcommand'' = Some (PStr sc)"
    and "mode_of sc = Some m"
  shows "config_of args = Inr \<lparr>cfg_model = md, cfg_timeout = tmo, cfg_max_context = k, cfg_mode = m\<rparr>"
  using assms by (simp add: config_of_def get_str_def get_int_def)

lemma mode_of_subcommands:
  "c \<in> set cwhy_subcommands \<Longrightarrow> \<exists>m. mode_of c = Some m"
  by (auto simp: cwhy_subcommands_def mode_of_def)

text \<open>On a parsed command line the core always finds a configuration.\<close>

lemma cwhy_parse_config:
  assumes "cwhy_parse argv = Parsed args"
  obtains md tmo k sc m where
    "args ''llm'' = Some (PStr md)" "args ''timeout'' = Some (PInt tmo)"
    "args ''max_context'' = Some (PInt k)" "args ''subcommand'' = Some (PStr sc)"
    "mode_of sc = Some m"
    "config_of args = Inr \<lparr>cfg_model = md, cfg_timeout = tmo, cfg_max_context = k, cfg_mode = m\<rparr>"
proof -
  from cwhy_parsed_ok [OF assms] obtain b1 md tmo k b2 b3 c sc where v:
    "args ''llm'' = Some (PStr md)" "args ''timeout'' = Some (PInt tmo)"
    "args ''max_context'' = Some (PInt k)" "args ''subcommand'' = Some (PStr sc)"
    and sc: "sc \<in> set cwhy_subcommands"
    by (rule args_ok_cwhy_values)
  from mode_of_subcommands [OF sc] obtain m where "mode_of sc = Some m" by blast
  with v that show ?thesis using config_of_ok by blast
qed

lemma world_sources_stdin [simp]: "world_sources (w\<lparr>stdin := s\<rparr>) = world_sources w"
  by (simp add: world_sources_def fun_eq_iff)

lemma cwhy_run_evaluate:
  assumes "cwhy_parse argv = Parsed args"
    and "args ''wrapper'' = Some (PBool False)" and "args ''version'' = Some (PBool False)"
    and "stdin w \<noteq> []"
  shows "cwhy_run T argv w = evaluate T args (stdin w) (w\<lparr>stdin := []\<rparr>)"
  using assms by (simp add: cwhy_run_def cwhy_main_dispatch stdin_branch_def Let_def)

lemma mode_of_extract: "mode_of sc = Some ExtractSources \<longleftrightarrow> sc = ''extract-sources''"
  by (simp add: mode_of_def)

lemma evaluate_extract:
  "config_of args = Inr cfg \<Longrightarrow> cfg_mode cfg = ExtractSources \<Longrightarrow>
   evaluate T args s w = emit (render_sources (parse_locations s)) w"
  by (simp add: evaluate_def)

lemma evaluate_dispatch:
  "config_of args = Inr cfg \<Longrightarrow> cfg_mode cfg \<noteq> ExtractSources \<Longrightarrow> \<not> show_prompt args \<Longrightarrow>
   evaluate T args s w =
     emit (render_result (dispatch T (payload_messages (build (world_sources w) s (parse_locations s) cfg))
       (cfg_model cfg) (cfg_timeout cfg))) w"
  by (cases "cfg_mode cfg") (simp_all add: evaluate_def Let_def)

lemma evaluate_show_prompt:
  "config_of args = Inr cfg \<Longrightarrow> cfg_mode cfg \<noteq> ExtractSources \<Longrightarrow> show_prompt args \<Longrightarrow>
   evaluate T args s w =
     emit \<lparr>r_out = map snd (payload_messages (build (world_sources w) s (parse_locations s) cfg)),
       r_err = [], r_status = 0\<rparr> w"
  by (cases "cfg_mode cfg") (simp_all add: evaluate_def Let_def)

lemma emit_files [simp]: "snd (emit r w) = w\<lparr>out := out w @ r_out r, err := err w @ map ErrorLine (r_err r)\<rparr>"
  by (simp add: emit_def)

lemma extract_config:
  assumes "cwhy_parse argv = Parsed args" and "args ''subcommand'' = Some (PStr ''extract-sources'')"
  obtains cfg where "config_of args = Inr cfg" "cfg_mode cfg = ExtractSources"
proof -
  obtain md tmo k sc m where sc: "args ''subcommand'' = Some (PStr sc)" "mode_of sc = Some m"
    and cfg: "config_of args = Inr \<lparr>cfg_model = md, cfg_timeout = tmo, cfg_max_context = k, cfg_mode = m\<rparr>"
    using cwhy_parse_config [OF assms(1)] by metis
  from sc(1) assms(2) have "sc = ''extract-sources''" by simp
  with sc(2) have "m = ExtractSources" by (simp add: mode_of_def)
  with cfg that show ?thesis by simp
qed

lemma cwhy_run_extract:
  assumes "cwhy_parse argv = Parsed args"
    and "args ''wrapper'' = Some (PBool False)" and "args ''version'' = Some (PBool False)"
    and "args ''subcommand'' = Some (PStr ''extract-sources'')" and "stdin w \<noteq> []"
  shows "cwhy_run T argv w =
    (Exited 0, w\<lparr>stdin := [], out := out w @ map render_location (parse_locations (stdin w))\<rparr>)"
proof -
  obtain cfg where "config_of args = Inr cfg" "cfg_mode cfg = ExtractSources"
    using assms(1,4) by (rule extract_config)
  then show ?thesis
    by (simp add: cwhy_run_evaluate [OF assms(1-3) assms(5)] evaluate_extract emit_def render_sources_def)
qed

lemma cwhy_parse_fix: "cwhy_parse [''fix''] = Parsed (cwhy_defaults(''subcommand'' \<mapsto> PStr ''fix''))"
  by (rule cwhy_parse_subcommand) (simp add: cwhy_subcommands_def)

lemma cwhy_parse_extract:
  "cwhy_parse [''extract-sources''] = Parsed (cwhy_defaults(''subcommand'' \<mapsto> PStr ''extract-sources''))"
  by (rule cwhy_parse_subcommand) (simp add: cwhy_subcommands_def)

lemma cwhy_parse_show_prompt_subcommand:
  assumes "c \<in> set cwhy_subcommands"
  shows "cwhy_parse [''--show-prompt'', c] =
    Parsed (cwhy_defaults(''show_prompt'' \<mapsto> PBool True, ''subcommand'' \<mapsto> PStr c))"
  using assms cwhy_subcommand_word [OF assms]
  by (simp add: cwhy_parse_def parse_args_def parse_known_def cwhy_parser_def cwhy_option_words consume_flag
      parse_optional_positional parse_flat_def sub_parser_def)

lemma config_fix:
  "config_of (cwhy_defaults(''subcommand'' \<mapsto> PStr ''fix'')) =
     Inr \<lparr>cfg_model = ''gpt-3.5-turbo'', cfg_timeout = 60, cfg_max_context = 30, cfg_mode = Fix\<rparr>"
  by (rule config_of_ok [where sc = "''fix''"]) (simp_all add: cwhy_defaults_def mode_of_def)

end
