(* ===== verification/Session.thy ===== *)
theory Session
  imports Pipeline
begin

text \<open>
  Runs of the whole program one after the other on the same machine, as a build
  does when \<^verbatim>\<open>cwhy --wrapper\<close> has been installed as the compiler, or as a user
  does when piping diagnostics into \<^verbatim>\<open>cwhy\<close> again and again.  A session is
  an inductive relation between the world before the first run and the world after
  the last: each run gets its own command line, its own standard input, the
  candidate names its own \<^verbatim>\<open>tempfile\<close> generator yields and any umask, and is
  \<open>cwhy_run\<close> on the world the previous run left.  The invariant, proved by rule
  induction, is about the file system: a file cwhy touched did not exist before the
  session, still exists, and is writable by its owner only.
\<close>

unbundle bit_operations_syntax

inductive session :: "transport \<Rightarrow> world \<Rightarrow> world \<Rightarrow> bool" for T w0 where
  start: "session T w0 w0"
| invoke: "session T w0 w \<Longrightarrow>
    session T w0 (snd (cwhy_run T argv (w\<lparr>stdin := s, tmp_names := ns, umask := u\<rparr>)))"

text \<open>
  Every path either holds what it held at the start, or did not exist at the start
  and now holds a file that neither the group nor others may write
  (\<^verbatim>\<open>0o022\<close> is 18).
\<close>

definition files_safe :: "world \<Rightarrow> world \<Rightarrow> bool" where
  "files_safe w0 w \<longleftrightarrow>
     (\<forall>n. files w n = files w0 n \<or> files w0 n = None \<and> (\<exists>t m. files w n = Some (t, m) \<and> m AND 18 = 0))"

section \<open>Lemmas\<close>

text \<open>What one run does to the file system: nothing, or one new file that is not group- or world-writable.\<close>

definition one_new_file :: "fs \<Rightarrow> fs \<Rightarrow> bool" where
  "one_new_file f f' \<longleftrightarrow>
     f' = f \<or> (\<exists>n t m. f n = None \<and> m AND 18 = 0 \<and> f' = f(n \<mapsto> (t, m)))"

lemma evaluate_files [simp]: "files (snd (evaluate T args s w)) = files w"
  by (simp add: evaluate_def Let_def split: sum.split cw_mode.split)

lemma create_mode_no_write: "create_mode u AND 18 = 0"
proof -
  have "create_mode u AND 18 = (create_mode u AND 63) AND 18"
    by (simp add: and.assoc)
  then show ?thesis by (simp add: create_mode_private)
qed

lemma wrapper_branch_files: "one_new_file (files w) (files (snd (wrapper_branch args w)))"
proof (cases "mkstemp_name (files w) (tmp_names w)")
  case (Some n)
  then have fresh: "files w n = None" by (rule mkstemp_name_fresh)
  show ?thesis
  proof (cases "wrapper (template w) args")
    case (Inl e)
    with Some have "files (snd (wrapper_branch args w)) = (files w)(n \<mapsto> ([], create_mode (umask w)))"
      by (simp add: wrapper_branch_error)
    with fresh create_mode_no_write show ?thesis unfolding one_new_file_def by blast
  next
    case (Inr t)
    with Some have "files (snd (wrapper_branch args w)) = (files w)(n \<mapsto> (t, 493))"
      by (simp add: wrapper_branch_ok)
    moreover have "(493 :: mode) AND 18 = 0" by simp
    ultimately show ?thesis using fresh unfolding one_new_file_def by blast
  qed
qed (simp add: one_new_file_def wrapper_branch_def)

lemma cwhy_run_files: "one_new_file (files w) (files (snd (cwhy_run T argv w)))"
proof (cases "cwhy_parse argv")
  case (Parsed args)
  then show ?thesis
    using wrapper_branch_files [of w args]
    by (auto simp: cwhy_run_def cwhy_main_dispatch one_new_file_def version_branch_def stdin_branch_def
        Let_def split: option.split)
qed (simp_all add: cwhy_run_def cwhy_main_def one_new_file_def)

lemma files_safe_step:
  assumes "files_safe w0 w" and "one_new_file (files w) (files w')"
  shows "files_safe w0 w'"
  using assms unfolding files_safe_def one_new_file_def by (metis fun_upd_apply)

lemma files_safe_run:
  assumes "files_safe w0 w"
  shows "files_safe w0 (snd (cwhy_run T argv (w\<lparr>stdin := s, tmp_names := ns, umask := u\<rparr>)))"
proof -
  let ?w = "w\<lparr>stdin := s, tmp_names := ns, umask := u\<rparr>"
  have "files_safe w0 ?w" using assms by (simp add: files_safe_def)
  then show ?thesis using cwhy_run_files by (rule files_safe_step)
qed

section \<open>Properties of sessions\<close>

text \<open>
  C30.  Invariant of every session: whatever sequence of command lines, inputs,
  candidate names and umasks the runs get, and whatever the model answers, every
  path either holds what it held before the session, or did not exist before and now
  holds a file (never removed again) whose mode has neither the group- nor the
  world-write bit.  cwhy never changes or deletes an existing file, and every file it
  leaves behind, the wrapper script (\<^verbatim>\<open>0o755\<close>) or the empty file a failed
  template leaves (\<^verbatim>\<open>0o600\<close> under the umask), is writable by its owner only.
\<close>

theorem session_files_safe: "session T w0 w \<Longrightarrow> files_safe w0 w"
proof (induction rule: session.induct)
  case start
  then show ?case by (simp add: files_safe_def)
next
  case invoke
  from invoke.IH show ?case by (rule files_safe_run)
qed

theorem session_files_safe_witness:
  "files_safe
     \<lparr>stdin = [], out = [], err = [], files = [''/tmp/t1'' \<mapsto> (''keep'', 438)], tmp_names = [],
      umask = 0, template = Some ''{compiler}'', metadata = None\<rparr>
     (snd (cwhy_run (\<lambda>m md t. Replied 1 ''ok'') [''--wrapper'']
       (\<lparr>stdin = [], out = [], err = [], files = [''/tmp/t1'' \<mapsto> (''keep'', 438)], tmp_names = [],
         umask = 0, template = Some ''{compiler}'', metadata = None\<rparr>
        \<lparr>stdin := [], tmp_names := [''/tmp/t1'', ''/tmp/t2''], umask := 0\<rparr>)))"
  by (rule session_files_safe) (rule session.invoke [OF session.start])

end
