(* ===== verification/Spec2Isabelle.thy ===== *)
theory Spec2Isabelle
  imports Session
begin

text \<open>
  \<^bold>\<open>A verification development of cwhy.\<close>

  cwhy turns compiler diagnostics into explanations or fixes by an LLM.  The
  repository's source is the module \<^verbatim>\<open>src/cwhy/__main__.py\<close>: \<^verbatim>\<open>main()\<close>
  declares an argparse parser (lines 19--75), parses the command line into the
  dictionary \<^verbatim>\<open>args\<close> (line 77) and then takes one of three branches (lines
  79--90): with \<^verbatim>\<open>--wrapper\<close> it writes a compiler-wrapper script, produced by
  \<^verbatim>\<open>wrapper(args)\<close> (lines 12--15) from the installed template
  \<^verbatim>\<open>wrapper.py.in\<close> with \<^verbatim>\<open>str.format\<close>, to a fresh temporary file, makes
  it executable and prints its name; with \<^verbatim>\<open>--version\<close> it prints the
  installed version; otherwise it reads standard input and, when it is not empty,
  hands it with \<^verbatim>\<open>args\<close> to \<^verbatim>\<open>cwhy.evaluate\<close>.  That function, the
  diagnostic pipeline of the specification, lives in \<^verbatim>\<open>cwhy.py\<close>, which is not
  in the repository; it is modelled from the specification (sections 4.1--4.5) and
  plugged into \<^verbatim>\<open>main()\<close> through the \<open>core\<close> interface.

  \<^descr>[\<open>Prelude\<close>] The values argparse stores (\<open>pyval\<close>), \<^verbatim>\<open>vars(args)\<close>
    as a map \<open>pydict\<close>, Python slicing and splitting, shared list lemmas.
  \<^descr>[\<open>PyInt\<close>] \<^verbatim>\<open>int(s)\<close>, the converter of \<^verbatim>\<open>--timeout\<close> and
    \<^verbatim>\<open>--max-context\<close> (\<open>py_int\<close>: white space, sign, digits with
    underscores), and \<^verbatim>\<open>str(n)\<close> (\<open>py_str_int\<close>, which the program
    itself never calls: it is the printer the round-trip lemmas are stated with).
  \<^descr>[\<open>ArgParse\<close>] The part of Python 3.11's argparse the parser exercises, in
    the two passes of \<^verbatim>\<open>_parse_known_args\<close>: \<open>parse_optional\<close> classifies
    every word (exact option, \<^verbatim>\<open>--opt=value\<close>, unique prefix, the
    \<^verbatim>\<open>-h\<close> cluster rules, negative numbers, \<^verbatim>\<open>--\<close>), \<open>consume\<close> walks
    the words with \<open>consume_opt\<close> and \<open>take_action\<close> until the subparsers
    positional takes the rest, \<open>parse_known\<close> enters the subparser and
    \<open>parse_args\<close> rejects extras.  Errors are \<open>arg_error\<close> values.  Both
    loops are \<^verbatim>\<open>function\<close>s with a length measure.  The invariant \<open>args_ok\<close>
    is kept by every action (\<open>keeps\<close>, \<open>consume_keeps\<close>), which gives
    \<open>parse_args_args_ok\<close> for every well-formed parser.
  \<^descr>[\<open>CwhyArgs\<close>] cwhy's parser (\<open>cwhy_optionals\<close>, \<open>cwhy_defaults\<close>,
    \<open>cwhy_subcommands\<close>, \<open>cwhy_parse\<close>, and \<open>cwhy_dests\<close>, the key
    order of \<^verbatim>\<open>vars(args)\<close>): well-typed results (C1), the round
    trip through \<open>unparse\<close> (C6), the exact dictionary of an empty command
    line (C7), any integer for \<^verbatim>\<open>--timeout\<close> (C8), an integer value with
    white space around it read back through \<^verbatim>\<open>int()\<close> (C24), a misspelt
    subcommand (C25), abbreviations (C12), the ambiguity of
    \<^verbatim>\<open>--wrap\<close> (C13), options after the subcommand rejected (C14), a value
    option without its value (C32), a flag given \<^verbatim>\<open>=value\<close> (C33), help after
    the subcommand (C34), \<^verbatim>\<open>--\<close> taken as the subcommand name (C35).
  \<^descr>[\<open>PyFormat\<close>] \<^verbatim>\<open>str.format\<close> with keyword arguments in CPython's
    order: the syntax of a field (\<open>scan_name\<close>, \<open>field_tail\<close>,
    \<open>spec_scan\<close>) is checked before the lookup (\<open>fmt_field\<close>), which comes
    before the conversion (\<open>fmt_render\<close>); values print with \<^verbatim>\<open>str\<close>,
    \<^verbatim>\<open>repr\<close> or \<^verbatim>\<open>ascii\<close>, a dictionary with its keys in insertion order
    (\<open>py_repr_dict\<close>).  Lemmas: the escape round trip and the single-brace
    error, used by C10 and C11.
  \<^descr>[\<open>Tempfile\<close>] The name search of
    \<^verbatim>\<open>NamedTemporaryFile(mode="w", delete=False)\<close> (line 80): the loop of
    \<^verbatim>\<open>tempfile._mkstemp_inner\<close> as \<open>while_option\<close> over
    \<open>(seq, names)\<close> (\<open>mkstemp_retry\<close>, \<open>mkstemp_next\<close>,
    \<open>mkstemp_loop\<close>) and the raise after it (\<open>mkstemp_name\<close>); the
    creation mode \<^verbatim>\<open>0o600\<close> under the umask (\<open>create_mode\<close>).  The loop
    invariant \<open>mkstemp_inv\<close> and the measure \<open>TMP_MAX - seq\<close> give
    termination with the exact number of attempts (\<open>mkstemp_loop_ends\<close>) and
    the equivalence with the reference \<open>find\<close> on the first
    \<^verbatim>\<open>TMP_MAX\<close> candidates (\<open>mkstemp_name_first_free\<close>), on which C23,
    C26 and C27 rest.
  \<^descr>[\<open>Cli\<close>] \<^verbatim>\<open>main()\<close> over a record \<open>world\<close> (standard input, the
    printed lines, standard error as \<open>err_line\<close>s, the file system as a map from
    paths to text and a 12-bit \<open>mode\<close> word, the candidate temporary names, the
    umask, the installed template and the headers of the installed package
    metadata, looked up by \<open>msg_get\<close> as \<^verbatim>\<open>email.message.Message.get\<close>
    does).  \<open>cwhy_main core argv w\<close> gives
    an \<open>outcome\<close> (exit status or escaping exception) and the new world;
    \<open>core\<close> stands for \<^verbatim>\<open>cwhy.evaluate\<close>.  Theorems: empty input is a no-op
    (C2), non-empty input goes to the core exactly once (C3), the wrapper branch
    makes a fresh executable file and nothing else (C4), a failing template leaves
    an empty non-executable file (C5), the whole path from
    \<^verbatim>\<open>--wrapper --wrapper-compiler=C\<close> to the file (C9), escaped literal text
    of the template written through (C10), a single \<^verbatim>\<open>}\<close> in the template
    (C11), the version branch (C22), no free temporary name (C23), the script
    written under the first free candidate (C26, refinement of the retry loop by
    \<open>find\<close>), a free name means a file is created (C27, liveness), \<^verbatim>\<open>-h\<close> first ends the run before anything after it
    (C28), an invalid integer value is a usage error before anything after it
    (C29), metadata without \<^verbatim>\<open>Version\<close> prints \<^verbatim>\<open>cwhy version None\<close>
    (C31).
  \<^descr>[\<open>Locations\<close>, spec 4.1] Recognizer rules \<open>WithColumn\<close> and
    \<open>LineOnly\<close> tried in order, drive letters, continuation lines;
    \<open>parse_render_location\<close> (round trip), \<open>parse_locations_keys\<close>
    (order and duplicates kept), \<open>parse_locations_none\<close>.
  \<^descr>[\<open>Context\<close>, spec 4.2] \<open>assemble\<close>: the \<open>\<plusminus>3\<close> window clipped to
    the file, empty truncated snippets for missing files (\<open>assemble_missing\<close>,
    \<open>assemble_window\<close>).
  \<^descr>[\<open>Prompt\<close>, spec 4.3] \<open>build\<close> keeps the first \<open>max_context\<close>
    snippets (\<open>build_first_snippets\<close>); \<open>build_lazy\<close>, which reads only the
    kept files, is equal to it (\<open>build_lazy_eq\<close>).
  \<^descr>[\<open>Dispatch\<close>, spec 4.4] The one-request protocol as the inductive relation
    \<open>dstep\<close>; its invariant (\<open>dispatch_one_request\<close>: no retry), the
    refinement by the function \<open>dispatch\<close> (\<open>dispatch_refines_dstep\<close>),
    termination in two steps and progress.
  \<^descr>[\<open>Render\<close>, spec 4.5 and 7] Output and exit status per mode; failures
    print only a named error line (\<open>render_failure\<close>).
  \<^descr>[\<open>Pipeline\<close>] \<open>evaluate T\<close>: configuration from \<^verbatim>\<open>args\<close>, the
    stages in order, printing through \<open>emit\<close>; with \<^verbatim>\<open>--show-prompt\<close>
    (\<open>show_prompt\<close>, help of line 52: ``only print prompt and exit'') the
    explain and fix modes print the payload's message contents and exit 0 without
    calling the transport.  \<open>cwhy_run T\<close> is \<open>cwhy_main (evaluate T)\<close>.
  \<^descr>[\<open>Session\<close>] Runs one after the other, each with its own command line,
    input, candidate names and umask, as the inductive relation \<open>session\<close>;
    by rule induction every session keeps \<open>files_safe\<close>: existing files are never
    changed or removed, and every file cwhy leaves is writable by its owner only
    (C30).
  \<^descr>[\<open>Spec2Isabelle\<close>] The properties of the whole program, stated for
    every transport \<open>T\<close>: the extract-sources round trip (C15), no locations
    (C16), \<^verbatim>\<open>--show-prompt\<close> prints the prompt and never asks the model
    (C17), only the kept files are read (C18), extract-sources output (C19), the
    timeout scenario (C20), a successful reply (C21); C15, C16 and C19 to C21 are
    stated for runs without \<^verbatim>\<open>--show-prompt\<close>.  These rest on the
    spec-modelled pipeline.

  \<^bold>\<open>Bounds.\<close>  \<^verbatim>\<open>NamedTemporaryFile\<close> tries at most \<^verbatim>\<open>TMP_MAX\<close>
  = \<^verbatim>\<open>os.TMP_MAX\<close> = 238328 names on Linux (\<open>tmp_max\<close>); the world supplies the candidate sequence, so the
  model covers every outcome of the random choice, and a sequence shorter than
  \<^verbatim>\<open>TMP_MAX\<close> stands for one whose remaining names all exist.  The search is
  a \<open>while_option\<close>, whose \<open>None\<close> would mean non-termination;
  \<open>mkstemp_loop_halts\<close> proves it is always \<open>Some\<close>.  Permission bits are
  \<open>12 word\<close>: \<^verbatim>\<open>0o600\<close> is 384, \<^verbatim>\<open>0o755\<close> 493, the owner-read bit 256.
  The context window is the constant 3.  No model needs fuel: every loop is
  structural, has a length measure, or is the \<open>while_option\<close> above, and the
  dispatch protocol is proved to stop after two steps.

  \<^bold>\<open>Not modelled.\<close>  The text of usage and help messages (only exit statuses
  and error values); Unicode digits and spaces in \<^verbatim>\<open>int\<close>;
  \<^verbatim>\<open>str.format\<close> attribute access and non-empty format specifications
  (an explicit \<open>FmtUnsupported\<close>); characters above \<^verbatim>\<open>U+00FF\<close> in
  \<^verbatim>\<open>repr\<close> (a character is one of 256 code points); the content of
  \<^verbatim>\<open>wrapper.py.in\<close> and of the installed metadata, which are inputs of the
  world (the parsing of the \<^verbatim>\<open>METADATA\<close> file into headers and non-ASCII
  letters in header names included); the real
  \<^verbatim>\<open>cwhy.py\<close>, replaced by the specification's pipeline, in particular the
  exact instruction texts and the banner lines printed around the prompt under
  \<^verbatim>\<open>--show-prompt\<close>; the LLM transport, a parameter of every theorem.
\<close>

section \<open>Properties of the whole program\<close>

text \<open>
  C15.  End to end round trip: \<^verbatim>\<open>cwhy extract-sources\<close> given one
  well-formed diagnostic line \<^verbatim>\<open>path:line[:column]: message\<close> on standard
  input prints exactly that line and exits 0.
\<close>

theorem cwhy_run_roundtrip:
  assumes "cwhy_parse argv = Parsed args"
    and "args ''wrapper'' = Some (PBool False)" and "args ''version'' = Some (PBool False)"
    and "args ''subcommand'' = Some (PStr ''extract-sources'')"
    and "loc_ok l" and "stdin w = render_location l"
    and "args ''show_prompt'' = Some (PBool False)"
  shows "cwhy_run T argv w = (Exited 0, w\<lparr>stdin := [], out := out w @ [render_location l]\<rparr>)"
proof -
  have "stdin w \<noteq> []" using assms(6) render_location_ne by simp
  with assms(1-6) show ?thesis
    by (simp add: cwhy_run_extract parse_render_location)
qed

theorem cwhy_run_roundtrip_witness:
  "cwhy_run (\<lambda>ms md t. Replied 0 ''unused'') [''extract-sources'']
     \<lparr>stdin = ''/tmp/a.cpp:10:5: error: foo'', out = [], err = [], files = Map.empty, tmp_names = [],
      umask = 18, template = None, metadata = None\<rparr> =
   (Exited 0, \<lparr>stdin = [], out = [''/tmp/a.cpp:10:5: error: foo''], err = [], files = Map.empty,
      tmp_names = [], umask = 18, template = None, metadata = None\<rparr>)"
proof -
  let ?l = "\<lparr>loc_path = ''/tmp/a.cpp'', loc_line = 10, loc_column = Some 5, loc_message = ''error: foo''\<rparr>"
  have ok: "loc_ok ?l" by (simp add: loc_ok_def newline_def is_digit_def)
  have r: "render_location ?l = ''/tmp/a.cpp:10:5: error: foo''" by code_simp
  show ?thesis
    using cwhy_run_roundtrip [OF cwhy_parse_extract _ _ _ ok, of
        "\<lparr>stdin = ''/tmp/a.cpp:10:5: error: foo'', out = [], err = [], files = Map.empty, tmp_names = [],
          umask = 18, template = None, metadata = None\<rparr>"] r
    by (simp add: cwhy_defaults_def)
qed

text \<open>
  C16.  End to end, a diagnostic without any \<^verbatim>\<open>path:line\<close> reference (a
  linker error, say) makes \<^verbatim>\<open>cwhy extract-sources\<close> print nothing and exit 0.
\<close>

theorem cwhy_run_no_locations:
  assumes "cwhy_parse argv = Parsed args"
    and "args ''wrapper'' = Some (PBool False)" and "args ''version'' = Some (PBool False)"
    and "args ''subcommand'' = Some (PStr ''extract-sources'')" and "stdin w \<noteq> []"
    and "\<forall>l \<in> set (text_lines (stdin w)). recognize_line l = None"
    and "args ''show_prompt'' = Some (PBool False)"
  shows "cwhy_run T argv w = (Exited 0, w\<lparr>stdin := []\<rparr>)"
  using assms(1-6) by (simp add: cwhy_run_extract parse_locations_none)

theorem cwhy_run_no_locations_witness:
  "cwhy_run (\<lambda>ms md t. Replied 0 ''unused'') [''extract-sources'']
     \<lparr>stdin = ''ld: cannot find -lfoo'', out = [], err = [], files = Map.empty, tmp_names = [],
      umask = 18, template = None, metadata = None\<rparr> =
   (Exited 0, \<lparr>stdin = [], out = [], err = [], files = Map.empty,
      tmp_names = [], umask = 18, template = None, metadata = None\<rparr>)"
proof -
  have "\<forall>l \<in> set (text_lines ''ld: cannot find -lfoo''). recognize_line l = None"
    by (simp add: text_lines_def newline_def recognize_line_def recognizers_def line_num_def split_num_def
      is_digit_def)
  then show ?thesis
    using cwhy_run_no_locations [OF cwhy_parse_extract, of
        "\<lparr>stdin = ''ld: cannot find -lfoo'', out = [], err = [], files = Map.empty, tmp_names = [],
          umask = 18, template = None, metadata = None\<rparr>"]
    by (simp add: cwhy_defaults_def)
qed



text \<open>
  C18.  The program reads only the source files of the locations it keeps: two
  worlds that differ only in files outside the first \<open>max_context\<close>
  locations give the same outcome and the same output.
\<close>

theorem cwhy_run_frame_files:
  assumes "cwhy_parse argv = Parsed args"
    and "args ''wrapper'' = Some (PBool False)" and "args ''version'' = Some (PBool False)"
    and "config_of args = Inr cfg" and "stdin w \<noteq> []"
    and "\<forall>l \<in> set (take (nat (cfg_max_context cfg)) (parse_locations (stdin w))).
           world_sources (w\<lparr>files := fs'\<rparr>) (loc_path l) = world_sources w (loc_path l)"
  shows "cwhy_run T argv (w\<lparr>files := fs'\<rparr>) =
    (fst (cwhy_run T argv w), (snd (cwhy_run T argv w))\<lparr>files := fs'\<rparr>)"
proof -
  have e': "cwhy_run T argv (w\<lparr>files := fs'\<rparr>) = evaluate T args (stdin w) (w\<lparr>files := fs', stdin := []\<rparr>)"
    using cwhy_run_evaluate [OF assms(1-3), of "w\<lparr>files := fs'\<rparr>"] assms(5) by simp
  have e: "cwhy_run T argv w = evaluate T args (stdin w) (w\<lparr>stdin := []\<rparr>)"
    using cwhy_run_evaluate [OF assms(1-3) assms(5)] .
  show ?thesis
  proof (cases "cfg_mode cfg = ExtractSources")
    case True
    then show ?thesis
      using assms(4) by (simp add: e e' evaluate_extract emit_def)
  next
    case False
    have "build (world_sources (w\<lparr>files := fs', stdin := []\<rparr>)) (stdin w) (parse_locations (stdin w)) cfg =
        build (world_sources (w\<lparr>stdin := []\<rparr>)) (stdin w) (parse_locations (stdin w)) cfg"
      by (rule build_reads_kept_files) (use assms(6) in \<open>simp add: world_sources_def\<close>)
    with False show ?thesis
      using assms(4)
      by (cases "show_prompt args") (simp_all add: e e' evaluate_dispatch evaluate_show_prompt emit_def)
  qed
qed

theorem cwhy_run_frame_files_witness:
  "cwhy_run (\<lambda>ms md t. Replied 1 ''ok'') [''fix'']
     \<lparr>stdin = ''a.c:3: error: x'', out = [], err = [], files = [''b.c'' \<mapsto> (''int y;'', 420)], tmp_names = [],
      umask = 18, template = None, metadata = None\<rparr> =
   (fst (cwhy_run (\<lambda>ms md t. Replied 1 ''ok'') [''fix'']
     \<lparr>stdin = ''a.c:3: error: x'', out = [], err = [], files = Map.empty, tmp_names = [],
      umask = 18, template = None, metadata = None\<rparr>),
    (snd (cwhy_run (\<lambda>ms md t. Replied 1 ''ok'') [''fix'']
     \<lparr>stdin = ''a.c:3: error: x'', out = [], err = [], files = Map.empty, tmp_names = [],
      umask = 18, template = None, metadata = None\<rparr>))\<lparr>files := [''b.c'' \<mapsto> (''int y;'', 420)]\<rparr>)"
proof -
  have locs: "parse_locations ''a.c:3: error: x'' =
      [\<lparr>loc_path = ''a.c'', loc_line = 3, loc_column = None, loc_message = ''error: x''\<rparr>]"
    by code_simp
  show ?thesis
    using cwhy_run_frame_files [OF cwhy_parse_fix _ _ config_fix, of
        "\<lparr>stdin = ''a.c:3: error: x'', out = [], err = [], files = Map.empty, tmp_names = [],
          umask = 18, template = None, metadata = None\<rparr>" "[''b.c'' \<mapsto> (''int y;'', 420)]"]
    by (simp add: cwhy_defaults_def locs world_sources_def)
qed







end
